(* ===== verification/Prelude.thy ===== *)
theory Prelude
  imports Main "HOL-Library.AList"
begin

text \<open>
  Shared vocabulary of the development: the Python exceptions the program can raise
  (\<open>py_error\<close>), a state monad with exceptions (\<open>io\<close>) in which every modelled
  function of \<^verbatim>\<open>src/npmspec.py\<close> that touches the file system or the network is
  written, and generic lemmas on lists and prefixes that the string-handling components
  share. An exception in Python leaves every side effect that happened before it in
  place; the monad keeps the state reached at the point of the raise, so a failing
  run is a pair of an \<open>Inl\<close> error and the state it left behind.
\<close>

named_theorems io_simps "equations that run one step of the io monad"
named_theorems prefix_simps "facts about string prefixes used by the tag matcher"

section \<open>Python exceptions\<close>

datatype py_error =
    KeyError string          \<comment> \<open>\<open>d[k]\<close> with \<open>k\<close> not a key, \<open>r.headers['etag']\<close>\<close>
  | IndexError               \<comment> \<open>\<open>v[0]\<close> on an empty string\<close>
  | TypeError                \<comment> \<open>subscripting or assigning into a non-dict JSON value\<close>
  | AttributeError           \<comment> \<open>\<open>.split\<close>, \<open>.items\<close> on a value that lacks them\<close>
  | ValueError               \<comment> \<open>\<open>r.json()\<close> on a body that is not JSON\<close>
  | HTTPError nat            \<comment> \<open>\<open>raise_for_status\<close> on a 4xx/5xx status\<close>
  | ConnectionError          \<comment> \<open>\<open>requests.get\<close> failing at the transport level\<close>
  | ParseError               \<comment> \<open>\<open>ET.parse\<close> on a body that is not XML\<close>
  | IOError string           \<comment> \<open>\<open>open\<close> on a missing file or directory\<close>
  | OSError string           \<comment> \<open>\<open>os.rename\<close>, \<open>os.mkdir\<close> failures\<close>
  | Exception string         \<comment> \<open>\<open>raise Exception(msg)\<close>\<close>

section \<open>State monad with exceptions\<close>

type_synonym ('s, 'a) io = "'s \<Rightarrow> (py_error + 'a) \<times> 's"

definition io_return :: "'a \<Rightarrow> ('s, 'a) io" where
  "io_return a s = (Inr a, s)"

definition io_raise :: "py_error \<Rightarrow> ('s, 'a) io" where
  "io_raise e s = (Inl e, s)"

definition io_bind :: "('s, 'a) io \<Rightarrow> ('a \<Rightarrow> ('s, 'b) io) \<Rightarrow> ('s, 'b) io" where
  "io_bind m f s = (case m s of (Inl e, s') \<Rightarrow> (Inl e, s') | (Inr a, s') \<Rightarrow> f a s')"

text \<open>A pure computation that may raise, run without touching the state.\<close>

definition io_lift :: "py_error + 'a \<Rightarrow> ('s, 'a) io" where
  "io_lift r s = (r, s)"

text \<open>Sequencing where the first statement's value is not used (\<open>a; b\<close>).\<close>

definition io_seq :: "('s, unit) io \<Rightarrow> ('s, 'b) io \<Rightarrow> ('s, 'b) io" where
  "io_seq m n = io_bind m (\<lambda>_. n)"

lemma io_return_run [simp, io_simps]: "io_return a s = (Inr a, s)"
  by (simp add: io_return_def)

lemma io_raise_run [simp, io_simps]: "io_raise e s = (Inl e, s)"
  by (simp add: io_raise_def)

lemma io_lift_run [io_simps]: "io_lift r s = (r, s)"
  by (simp add: io_lift_def)

lemma io_bind_Inr [io_simps]: "m s = (Inr a, s') \<Longrightarrow> io_bind m f s = f a s'"
  by (simp add: io_bind_def)

lemma io_bind_Inl [io_simps]: "m s = (Inl e, s') \<Longrightarrow> io_bind m f s = (Inl e, s')"
  by (simp add: io_bind_def)

lemma io_bind_return [simp]: "io_bind (io_return a) f = f a"
  by (simp add: fun_eq_iff io_bind_def io_return_def)

lemma io_bind_raise [simp]: "io_bind (io_raise e) f = io_raise e"
  by (simp add: fun_eq_iff io_bind_def io_raise_def)

lemma io_bind_lift_Inr [simp]: "io_bind (io_lift (Inr a)) f = f a"
  by (simp add: fun_eq_iff io_bind_def io_lift_def)

lemma io_bind_lift_Inl [simp]: "io_bind (io_lift (Inl e)) f = io_raise e"
  by (simp add: fun_eq_iff io_bind_def io_lift_def io_raise_def)

lemma io_bind_assoc: "io_bind (io_bind m f) g = io_bind m (\<lambda>a. io_bind (f a) g)"
  by (simp add: fun_eq_iff io_bind_def split: prod.splits sum.splits)

lemma io_seq_run [io_simps]: "io_seq m n s = io_bind m (\<lambda>_. n) s"
  by (simp add: io_seq_def)

text \<open>A run that fails keeps the failure through every later statement.\<close>

lemma io_bind_Inl_cases:
  "io_bind m f s = (Inl e, s') \<Longrightarrow>
     m s = (Inl e, s') \<or> (\<exists>a s1. m s = (Inr a, s1) \<and> f a s1 = (Inl e, s'))"
  by (auto simp: io_bind_def split: prod.splits sum.splits)

lemma io_bind_Inr_cases:
  "io_bind m f s = (Inr b, s') \<Longrightarrow> \<exists>a s1. m s = (Inr a, s1) \<and> f a s1 = (Inr b, s')"
  by (auto simp: io_bind_def split: prod.splits sum.splits)

section \<open>Sum-type sequencing of pure computations\<close>

definition sum_bind :: "'e + 'a \<Rightarrow> ('a \<Rightarrow> 'e + 'b) \<Rightarrow> 'e + 'b" where
  "sum_bind r f = (case r of Inl e \<Rightarrow> Inl e | Inr a \<Rightarrow> f a)"

lemma sum_bind_simps [simp]:
  "sum_bind (Inl e) f = Inl e"
  "sum_bind (Inr a) f = f a"
  by (simp_all add: sum_bind_def)

lemma sum_bind_eq_Inl:
  "sum_bind r f = Inl e \<longleftrightarrow> r = Inl e \<or> (\<exists>a. r = Inr a \<and> f a = Inl e)"
  by (cases r) simp_all

lemma sum_bind_eq_Inr:
  "sum_bind r f = Inr b \<longleftrightarrow> (\<exists>a. r = Inr a \<and> f a = Inr b)"
  by (cases r) simp_all

section \<open>Prefixes\<close>

text \<open>
  Python's \<open>s.startswith(p)\<close>: the first \<open>len(p)\<close> characters of \<open>s\<close> are \<open>p\<close>.
\<close>

definition startswith :: "string \<Rightarrow> string \<Rightarrow> bool" where
  "startswith s p \<longleftrightarrow> take (length p) s = p"

lemma startswith_iff [prefix_simps]: "startswith s p \<longleftrightarrow> (\<exists>r. s = p @ r)"
  unfolding startswith_def by (metis append_eq_conv_conj append_take_drop_id)

lemma startswith_append [prefix_simps]: "startswith (p @ r) p"
  by (simp add: startswith_def)

lemma startswith_Nil [simp]: "startswith s []"
  by (simp add: startswith_def)

lemma startswith_Cons [simp]:
  "startswith (c # s) (d # p) \<longleftrightarrow> c = d \<and> startswith s p"
  by (auto simp: startswith_def)

lemma startswith_Nil_Cons [simp]: "\<not> startswith [] (d # p)"
  by (simp add: startswith_def)

text \<open>
  Two prefixes of one string are comparable: the shorter is a prefix of the longer.
  The tag matcher uses this to show that a rewritten field line never becomes a
  section boundary.
\<close>

lemma startswith_comparable:
  assumes "startswith s p" and "startswith s q" and "length p \<le> length q"
  shows "startswith q p"
proof -
  have "take (length p) q = take (length p) (take (length q) s)"
    using assms(2) by (simp add: startswith_def)
  also have "\<dots> = take (length p) s"
    using assms(3) by (simp add: min_def)
  also have "\<dots> = p"
    using assms(1) by (simp add: startswith_def)
  finally show ?thesis by (simp add: startswith_def)
qed

lemma startswith_trans:
  "startswith s p \<Longrightarrow> startswith p q \<Longrightarrow> startswith s q"
  by (auto simp: startswith_iff)

lemma startswith_append_long [prefix_simps]:
  "length q \<le> length p \<Longrightarrow> startswith (p @ r) q \<longleftrightarrow> startswith p q"
  by (simp add: startswith_def)

end
