(* ===== verification/PyString.thy ===== *)
theory PyString
  imports Prelude
begin

text \<open>
  The Python 2 \<open>str\<close> operations the program calls, on byte strings (\<open>string\<close>, a list of
  \<open>char\<close>): whitespace as the \<open>re\<close> class \<open>\s\<close> and \<open>str.lstrip\<close> see it,
  \<open>str.capitalize\<close> in the C locale, \<open>file.readlines\<close>, \<open>'\n'.join\<close>,
  \<open>os.path.basename\<close> and \<open>os.path.join\<close>. These are library functions, modelled
  from the Python 2 documentation; the lemmas about them are the ones the components need:
  \<open>readlines\<close> followed by \<open>join\<close> gives the text back, \<open>lstrip\<close> eats exactly a
  whitespace prefix, \<open>capitalize\<close> fixes the case of every letter.
\<close>

section \<open>Characters\<close>

definition LF :: char where
  "LF = CHR 0x0A"

text \<open>\<open>string.whitespace\<close> of Python 2: space, tab, LF, VT, FF, CR.\<close>

definition is_space :: "char \<Rightarrow> bool" where
  "is_space c \<longleftrightarrow> c \<in> set [CHR '' '', CHR 0x09, CHR 0x0A, CHR 0x0B, CHR 0x0C, CHR 0x0D]"

text \<open>
  ASCII case mapping of the C locale, as a table lookup so that concrete characters
  evaluate by \<open>simp\<close>.
\<close>

definition ascii_lower :: string where
  "ascii_lower = ''abcdefghijklmnopqrstuvwxyz''"

definition ascii_upper :: string where
  "ascii_upper = ''ABCDEFGHIJKLMNOPQRSTUVWXYZ''"

definition py_upper :: "char \<Rightarrow> char" where
  "py_upper c = (case map_of (zip ascii_lower ascii_upper) c of Some u \<Rightarrow> u | None \<Rightarrow> c)"

definition py_lower :: "char \<Rightarrow> char" where
  "py_lower c = (case map_of (zip ascii_upper ascii_lower) c of Some l \<Rightarrow> l | None \<Rightarrow> c)"

lemmas case_defs = py_upper_def py_lower_def ascii_lower_def ascii_upper_def

section \<open>String methods\<close>

text \<open>\<open>s.lstrip()\<close> and the match of \<open>re.match(r'\s*', s).group()\<close>.\<close>

definition lstrip :: "string \<Rightarrow> string" where
  "lstrip s = dropWhile is_space s"

definition leading_space :: "string \<Rightarrow> string" where
  "leading_space s = takeWhile is_space s"

text \<open>\<open>s.capitalize()\<close>: first character upper case, all others lower case.\<close>

fun capitalize :: "string \<Rightarrow> string" where
  "capitalize [] = []"
| "capitalize (c # cs) = py_upper c # map py_lower cs"

text \<open>\<open>sep.join(xs)\<close>.\<close>

fun py_join :: "string \<Rightarrow> string list \<Rightarrow> string" where
  "py_join sep [] = []"
| "py_join sep [x] = x"
| "py_join sep (x # y # ys) = x @ sep @ py_join sep (y # ys)"

text \<open>
  \<open>fh.readlines()\<close>: the text cut after every newline, each piece keeping its newline,
  the last piece without one when the text does not end in a newline. The loop carries
  the line read so far.
\<close>

fun readlines_acc :: "string \<Rightarrow> string \<Rightarrow> string list" where
  "readlines_acc cur [] = (if cur = [] then [] else [cur])"
| "readlines_acc cur (c # cs) =
     (if c = LF then (cur @ [c]) # readlines_acc [] cs else readlines_acc (cur @ [c]) cs)"

definition py_readlines :: "string \<Rightarrow> string list" where
  "py_readlines s = readlines_acc [] s"

text \<open>\<open>s.split('\n')[0]\<close>: the text up to the first newline.\<close>

definition first_line :: "string \<Rightarrow> string" where
  "first_line s = takeWhile (\<lambda>c. c \<noteq> LF) s"

text \<open>\<open>os.path.basename(p)\<close>: what follows the last slash.\<close>

definition basename :: "string \<Rightarrow> string" where
  "basename p = rev (takeWhile (\<lambda>c. c \<noteq> CHR ''/'') (rev p))"

text \<open>\<open>os.path.join(a, b)\<close> of \<open>posixpath\<close> for two components.\<close>

definition path_join :: "string \<Rightarrow> string \<Rightarrow> string" where
  "path_join a b =
     (if startswith b ''/'' then b
      else if a = [] \<or> last a = CHR ''/'' then a @ b
      else a @ ''/'' @ b)"

section \<open>Lemmas\<close>

lemma LF_is_space [simp]: "is_space LF"
  by (simp add: is_space_def LF_def)

lemma lstrip_leading_space: "leading_space s @ lstrip s = s"
  by (simp add: lstrip_def leading_space_def)

lemma leading_space_all: "c \<in> set (leading_space s) \<Longrightarrow> is_space c"
  by (auto simp: leading_space_def dest: set_takeWhileD)

lemma lstrip_space_append:
  "\<forall>c \<in> set ws. is_space c \<Longrightarrow> lstrip (ws @ v) = lstrip v"
  by (induction ws) (simp_all add: lstrip_def)

lemma lstrip_leading_space_append [simp]: "lstrip (leading_space s @ v) = lstrip v"
  by (rule lstrip_space_append) (auto dest: leading_space_all)

lemma capitalize_length [simp]: "length (capitalize s) = length s"
  by (cases s) simp_all

text \<open>\<open>join\<close> of one more line puts a newline in front of the rest.\<close>

lemma py_join_Cons: "ys \<noteq> [] \<Longrightarrow> py_join sep (x # ys) = x @ sep @ py_join sep ys"
  by (cases ys) simp_all

lemma readlines_acc_Nil_iff: "readlines_acc cur s = [] \<longleftrightarrow> cur = [] \<and> s = []"
  by (induction cur s rule: readlines_acc.induct) auto

text \<open>Every line \<open>readlines\<close> returns is non-empty.\<close>

lemma readlines_acc_nonempty: "l \<in> set (readlines_acc cur s) \<Longrightarrow> l \<noteq> []"
  by (induction cur s rule: readlines_acc.induct) (auto split: if_splits)

text \<open>\<open>''.join(fh.readlines())\<close> is the text read.\<close>

lemma concat_readlines_acc: "concat (readlines_acc cur s) = cur @ s"
  by (induction cur s rule: readlines_acc.induct) auto

lemma concat_py_readlines [simp]: "concat (py_readlines s) = s"
  by (simp add: py_readlines_def concat_readlines_acc)

text \<open>
  Dropping the last character of every line read and joining the lines with newlines
  gives back the text without its last character. This is the general form of the
  \<open>Spec\<close> round trip.
\<close>

lemma join_butlast_readlines_acc:
  "py_join [LF] (map butlast (readlines_acc cur s)) = butlast (cur @ s)"
proof (induction cur s rule: readlines_acc.induct)
  case (1 cur)
  then show ?case by simp
next
  case (2 cur c cs)
  show ?case
  proof (cases "c = LF")
    case True
    show ?thesis
    proof (cases "cs = []")
      case True
      with \<open>c = LF\<close> show ?thesis by simp
    next
      case False
      then have "readlines_acc [] cs \<noteq> []" by (simp add: readlines_acc_Nil_iff)
      with \<open>c = LF\<close> "2.IH"(1) False show ?thesis
        by (simp add: py_join_Cons butlast_append)
    qed
  next
    case False
    with "2.IH"(2) show ?thesis by simp
  qed
qed

lemma join_butlast_readlines: "py_join [LF] (map butlast (py_readlines s)) = butlast s"
  by (simp add: py_readlines_def join_butlast_readlines_acc)

lemma path_join_suffix: "\<exists>y. path_join a b = y @ b"
  by (auto simp: path_join_def)

lemma last_path_join: "b \<noteq> [] \<Longrightarrow> path_join a b \<noteq> [] \<and> last (path_join a b) = last b"
  by (simp add: path_join_def)

text \<open>\<open>readlines\<close> of lines joined by newlines gives them back with their newlines.\<close>

lemma readlines_acc_line:
  "LF \<notin> set l \<Longrightarrow> readlines_acc cur (l @ LF # s) = (cur @ l @ [LF]) # readlines_acc [] s"
  by (induction l arbitrary: cur) auto

lemma readlines_acc_last:
  "LF \<notin> set l \<Longrightarrow> cur @ l \<noteq> [] \<Longrightarrow> readlines_acc cur l = [cur @ l]"
  by (induction l arbitrary: cur) auto

lemma readlines_join:
  assumes "\<forall>l \<in> set (x # xs). LF \<notin> set l" and "last (x # xs) \<noteq> []"
  shows "py_readlines (py_join [LF] (x # xs)) = map (\<lambda>l. l @ [LF]) (butlast (x # xs)) @ [last (x # xs)]"
  using assms
proof (induction xs arbitrary: x)
  case Nil
  then show ?case by (simp add: py_readlines_def readlines_acc_last)
next
  case (Cons y ys)
  then have "py_readlines (py_join [LF] (y # ys)) = map (\<lambda>l. l @ [LF]) (butlast (y # ys)) @ [last (y # ys)]"
    by simp
  with Cons.prems show ?case by (simp add: py_readlines_def readlines_acc_line)
qed

end
