(* ===== verification/SpecFile.thy ===== *)
theory SpecFile
  imports PyString
begin

text \<open>
  The descriptor editor, class \<^verbatim>\<open>Spec\<close> of \<^verbatim>\<open>src/npmspec.py\<close> (lines 34--63): the
  spec file as a list of lines, read by \<^verbatim>\<open>_read\<close>, searched by \<^verbatim>\<open>gettag\<close>,
  rewritten in place by \<^verbatim>\<open>settag\<close> and printed by \<^verbatim>\<open>__str__\<close>. Both tag
  operations scan from the top and stop at the first line that starts a sub-package
  (\<open>%package \<close>) or a description (\<open>%description\<close>); the lines before it are the
  preamble. The lemmas give each scan a non-recursive description over the preamble
  (\<open>settag_lines_eq\<close>, \<open>gettag_lines_eq\<close>), show that nothing at or after a
  boundary is read or written, that the rewritten line keeps the whitespace after the
  colon, that reading back a field just set gives the new value, and how the text
  round trip through \<^verbatim>\<open>_read\<close> and \<^verbatim>\<open>__str__\<close> loses the file's last character.
\<close>

section \<open>Definitions\<close>

record spec =
  lines :: "string list"

text \<open>\<^verbatim>\<open>Spec()\<close>: a document with no lines, to be filled by a template.\<close>

definition spec_empty :: spec where
  "spec_empty = \<lparr>lines = []\<rparr>"

text \<open>
  \<^verbatim>\<open>Spec(fn)\<close> with \<^verbatim>\<open>_read\<close>: \<open>[l[:-1] for l in fh.readlines()]\<close>, the last
  character of every line cut off, whether it is a newline or not.
\<close>

definition spec_read :: "string \<Rightarrow> string list" where
  "spec_read text = map butlast (py_readlines text)"

definition spec_of_text :: "string \<Rightarrow> spec" where
  "spec_of_text text = \<lparr>lines = spec_read text\<rparr>"

text \<open>The scan stops at \<open>line.startswith('%package ') or line.startswith('%description')\<close>.\<close>

definition is_boundary :: "string \<Rightarrow> bool" where
  "is_boundary line \<longleftrightarrow> startswith line ''%package '' \<or> startswith line ''%description''"

text \<open>
  The replacement line \<open>"{}:{}{}".format(tag, spaces, value)\<close>, where \<open>spaces\<close> is
  the whitespace run that follows \<open>tag:\<close> in the old line.
\<close>

definition replace_field :: "string \<Rightarrow> string \<Rightarrow> string \<Rightarrow> string" where
  "replace_field tag value line = tag @ '':'' @ leading_space (drop (length tag + 1) line) @ value"

text \<open>The loop of \<^verbatim>\<open>settag\<close>: every matching line before the boundary is replaced.\<close>

fun settag_lines :: "string \<Rightarrow> string \<Rightarrow> string list \<Rightarrow> string list" where
  "settag_lines tag value [] = []"
| "settag_lines tag value (line # ls) =
     (if is_boundary line then line # ls
      else (if startswith line (tag @ '':'') then replace_field tag value line else line)
           # settag_lines tag value ls)"

definition settag :: "spec \<Rightarrow> string \<Rightarrow> string \<Rightarrow> spec" where
  "settag s tag value = s\<lparr>lines := settag_lines (capitalize tag) value (lines s)\<rparr>"

text \<open>The loop of \<^verbatim>\<open>gettag\<close>: the first matching line before the boundary, left-stripped.\<close>

fun gettag_lines :: "string \<Rightarrow> string list \<Rightarrow> string option" where
  "gettag_lines tag [] = None"
| "gettag_lines tag (line # ls) =
     (if is_boundary line then None
      else if startswith line (tag @ '':'') then Some (lstrip (drop (length tag + 1) line))
      else gettag_lines tag ls)"

definition gettag :: "spec \<Rightarrow> string \<Rightarrow> string option" where
  "gettag s tag = gettag_lines (capitalize tag) (lines s)"

text \<open>\<^verbatim>\<open>__str__\<close>: \<open>'\n'.join(self.lines)\<close>, with no newline after the last line.\<close>

definition spec_str :: "spec \<Rightarrow> string" where
  "spec_str s = py_join [LF] (lines s)"

text \<open>The preamble: the lines before the first boundary.\<close>

definition preamble :: "string list \<Rightarrow> string list" where
  "preamble ls = takeWhile (\<lambda>l. \<not> is_boundary l) ls"

section \<open>The scans over the preamble\<close>

lemmas spec_defs = settag_def gettag_def spec_str_def spec_of_text_def spec_read_def

lemma settag_lines_eq:
  "settag_lines tag value ls =
     map (\<lambda>l. if startswith l (tag @ '':'') then replace_field tag value l else l) (preamble ls)
     @ dropWhile (\<lambda>l. \<not> is_boundary l) ls"
  by (induction ls) (simp_all add: preamble_def)

lemma gettag_lines_eq:
  "gettag_lines tag ls =
     map_option (\<lambda>l. lstrip (drop (length tag + 1) l))
       (find (\<lambda>l. startswith l (tag @ '':'')) (preamble ls))"
  by (induction ls) (simp_all add: preamble_def)

lemma length_settag_lines [simp]: "length (settag_lines tag value ls) = length ls"
proof -
  have "length (preamble ls) + length (dropWhile (\<lambda>l. \<not> is_boundary l) ls) = length ls"
    by (metis length_append preamble_def takeWhile_dropWhile_id)
  then show ?thesis by (simp add: settag_lines_eq)
qed

text \<open>Lines at and after a boundary are neither read nor written.\<close>

lemma settag_lines_boundary:
  "is_boundary b \<Longrightarrow> settag_lines tag value (xs @ b # ys) = settag_lines tag value xs @ b # ys"
  by (induction xs) auto

lemma gettag_lines_boundary:
  "is_boundary b \<Longrightarrow> gettag_lines tag (xs @ b # ys) = gettag_lines tag xs"
  by (induction xs) auto

text \<open>Where no preamble line carries the tag, \<^verbatim>\<open>settag\<close> changes nothing.\<close>

lemma settag_lines_no_match:
  "\<forall>l \<in> set (preamble ls). \<not> startswith l (tag @ '':'') \<Longrightarrow> settag_lines tag value ls = ls"
  by (induction ls) (auto simp: preamble_def)

text \<open>The line at index \<open>i\<close> after \<^verbatim>\<open>settag\<close>.\<close>

lemma nth_settag_lines:
  "i < length ls \<Longrightarrow>
   settag_lines tag value ls ! i =
     (if i < length (preamble ls) \<and> startswith (ls ! i) (tag @ '':'')
      then replace_field tag value (ls ! i) else ls ! i)"
proof (induction ls arbitrary: i)
  case Nil
  then show ?case by simp
next
  case (Cons l ls)
  then show ?case by (cases i) (simp_all add: preamble_def)
qed

section \<open>The rewritten line\<close>

text \<open>
  A prefix without a colon that the rewritten line starts with was already a prefix of
  the old line: both start with \<open>tag:\<close>, so the prefix is inside \<open>tag:\<close>.
\<close>

lemma startswith_colon_free:
  assumes old: "startswith l (tag @ '':'')" and new: "startswith n (tag @ '':'')"
    and p: "startswith n p" and nocolon: "CHR '':'' \<notin> set p"
  shows "startswith l p"
proof (cases "length p \<le> length (tag @ '':'')")
  case True
  from p new True have "startswith (tag @ '':'') p" by (rule startswith_comparable)
  with old show ?thesis by (rule startswith_trans)
next
  case False
  then have len: "length (tag @ '':'') \<le> length p" by simp
  from new p len have "startswith p (tag @ '':'')" by (rule startswith_comparable)
  then obtain r where "p = (tag @ '':'') @ r" by (auto simp: startswith_iff)
  then have "CHR '':'' \<in> set p" by simp
  with nocolon show ?thesis by simp
qed

lemma replace_field_startswith [simp]: "startswith (replace_field tag value l) (tag @ '':'')"
  by (simp add: replace_field_def startswith_iff)

lemma replace_field_not_boundary:
  assumes old: "startswith l (tag @ '':'')" and nb: "\<not> is_boundary l"
  shows "\<not> is_boundary (replace_field tag value l)"
proof
  have keep: "startswith l p"
    if "startswith (replace_field tag value l) p" and "CHR '':'' \<notin> set p" for p
    using startswith_colon_free [OF old replace_field_startswith that] .
  assume "is_boundary (replace_field tag value l)"
  then consider "startswith (replace_field tag value l) ''%package ''"
    | "startswith (replace_field tag value l) ''%description''"
    unfolding is_boundary_def by blast
  then have "is_boundary l"
  proof cases
    case 1
    then have "startswith l ''%package ''" by (rule keep) simp
    then show ?thesis by (simp add: is_boundary_def)
  next
    case 2
    then have "startswith l ''%description''" by (rule keep) simp
    then show ?thesis by (simp add: is_boundary_def)
  qed
  with nb show False by simp
qed

lemma lstrip_replace_field [simp]:
  "lstrip (drop (Suc (length tag)) (replace_field tag value l)) = lstrip value"
  by (simp add: replace_field_def)

text \<open>The old whitespace between \<open>tag:\<close> and the value is kept in front of the new value.\<close>

lemma replace_field_keeps_space:
  assumes "l = tag @ '':'' @ ws @ old" and "\<forall>c \<in> set ws. is_space c"
    and "old = [] \<or> \<not> is_space (hd old)"
  shows "replace_field tag value l = tag @ '':'' @ ws @ value"
proof -
  have "leading_space old = []"
    using assms(3) by (cases old) (simp_all add: leading_space_def)
  then have "leading_space (ws @ old) = ws"
    using assms(2) by (simp add: leading_space_def takeWhile_append2)
  with assms(1) show ?thesis by (simp add: replace_field_def)
qed

section \<open>Reading back what was written\<close>

lemma gettag_lines_settag_lines:
  "\<exists>l \<in> set (preamble ls). startswith l (tag @ '':'') \<Longrightarrow>
   gettag_lines tag (settag_lines tag value ls) = Some (lstrip value)"
proof (induction ls)
  case Nil
  then show ?case by (simp add: preamble_def)
next
  case (Cons l ls)
  show ?case
  proof (cases "startswith l (tag @ '':'')")
    case True
    with Cons.prems have "\<not> is_boundary l" by (auto simp: preamble_def)
    with True show ?thesis by (simp add: replace_field_not_boundary)
  next
    case False
    with Cons.prems have "\<not> is_boundary l" and "\<exists>l \<in> set (preamble ls). startswith l (tag @ '':'')"
      by (auto simp: preamble_def split: if_splits)
    with False Cons.IH show ?thesis by simp
  qed
qed

lemma gettag_lines_no_match:
  "\<forall>l \<in> set (preamble ls). \<not> startswith l (tag @ '':'') \<Longrightarrow> gettag_lines tag ls = None"
  by (induction ls) (auto simp: preamble_def)

section \<open>Text round trip\<close>

lemma spec_str_of_text: "spec_str (spec_of_text text) = butlast text"
  by (simp add: spec_str_def spec_of_text_def spec_read_def join_butlast_readlines)

lemma preamble_length_le: "length (preamble ls) \<le> length ls"
  by (simp add: preamble_def length_takeWhile_le)

section \<open>Properties of the descriptor editor\<close>

text \<open>
  C1: setting a field that occurs in the preamble and reading it back gives the new
  value (left-stripped, as \<^verbatim>\<open>gettag\<close> strips every value it returns).
\<close>

theorem settag_gettag:
  assumes "\<exists>l \<in> set (preamble (lines s)). startswith l (capitalize tag @ '':'')"
  shows "gettag (settag s tag value) tag = Some (lstrip value)"
  using assms by (simp add: gettag_def settag_def gettag_lines_settag_lines)

theorem settag_gettag_witness:
  "(\<exists>l \<in> set (preamble [''Name: foo'', ''Version:  1.0.0'', ''%description'']).
      startswith l (capitalize ''version'' @ '':''))
   \<and> gettag (settag \<lparr>lines = [''Name: foo'', ''Version:  1.0.0'', ''%description'']\<rparr>
        ''version'' ''1.1.0'') ''version'' = Some ''1.1.0''"
proof -
  have h: "\<exists>l \<in> set (preamble (lines \<lparr>lines = [''Name: foo'', ''Version:  1.0.0'', ''%description'']\<rparr>)).
      startswith l (capitalize ''version'' @ '':'')"
    by (simp add: preamble_def is_boundary_def case_defs)
  show ?thesis
    using h settag_gettag [OF h, of "''1.1.0''"]
    by (simp add: lstrip_def is_space_def)
qed

text \<open>
  C2: \<^verbatim>\<open>settag\<close> keeps the number of lines, rewrites every preamble line that
  carries the tag (not only the first one) and leaves every other line as it was.
\<close>

theorem settag_frame:
  "length (lines (settag s tag value)) = length (lines s) \<and>
   (\<forall>i < length (lines s). lines (settag s tag value) ! i =
      (if i < length (preamble (lines s)) \<and> startswith (lines s ! i) (capitalize tag @ '':'')
       then replace_field (capitalize tag) value (lines s ! i) else lines s ! i))"
  by (simp add: settag_def nth_settag_lines)

theorem settag_frame_witness:
  "lines (settag \<lparr>lines = [''Version: 1'', ''Version: 2'', ''%package x'', ''Version: 3'']\<rparr>
      ''version'' ''4'') ! 1 = ''Version: 4''
   \<and> lines (settag \<lparr>lines = [''Version: 1'', ''Version: 2'', ''%package x'', ''Version: 3'']\<rparr>
      ''version'' ''4'') ! 3 = ''Version: 3''"
  using settag_frame [of "\<lparr>lines = [''Version: 1'', ''Version: 2'', ''%package x'', ''Version: 3'']\<rparr>"
      "''version''" "''4''"]
  by (simp add: preamble_def is_boundary_def case_defs replace_field_def leading_space_def
      is_space_def)

text \<open>
  C3: both scans stop at the first \<open>%package \<close> or \<open>%description\<close> line: what
  follows it is never rewritten and never read, even when it carries the tag.
\<close>

theorem tag_scan_stops_at_boundary:
  assumes "is_boundary b"
  shows "lines (settag \<lparr>lines = xs @ b # ys\<rparr> tag value) = lines (settag \<lparr>lines = xs\<rparr> tag value) @ b # ys
     \<and> gettag \<lparr>lines = xs @ b # ys\<rparr> tag = gettag \<lparr>lines = xs\<rparr> tag"
  using assms by (simp add: settag_def gettag_def settag_lines_boundary gettag_lines_boundary)

theorem tag_scan_stops_at_boundary_witness:
  "is_boundary ''%package devel''
   \<and> gettag \<lparr>lines = [''Name: foo''] @ ''%package devel'' # [''Version: 9'']\<rparr> ''version'' = None"
proof -
  have b: "is_boundary ''%package devel''" by (simp add: is_boundary_def)
  show ?thesis
    using b tag_scan_stops_at_boundary [OF b, of "[''Name: foo'']" "[''Version: 9'']" "''version''" "''1''"]
    by (simp add: gettag_def is_boundary_def case_defs)
qed

text \<open>
  C4: the rewritten line keeps the exact run of whitespace that stood between
  \<open>Tag:\<close> and the old value, and puts the new value after it.
\<close>

theorem settag_keeps_whitespace:
  assumes "i < length (preamble (lines s))"
    and "lines s ! i = capitalize tag @ '':'' @ ws @ old"
    and "\<forall>c \<in> set ws. is_space c" and "old = [] \<or> \<not> is_space (hd old)"
  shows "lines (settag s tag value) ! i = capitalize tag @ '':'' @ ws @ value"
proof -
  have "i < length (lines s)" using assms(1) preamble_length_le order_less_le_trans by blast
  moreover have "startswith (lines s ! i) (capitalize tag @ '':'')"
    using assms(2) by (simp add: startswith_iff)
  ultimately show ?thesis
    using assms by (simp add: settag_def nth_settag_lines replace_field_keeps_space)
qed

theorem settag_keeps_whitespace_witness:
  "0 < length (preamble [''Version:  1.0.0''])
   \<and> lines (settag \<lparr>lines = [''Version:  1.0.0'']\<rparr> ''version'' ''1.1.0'') ! 0 = ''Version:  1.1.0''"
proof -
  have h1: "0 < length (preamble (lines \<lparr>lines = [''Version:  1.0.0'']\<rparr>))"
    by (simp add: preamble_def is_boundary_def)
  have h2: "lines \<lparr>lines = [''Version:  1.0.0'']\<rparr> ! 0 = capitalize ''version'' @ '':'' @ ''  '' @ ''1.0.0''"
    by (simp add: case_defs)
  have h3: "\<forall>c \<in> set ''  ''. is_space c" and h4: "''1.0.0'' = [] \<or> \<not> is_space (hd ''1.0.0'')"
    by (simp_all add: is_space_def)
  show ?thesis
    using h1 settag_keeps_whitespace [OF h1 h2 h3 h4, of "''1.1.0''"]
    by (simp add: case_defs)
qed

text \<open>
  C5: printing a document read from a text gives the text without its last character.
  \<^verbatim>\<open>_read\<close> cuts the last character of every line and \<^verbatim>\<open>__str__\<close> adds no
  final newline, so a file that ends in a newline comes back without it, and a file
  that does not loses the last character of its last line.
\<close>

theorem spec_round_trip: "spec_str (spec_of_text text) = butlast text"
  by (rule spec_str_of_text)

text \<open>
  C33: writing a document and reading it back shortens its last line: \<open>__str__\<close>
  ends without a newline and \<open>_read\<close> cuts the last character of every line, so the
  last line comes back without its last character (all other lines come back intact).
\<close>

theorem spec_rewrite_shortens_last_line:
  assumes "lines s \<noteq> []" and "\<forall>l \<in> set (lines s). LF \<notin> set l" and "last (lines s) \<noteq> []"
  shows "lines (spec_of_text (spec_str s)) = butlast (lines s) @ [butlast (last (lines s))]"
proof -
  obtain x xs where s: "lines s = x # xs" using assms(1) by (cases "lines s") auto
  have "map butlast (map (\<lambda>l. l @ [LF]) (butlast (x # xs))) = butlast (x # xs)"
    by (induction xs arbitrary: x) auto
  with readlines_join [of x xs] assms s show ?thesis
    by (simp add: spec_of_text_def spec_read_def spec_str_def)
qed

text \<open>
  C6: a tag that no preamble line carries is not inserted by \<^verbatim>\<open>settag\<close>, and
  \<^verbatim>\<open>gettag\<close> reports it absent.
\<close>

theorem settag_absent_tag:
  assumes "\<forall>l \<in> set (preamble (lines s)). \<not> startswith l (capitalize tag @ '':'')"
  shows "settag s tag value = s \<and> gettag s tag = None"
  using assms by (simp add: settag_def gettag_def settag_lines_no_match gettag_lines_no_match)

theorem settag_absent_tag_witness:
  "settag \<lparr>lines = [''Name: foo'', ''%description'', ''Version: 1'']\<rparr> ''version'' ''2''
     = \<lparr>lines = [''Name: foo'', ''%description'', ''Version: 1'']\<rparr>
   \<and> gettag \<lparr>lines = [''Name: foo'', ''%description'', ''Version: 1'']\<rparr> ''version'' = None"
proof -
  have h: "\<forall>l \<in> set (preamble (lines \<lparr>lines = [''Name: foo'', ''%description'', ''Version: 1'']\<rparr>)).
      \<not> startswith l (capitalize ''version'' @ '':'')"
    by (simp add: preamble_def is_boundary_def case_defs)
  show ?thesis using settag_absent_tag [OF h, of "''2''"] by simp
qed

theorem spec_rewrite_shortens_last_line_witness:
  "lines (spec_of_text (spec_str \<lparr>lines = [''Version: 1.2.0'', ''Release: 0'']\<rparr>)) = [''Version: 1.2.0'', ''Release: '']"
  using spec_rewrite_shortens_last_line [of "\<lparr>lines = [''Version: 1.2.0'', ''Release: 0'']\<rparr>"]
  by (simp add: LF_def)

end
