(* ===== verification/Json.thy ===== *)
theory Json
  imports PyString
begin

text \<open>
  The registry's answers as \<^verbatim>\<open>json.load\<close> and \<^verbatim>\<open>r.json()\<close> return them:
  nested dicts, lists, strings, integers, booleans and \<^verbatim>\<open>None\<close>. A dict is an
  association list in the order its keys were inserted; \<open>wf_json\<close> says that no
  key occurs twice, which holds for every value the JSON decoder produces. The Python
  operations the program applies to such values are modelled with their exceptions:
  \<open>d[k]\<close> (\<open>getitem\<close>, \<open>getitem_key\<close>), \<open>d[k] = v\<close> (\<open>setitem\<close>),
  \<open>k in d\<close> (\<open>py_in\<close>), \<open>d.items()\<close> (\<open>json_items\<close>),
  \<open>s.split('\n')[0]\<close> (\<open>json_first_line\<close>) and \<open>str(v)\<close> (\<open>py_str\<close>).
  Floats and integer indexing of lists and strings are not modelled: no value the
  program subscripts is a list in a registry document.
\<close>

datatype json =
    JNull
  | JBool bool
  | JNum int
  | JStr string
  | JArr "json list"
  | JObj "(string \<times> json) list"

section \<open>Printing: \<open>str(v)\<close>\<close>

fun nat_str :: "nat \<Rightarrow> string" where
  "nat_str n =
     (if n < 10 then [''0123456789'' ! n]
      else nat_str (n div 10) @ [''0123456789'' ! (n mod 10)])"

definition int_str :: "int \<Rightarrow> string" where
  "int_str i = (if i < 0 then ''-'' @ nat_str (nat (- i)) else nat_str (nat i))"

text \<open>
  \<open>repr\<close> of a decoded value, as Python 2 prints it inside a container (strings are
  \<open>unicode\<close> and print as \<open>u'...'\<close>; escapes are not modelled).
\<close>

fun py_repr :: "json \<Rightarrow> string"
  and py_repr_list :: "json list \<Rightarrow> string"
  and py_repr_obj :: "(string \<times> json) list \<Rightarrow> string" where
  "py_repr JNull = ''None''"
| "py_repr (JBool b) = (if b then ''True'' else ''False'')"
| "py_repr (JNum i) = int_str i"
| "py_repr (JStr s) = ''u'' @ [CHR 0x27] @ s @ [CHR 0x27]"
| "py_repr (JArr xs) = ''['' @ py_repr_list xs @ '']''"
| "py_repr (JObj kvs) = ''{'' @ py_repr_obj kvs @ ''}''"
| "py_repr_list [] = []"
| "py_repr_list [x] = py_repr x"
| "py_repr_list (x # y # ys) = py_repr x @ '', '' @ py_repr_list (y # ys)"
| "py_repr_obj [] = []"
| "py_repr_obj [(k, v)] = py_repr (JStr k) @ '': '' @ py_repr v"
| "py_repr_obj ((k, v) # kv # kvs) =
     py_repr (JStr k) @ '': '' @ py_repr v @ '', '' @ py_repr_obj (kv # kvs)"

text \<open>\<open>str(v)\<close>, and what \<open>'%s' % v\<close> and \<open>'{}'.format(v)\<close> print.\<close>

fun py_str :: "json \<Rightarrow> string" where
  "py_str (JStr s) = s"
| "py_str v = py_repr v"

section \<open>Dict operations\<close>

text \<open>\<open>d[k]\<close> with a string key.\<close>

fun getitem :: "json \<Rightarrow> string \<Rightarrow> py_error + json" where
  "getitem (JObj kvs) k = (case map_of kvs k of None \<Rightarrow> Inl (KeyError k) | Some v \<Rightarrow> Inr v)"
| "getitem _ k = Inl TypeError"

text \<open>
  \<open>d[k]\<close> with a key that is itself a decoded value: a string looks up, another
  scalar is never a key of a JSON object, a list or dict is unhashable.
\<close>

fun getitem_key :: "json \<Rightarrow> json \<Rightarrow> py_error + json" where
  "getitem_key d (JStr k) = getitem d k"
| "getitem_key d (JArr xs) = Inl TypeError"
| "getitem_key d (JObj kvs) = Inl TypeError"
| "getitem_key (JObj kvs) k = Inl (KeyError (py_str k))"
| "getitem_key d k = Inl TypeError"

text \<open>\<open>d[k] = v\<close>: an existing key keeps its place, a new key goes last.\<close>

fun setitem :: "json \<Rightarrow> string \<Rightarrow> json \<Rightarrow> py_error + json" where
  "setitem (JObj kvs) k v = Inr (JObj (AList.update k v kvs))"
| "setitem _ k v = Inl TypeError"

text \<open>\<open>k in d\<close>: a key of a dict, a substring of a string, an element of a list.\<close>

fun py_in :: "string \<Rightarrow> json \<Rightarrow> py_error + bool" where
  "py_in k (JObj kvs) = Inr (k \<in> set (map fst kvs))"
| "py_in k (JStr s) = Inr (list_ex (\<lambda>i. startswith (drop i s) k) [0..<Suc (length s)])"
| "py_in k (JArr xs) = Inr (JStr k \<in> set xs)"
| "py_in k _ = Inl TypeError"

text \<open>\<open>d.items()\<close>.\<close>

fun json_items :: "json \<Rightarrow> py_error + (string \<times> json) list" where
  "json_items (JObj kvs) = Inr kvs"
| "json_items _ = Inl AttributeError"

text \<open>\<open>v.split('\n')[0]\<close>.\<close>

fun json_first_line :: "json \<Rightarrow> py_error + string" where
  "json_first_line (JStr s) = Inr (first_line s)"
| "json_first_line _ = Inl AttributeError"

section \<open>Well-formed values\<close>

fun wf_json :: "json \<Rightarrow> bool" where
  "wf_json (JArr xs) = (\<forall>x \<in> set xs. wf_json x)"
| "wf_json (JObj kvs) = (distinct (map fst kvs) \<and> (\<forall>kv \<in> set kvs. wf_json (snd kv)))"
| "wf_json _ = True"

definition is_dict :: "json \<Rightarrow> bool" where
  "is_dict v \<longleftrightarrow> (\<exists>kvs. v = JObj kvs)"

section \<open>Lemmas\<close>

lemma getitem_Inr: "getitem d k = Inr v \<longleftrightarrow> (\<exists>kvs. d = JObj kvs \<and> map_of kvs k = Some v)"
  by (cases d) (auto split: option.splits)

lemma getitem_Inl: "getitem d k = Inl e \<Longrightarrow> e = TypeError \<or> e = KeyError k"
  by (cases d) (auto split: option.splits)

lemma getitem_setitem_same:
  "setitem d k v = Inr d' \<Longrightarrow> getitem d' k = Inr v"
  by (cases d) (auto simp: update_conv')

lemma getitem_setitem_other:
  "setitem d k v = Inr d' \<Longrightarrow> k' \<noteq> k \<Longrightarrow> getitem d' k' = getitem d k'"
  by (cases d) (auto simp: update_conv')

lemma setitem_dict: "setitem d k v = Inr d' \<longleftrightarrow> is_dict d \<and> (\<forall>kvs. d = JObj kvs \<longrightarrow> d' = JObj (AList.update k v kvs))"
  by (cases d) (auto simp: is_dict_def)

lemma set_update_snd: "set (AList.update k v kvs) \<subseteq> insert (k, v) (set kvs)"
  by (induction kvs) auto

lemma wf_setitem:
  "wf_json d \<Longrightarrow> wf_json v \<Longrightarrow> setitem d k v = Inr d' \<Longrightarrow> wf_json d'"
  by (cases d) (auto simp: distinct_update dest!: set_update_snd [THEN subsetD])

lemma py_in_dict: "py_in k (JObj kvs) = Inr (map_of kvs k \<noteq> None)"
  by (simp add: map_of_eq_None_iff)

end
