(* ===== verification/TemplateData.thy ===== *)
theory TemplateData
  imports Json
begin

text \<open>
  The field-set for a new descriptor, \<^verbatim>\<open>get_templatedata\<close> of
  \<^verbatim>\<open>src/npmspec.py\<close> (lines 248--277), with the range translator it contains
  (lines 260--273): every dependency range of the registry is turned into a comparator
  \<open>name >= version\<close> after stripping a leading \<open>=\<close>, then a leading \<open>v\<close>, then a
  required \<open>^\<close> or \<open>~\<close>; any other form raises. The lemmas characterise the
  translator by an abstract grammar of the accepted strings (\<open>translate_range_iff\<close>),
  show that the accumulating loop over the dependencies computes the list-wide
  translation or the first failure (\<open>requires_loop_eq\<close>), and describe the context
  built from a registry entry, field by field and on every error path.
\<close>

section \<open>Definitions\<close>

text \<open>
  One statement \<open>if v[0] == c: v = v[1:]\<close>: \<open>v[0]\<close> raises \<open>IndexError\<close> on an
  empty string.
\<close>

fun strip_if :: "char \<Rightarrow> string \<Rightarrow> py_error + string" where
  "strip_if c [] = Inl IndexError"
| "strip_if c (d # ds) = Inr (if d = c then ds else d # ds)"

text \<open>
  The last test: \<open>if v[0] == '^' or v[0] == '~'\<close> strips the character and formats
  \<open>"{} >= {}".format(k, v)\<close>; otherwise the loop raises.
\<close>

fun range_bound :: "string \<Rightarrow> string \<Rightarrow> py_error + string" where
  "range_bound k [] = Inl IndexError"
| "range_bound k (d # ds) =
     (if d = CHR ''^'' \<or> d = CHR ''~'' then Inr (k @ '' >= '' @ ds)
      else Inl (Exception (''unsupported version specification '' @ [d])))"

text \<open>The body of the loop for one dependency whose range is a string.\<close>

definition translate_range :: "string \<Rightarrow> string \<Rightarrow> py_error + string" where
  "translate_range k v =
     sum_bind (strip_if CHR ''='' v) (\<lambda>v. sum_bind (strip_if CHR ''v'' v) (\<lambda>v. range_bound k v))"

text \<open>
  The same statements on a dependency value that is a list: \<open>v[0] == c\<close> compares
  the first element with a one-character string, \<open>v[1:]\<close> drops it, and a list that
  passes the last test fails at \<open>v.split('.')\<close>, which lists lack; the message of
  the last \<open>raise\<close> prints the element with \<open>str\<close>.
\<close>

fun strip_if_list :: "char \<Rightarrow> json list \<Rightarrow> py_error + json list" where
  "strip_if_list c [] = Inl IndexError"
| "strip_if_list c (x # xs) = Inr (if x = JStr [c] then xs else x # xs)"

fun range_bound_list :: "json list \<Rightarrow> py_error + string" where
  "range_bound_list [] = Inl IndexError"
| "range_bound_list (x # xs) =
     (if x = JStr ''^'' \<or> x = JStr ''~'' then Inl AttributeError
      else Inl (Exception (''unsupported version specification '' @ py_str x)))"

definition translate_list :: "json list \<Rightarrow> py_error + string" where
  "translate_list v =
     sum_bind (strip_if_list CHR ''='' v) (\<lambda>v. sum_bind (strip_if_list CHR ''v'' v) range_bound_list)"

text \<open>
  The loop body on any dependency value: a dict raises \<open>KeyError(0)\<close> at \<open>v[0]\<close>
  (decoded JSON keys are strings), and a number, boolean or \<open>null\<close> cannot be indexed.
\<close>

fun dep_requirement :: "string \<Rightarrow> json \<Rightarrow> py_error + string" where
  "dep_requirement k (JStr v) = translate_range k v"
| "dep_requirement k (JArr v) = translate_list v"
| "dep_requirement k (JObj kvs) = Inl (KeyError ''0'')"
| "dep_requirement k _ = Inl TypeError"

text \<open>\<open>for (k, v) in data['dependencies'].items(): ... requires.append(...)\<close>\<close>

fun requires_loop :: "(string \<times> json) list \<Rightarrow> string list \<Rightarrow> py_error + string list" where
  "requires_loop [] requires = Inr requires"
| "requires_loop ((k, v) # ds) requires =
     (case dep_requirement k v of
        Inl e \<Rightarrow> Inl e
      | Inr r \<Rightarrow> requires_loop ds (requires @ [r]))"

record template_context =
  ctx_name :: json
  ctx_version :: json
  ctx_source :: json
  ctx_description :: json
  ctx_license :: json
  ctx_url :: json
  ctx_summary :: string
  ctx_requires :: "string list"

text \<open>\<open>'license': data['license'] if 'license' in data else 'FIXME'\<close>\<close>

definition license_of :: "json \<Rightarrow> py_error + json" where
  "license_of data =
     sum_bind (py_in ''license'' data) (\<lambda>has. if has then getitem data ''license'' else Inr (JStr ''FIXME''))"

text \<open>\<open>requires\<close>: the loop runs only when \<open>'dependencies' in data\<close>.\<close>

definition requires_of :: "json \<Rightarrow> py_error + string list" where
  "requires_of data =
     sum_bind (py_in ''dependencies'' data) (\<lambda>has.
       if has then
         sum_bind (getitem data ''dependencies'') (\<lambda>deps.
         sum_bind (json_items deps) (\<lambda>items. requires_loop items []))
       else Inr [])"

text \<open>
  The dict display is evaluated left to right, so the first missing key raises; the
  requirements are computed after it.
\<close>

definition get_templatedata :: "json \<Rightarrow> py_error + template_context" where
  "get_templatedata data =
     sum_bind (getitem data ''name'') (\<lambda>name.
     sum_bind (getitem data ''version'') (\<lambda>version.
     sum_bind (sum_bind (getitem data ''dist'') (\<lambda>dist. getitem dist ''tarball'')) (\<lambda>source.
     sum_bind (getitem data ''description'') (\<lambda>description.
     sum_bind (license_of data) (\<lambda>license.
     sum_bind (getitem data ''homepage'') (\<lambda>url.
     sum_bind (sum_bind (getitem data ''description'') json_first_line) (\<lambda>summary.
     sum_bind (requires_of data) (\<lambda>requires.
       Inr \<lparr>ctx_name = name, ctx_version = version, ctx_source = source,
            ctx_description = description, ctx_license = license, ctx_url = url,
            ctx_summary = summary, ctx_requires = requires\<rparr>))))))))"

text \<open>Reference semantics of the loop: translate every dependency, fail on the first error.\<close>

fun translate_all :: "(string \<times> json) list \<Rightarrow> py_error + string list" where
  "translate_all [] = Inr []"
| "translate_all ((k, v) # ds) =
     sum_bind (dep_requirement k v) (\<lambda>r. sum_bind (translate_all ds) (\<lambda>rs. Inr (r # rs)))"

text \<open>The accepted range prefixes: nothing, \<open>=\<close>, \<open>v\<close>, \<open>=v\<close>.\<close>

definition range_prefixes :: "string list" where
  "range_prefixes = [[], ''='', ''v'', ''=v'']"

section \<open>The range translator\<close>

lemma strip_if_Inr: "strip_if c v = Inr v' \<Longrightarrow> v = v' \<or> v = c # v'"
  by (cases v) (auto split: if_splits)

lemma strip_if_Inl: "strip_if c v = Inl e \<Longrightarrow> e = IndexError"
  by (cases v) simp_all

lemma range_bound_Inr:
  "range_bound k v = Inr r \<longleftrightarrow> (\<exists>c x. v = c # x \<and> (c = CHR ''^'' \<or> c = CHR ''~'') \<and> r = k @ '' >= '' @ x)"
  by (cases v) auto

lemma range_bound_Inl:
  "range_bound k v = Inl e \<Longrightarrow>
     e = IndexError \<or>
     (\<exists>c. c \<noteq> CHR ''^'' \<and> c \<noteq> CHR ''~'' \<and> e = Exception (''unsupported version specification '' @ [c]))"
  by (cases v) (auto split: if_splits)

section \<open>The dependency loop\<close>

text \<open>The accumulating loop computes the reference translation.\<close>

lemma requires_loop_eq:
  "requires_loop ds acc = sum_bind (translate_all ds) (\<lambda>rs. Inr (acc @ rs))"
proof (induction ds arbitrary: acc)
  case Nil
  then show ?case by simp
next
  case (Cons d ds)
  obtain k v where d: "d = (k, v)" by (cases d)
  show ?case
  proof (cases "dep_requirement k v")
    case (Inl e)
    then show ?thesis by (simp add: d)
  next
    case (Inr r)
    then show ?thesis using Cons.IH [of "acc @ [r]"]
      by (cases "translate_all ds") (simp_all add: d)
  qed
qed

lemma translate_all_Inr:
  "translate_all ds = Inr rs \<longleftrightarrow> list_all2 (\<lambda>(k, v) r. dep_requirement k v = Inr r) ds rs"
proof (induction ds arbitrary: rs)
  case Nil
  then show ?case by auto
next
  case (Cons d ds)
  obtain k v where d: "d = (k, v)" by (cases d)
  show ?case
  proof (cases "dep_requirement k v")
    case (Inl e)
    then show ?thesis by (simp add: d list_all2_Cons1)
  next
    case (Inr r)
    then have "translate_all (d # ds) = sum_bind (translate_all ds) (\<lambda>rs. Inr (r # rs))"
      by (simp add: d)
    then show ?thesis using Cons.IH Inr by (auto simp: d list_all2_Cons1 sum_bind_eq_Inr)
  qed
qed

text \<open>The error of the loop is the error of one of the dependencies.\<close>

lemma translate_all_Inl:
  "translate_all ds = Inl e \<Longrightarrow> \<exists>(k, v) \<in> set ds. dep_requirement k v = Inl e"
proof (induction ds)
  case Nil
  then show ?case by simp
next
  case (Cons d ds)
  obtain k v where d: "d = (k, v)" by (cases d)
  show ?case
  proof (cases "dep_requirement k v")
    case (Inl e')
    with Cons.prems show ?thesis by (simp add: d)
  next
    case (Inr r)
    with Cons.prems have "translate_all ds = Inl e"
      by (cases "translate_all ds") (simp_all add: d)
    with Cons.IH show ?thesis by auto
  qed
qed

text \<open>One failing dependency makes the whole translation fail.\<close>

lemma translate_all_fails:
  "(k, v) \<in> set ds \<Longrightarrow> dep_requirement k v = Inl e \<Longrightarrow> \<exists>e'. translate_all ds = Inl e'"
proof (induction ds)
  case Nil
  then show ?case by simp
next
  case (Cons d ds)
  obtain k' v' where d: "d = (k', v')" by (cases d)
  show ?case
  proof (cases "dep_requirement k' v'")
    case (Inl e')
    then show ?thesis by (simp add: d)
  next
    case (Inr r)
    with Cons.prems d have "(k, v) \<in> set ds" by auto
    with Cons.IH Cons.prems(2) obtain e' where "translate_all ds = Inl e'" by blast
    with Inr show ?thesis by (simp add: d)
  qed
qed

section \<open>The context\<close>

lemma get_templatedata_Inr:
  "get_templatedata data = Inr ctx \<longleftrightarrow>
     (\<exists>dist.
        getitem data ''name'' = Inr (ctx_name ctx) \<and>
        getitem data ''version'' = Inr (ctx_version ctx) \<and>
        getitem data ''dist'' = Inr dist \<and> getitem dist ''tarball'' = Inr (ctx_source ctx) \<and>
        getitem data ''description'' = Inr (ctx_description ctx) \<and>
        license_of data = Inr (ctx_license ctx) \<and>
        getitem data ''homepage'' = Inr (ctx_url ctx) \<and>
        json_first_line (ctx_description ctx) = Inr (ctx_summary ctx) \<and>
        requires_of data = Inr (ctx_requires ctx))"
  by (cases ctx) (auto simp: get_templatedata_def sum_bind_eq_Inr)

section \<open>Properties of the range translator and the template data\<close>

text \<open>
  C7: the translator against its grammar: it accepts exactly the strings made of one of the
  prefixes \<open>''\<close>, \<open>=\<close>, \<open>v\<close>, \<open>=v\<close>, then \<open>^\<close> or \<open>~\<close>, then the bound, and
  emits the bound as a lower limit.
\<close>

theorem translate_range_grammar:
  "translate_range k v = Inr r \<longleftrightarrow>
     (\<exists>p c x. p \<in> set range_prefixes \<and> (c = CHR ''^'' \<or> c = CHR ''~'') \<and> v = p @ c # x
        \<and> r = k @ '' >= '' @ x)"
proof
  assume "translate_range k v = Inr r"
  then obtain v1 v2 where s1: "strip_if CHR ''='' v = Inr v1" and s2: "strip_if CHR ''v'' v1 = Inr v2"
    and rb: "range_bound k v2 = Inr r"
    by (auto simp: translate_range_def sum_bind_eq_Inr)
  from rb obtain c x where v2: "v2 = c # x" and c: "c = CHR ''^'' \<or> c = CHR ''~''"
    and r: "r = k @ '' >= '' @ x"
    by (auto simp: range_bound_Inr)
  from strip_if_Inr [OF s1] strip_if_Inr [OF s2] v2
  have "\<exists>p \<in> set range_prefixes. v = p @ c # x"
    by (auto simp: range_prefixes_def)
  with c r show "\<exists>p c x. p \<in> set range_prefixes \<and> (c = CHR ''^'' \<or> c = CHR ''~'') \<and> v = p @ c # x
      \<and> r = k @ '' >= '' @ x"
    by blast
next
  assume "\<exists>p c x. p \<in> set range_prefixes \<and> (c = CHR ''^'' \<or> c = CHR ''~'') \<and> v = p @ c # x
      \<and> r = k @ '' >= '' @ x"
  then show "translate_range k v = Inr r"
    by (auto simp: translate_range_def range_prefixes_def)
qed

theorem translate_range_grammar_witness:
  "translate_range ''bar'' ''^1.0.0'' = Inr ''bar >= 1.0.0''
   \<and> translate_range ''bar'' ''=v~2.1'' = Inr ''bar >= 2.1''"
proof -
  have "translate_range ''bar'' ''^1.0.0'' = Inr ''bar >= 1.0.0''"
    using translate_range_grammar [of "''bar''" "''^1.0.0''" "''bar >= 1.0.0''"]
    by (auto simp: range_prefixes_def intro!: exI [of _ "[]"])
  moreover have "translate_range ''bar'' ''=v~2.1'' = Inr ''bar >= 2.1''"
    using translate_range_grammar [of "''bar''" "''=v~2.1''" "''bar >= 2.1''"]
    by (auto simp: range_prefixes_def intro!: exI [of _ "''=v''"])
  ultimately show ?thesis by simp
qed

text \<open>
  C8: an exact pin \<open>=X\<close> whose version starts with a digit is rejected: after the
  \<open>=\<close> is stripped the next character is neither \<open>v\<close> nor \<open>^\<close>/\<open>~\<close>, and the
  loop raises with that character.
\<close>

theorem exact_pin_rejected:
  assumes "x \<noteq> []" and "hd x \<noteq> CHR ''v''" and "hd x \<noteq> CHR ''^''" and "hd x \<noteq> CHR ''~''"
  shows "translate_range k (CHR ''='' # x) = Inl (Exception (''unsupported version specification '' @ [hd x]))"
  using assms by (cases x) (simp_all add: translate_range_def)

theorem exact_pin_rejected_witness:
  "translate_range ''bar'' ''=1.0.0'' = Inl (Exception ''unsupported version specification 1'')"
  using exact_pin_rejected [of "''1.0.0''" "''bar''"] by simp

text \<open>
  C9: the translator fails only with \<open>IndexError\<close> (a range that is empty once
  \<open>=\<close> and \<open>v\<close> are stripped) or with the unsupported-specification exception naming
  a character other than \<open>^\<close> and \<open>~\<close>.
\<close>

theorem translate_range_failures:
  "translate_range k v = Inl e \<Longrightarrow>
     e = IndexError \<or>
     (\<exists>c. c \<noteq> CHR ''^'' \<and> c \<noteq> CHR ''~'' \<and> e = Exception (''unsupported version specification '' @ [c]))"
  unfolding translate_range_def sum_bind_eq_Inl
  by (blast dest: strip_if_Inl range_bound_Inl)

theorem translate_range_failures_witness:
  "translate_range ''bar'' ''>=1.0.0 <2.0.0'' = Inl (Exception ''unsupported version specification >'')
   \<and> translate_range ''bar'' ''=v'' = Inl IndexError"
proof -
  have "translate_range ''bar'' ''=v'' = Inl IndexError"
    by (simp add: translate_range_def)
  moreover have "translate_range ''bar'' ''>=1.0.0 <2.0.0'' = Inl (Exception ''unsupported version specification >'')"
    by (simp add: translate_range_def)
  ultimately show ?thesis
    using translate_range_failures [of "''bar''" "''=v''" IndexError] by simp
qed

text \<open>
  C10: the loop over \<open>data['dependencies'].items()\<close> succeeds exactly when every
  dependency translates, and then yields the translations in the order of the items.
\<close>

theorem requires_loop_translates_all:
  "requires_loop items [] = Inr rs \<longleftrightarrow>
     list_all2 (\<lambda>(k, v) r. dep_requirement k v = Inr r) items rs"
  by (simp add: requires_loop_eq translate_all_Inr [symmetric] sum_bind_eq_Inr)

theorem requires_loop_translates_all_witness:
  "requires_loop [(''bar'', JStr ''^1.0.0''), (''baz'', JStr ''~2.0'')] [] = Inr [''bar >= 1.0.0'', ''baz >= 2.0'']"
  using requires_loop_translates_all [of "[(''bar'', JStr ''^1.0.0''), (''baz'', JStr ''~2.0'')]"
      "[''bar >= 1.0.0'', ''baz >= 2.0'']"]
  by (simp add: translate_range_def)

text \<open>
  C11: one unsupported dependency aborts the whole template data: no partial list of
  requirements is ever returned.
\<close>

theorem unsupported_dependency_aborts:
  assumes "getitem data ''dependencies'' = Inr (JObj items)"
    and "(k, v) \<in> set items" and "dep_requirement k v = Inl e"
  shows "\<exists>e'. get_templatedata data = Inl e'"
proof -
  obtain e' where loop: "translate_all items = Inl e'"
    using translate_all_fails [OF assms(2,3)] by blast
  from assms(1) obtain kvs where "data = JObj kvs" and "map_of kvs ''dependencies'' = Some (JObj items)"
    by (auto simp: getitem_Inr)
  then have "requires_of data = Inl e'"
    using loop by (simp add: requires_of_def requires_loop_eq py_in_dict del: py_in.simps)
  then have "\<forall>ctx. get_templatedata data \<noteq> Inr ctx"
    using get_templatedata_Inr by fastforce
  then show ?thesis by (cases "get_templatedata data") auto
qed

theorem unsupported_dependency_aborts_witness:
  "\<exists>e'. get_templatedata (JObj [(''name'', JStr ''foo''), (''dependencies'', JObj [(''bar'', JStr ''>=1.0.0 <2.0.0'')])]) = Inl e'"
  using unsupported_dependency_aborts
      [of "JObj [(''name'', JStr ''foo''), (''dependencies'', JObj [(''bar'', JStr ''>=1.0.0 <2.0.0'')])]"
          "[(''bar'', JStr ''>=1.0.0 <2.0.0'')]" "''bar''" "JStr ''>=1.0.0 <2.0.0''"
          "Exception ''unsupported version specification >''"]
  by (simp add: translate_range_def)

text \<open>
  C12: a successful template context takes the version from the registry entry, the
  summary from the first line of its description, the license from the entry or the
  placeholder \<open>FIXME\<close>, and the requirements from translating every dependency (none
  when the entry has no \<open>dependencies\<close> key).
\<close>

theorem get_templatedata_fields:
  assumes "get_templatedata data = Inr ctx"
  shows "getitem data ''version'' = Inr (ctx_version ctx)
    \<and> (\<exists>d. getitem data ''description'' = Inr (JStr d) \<and> ctx_summary ctx = first_line d)
    \<and> ctx_license ctx = (case getitem data ''license'' of Inr l \<Rightarrow> l | Inl _ \<Rightarrow> JStr ''FIXME'')
    \<and> (case getitem data ''dependencies'' of
         Inl _ \<Rightarrow> ctx_requires ctx = []
       | Inr deps \<Rightarrow> \<exists>items. deps = JObj items
           \<and> list_all2 (\<lambda>(k, v) r. dep_requirement k v = Inr r) items (ctx_requires ctx))"
proof -
  from get_templatedata_Inr [THEN iffD1, OF assms]
  have ver: "getitem data ''version'' = Inr (ctx_version ctx)"
    and desc: "getitem data ''description'' = Inr (ctx_description ctx)"
    and sum: "json_first_line (ctx_description ctx) = Inr (ctx_summary ctx)"
    and lic: "license_of data = Inr (ctx_license ctx)"
    and req: "requires_of data = Inr (ctx_requires ctx)"
    by auto
  from ver obtain kvs where data: "data = JObj kvs"
    by (auto simp: getitem_Inr)
  from desc sum have "\<exists>d. getitem data ''description'' = Inr (JStr d) \<and> ctx_summary ctx = first_line d"
    by (cases "ctx_description ctx") auto
  moreover from lic have "ctx_license ctx = (case getitem data ''license'' of Inr l \<Rightarrow> l | Inl _ \<Rightarrow> JStr ''FIXME'')"
    by (auto simp: license_of_def data py_in_dict simp del: py_in.simps split: option.splits if_splits)
  moreover from req have "case getitem data ''dependencies'' of
         Inl _ \<Rightarrow> ctx_requires ctx = []
       | Inr deps \<Rightarrow> \<exists>items. deps = JObj items
           \<and> list_all2 (\<lambda>(k, v) r. dep_requirement k v = Inr r) items (ctx_requires ctx)"
    by (cases "map_of kvs ''dependencies''")
      (auto simp: requires_of_def data py_in_dict requires_loop_eq translate_all_Inr
        sum_bind_eq_Inr simp del: py_in.simps elim!: json_items.elims split: if_splits)
  ultimately show ?thesis using ver by blast
qed

theorem get_templatedata_fields_witness:
  "\<exists>ctx. get_templatedata (JObj [(''name'', JStr ''foo''), (''version'', JStr ''1.2.0''),
      (''dist'', JObj [(''tarball'', JStr ''https://registry.npmjs.org/foo/-/foo-1.2.0.tgz'')]),
      (''description'', JStr ''Foo tool''), (''homepage'', JStr ''https://foo.example''),
      (''dependencies'', JObj [(''bar'', JStr ''^1.0.0'')])]) = Inr ctx
    \<and> ctx_version ctx = JStr ''1.2.0'' \<and> ctx_license ctx = JStr ''FIXME''
    \<and> ctx_requires ctx = [''bar >= 1.0.0'']"
proof -
  have "\<exists>ctx. get_templatedata (JObj [(''name'', JStr ''foo''), (''version'', JStr ''1.2.0''),
      (''dist'', JObj [(''tarball'', JStr ''https://registry.npmjs.org/foo/-/foo-1.2.0.tgz'')]),
      (''description'', JStr ''Foo tool''), (''homepage'', JStr ''https://foo.example''),
      (''dependencies'', JObj [(''bar'', JStr ''^1.0.0'')])]) = Inr ctx"
    by (simp add: get_templatedata_def license_of_def requires_of_def translate_range_def)
  then obtain ctx where h: "get_templatedata (JObj [(''name'', JStr ''foo''), (''version'', JStr ''1.2.0''),
      (''dist'', JObj [(''tarball'', JStr ''https://registry.npmjs.org/foo/-/foo-1.2.0.tgz'')]),
      (''description'', JStr ''Foo tool''), (''homepage'', JStr ''https://foo.example''),
      (''dependencies'', JObj [(''bar'', JStr ''^1.0.0'')])]) = Inr ctx" ..
  from get_templatedata_fields [OF h] h show ?thesis
    by (auto simp: translate_range_def list_all2_Cons1)
qed

end
