(* ===== verification/World.thy ===== *)
theory World
  imports TemplateData
begin

text \<open>
  The part of the outside world \<^verbatim>\<open>src/npmspec.py\<close> reads and changes, and the
  primitive effects it performs on it. The state (\<open>world\<close>) holds the regular files
  by normalised path, the directories, the registry cache (one JSON document per
  package name, the files \<^verbatim>\<open>~/.npm/registry.npmjs.org/<pkg>/.cache.json\<close>) and the
  trace of every effect performed so far. The environment (\<open>env\<close>) holds what the
  program only consults: the HTTP servers as a function from URL and request headers
  to a response (or a transport failure), the JSON and XML decoders, the formatted
  UTC time, and the two jinja2 templates.

  Every effect is an \<open>event\<close>; \<open>apply_event\<close> is its transition on the world and
  appends it to the trace. The primitive operations check the conditions under which
  the Python call raises and otherwise perform exactly one event; \<open>logged\<close> says
  that a computation's final state is its initial state with the events it recorded
  applied in order, and it is closed under \<open>io_bind\<close>. A run that is cut off after its
  first \<open>k\<close> events therefore leaves \<open>fold apply_event (take k evs) w\<close>: this is how
  the crash behaviour of the change-log rewrite and the download is stated.
  \<open>open(fn, 'w')\<close> is a truncation and every \<open>fh.write\<close> an append, so a partly
  written file is visible between them.
\<close>

section \<open>State, environment, events\<close>

datatype xml = XElem (xml_tag: string) (xml_text: "string option") (xml_children: "xml list")

record response =
  status_code :: nat
  resp_headers :: "(string \<times> string) list"
  content :: string

type_synonym headers = "(string \<times> string) list"

record env =
  http :: "string \<Rightarrow> headers \<Rightarrow> response option"
  parse_json :: "string \<Rightarrow> json option"
  parse_xml :: "string \<Rightarrow> xml option"
  utcnow :: string
  render_spec :: "template_context \<Rightarrow> string"
  render_service :: "template_context \<Rightarrow> string"

datatype event =
    Get string headers
  | Truncate string
  | Append string string
  | Rename string string
  | Mkdir string
  | CacheStore string json

record world =
  files :: "string \<rightharpoonup> string"
  dirs :: "string set"
  cache :: "string \<rightharpoonup> json"
  trace :: "event list"

type_synonym 'a act = "(world, 'a) io"

text \<open>Paths: \<open>./x\<close> and \<open>x\<close> name the same file; the empty parent is the working directory.\<close>

fun norm_path :: "string \<Rightarrow> string" where
  "norm_path (CHR ''.'' # CHR ''/'' # p) = norm_path p"
| "norm_path p = p"

definition parent :: "string \<Rightarrow> string" where
  "parent p = rev (drop 1 (dropWhile (\<lambda>c. c \<noteq> CHR ''/'') (rev p)))"

definition dir_ok :: "world \<Rightarrow> string \<Rightarrow> bool" where
  "dir_ok w d \<longleftrightarrow> d = [] \<or> d \<in> dirs w"

text \<open>\<open>os.path.exists(p)\<close>.\<close>

definition path_exists :: "world \<Rightarrow> string \<Rightarrow> bool" where
  "path_exists w p \<longleftrightarrow> files w (norm_path p) \<noteq> None \<or> norm_path p \<in> dirs w"

definition file_content :: "world \<Rightarrow> string \<Rightarrow> string" where
  "file_content w p = (case files w p of Some c \<Rightarrow> c | None \<Rightarrow> [])"

fun apply_event :: "event \<Rightarrow> world \<Rightarrow> world" where
  "apply_event (Get u h) w = w\<lparr>trace := trace w @ [Get u h]\<rparr>"
| "apply_event (Truncate p) w =
     w\<lparr>files := (files w)(norm_path p \<mapsto> []), trace := trace w @ [Truncate p]\<rparr>"
| "apply_event (Append p s) w =
     w\<lparr>files := (files w)(norm_path p \<mapsto> file_content w (norm_path p) @ s),
       trace := trace w @ [Append p s]\<rparr>"
| "apply_event (Rename a b) w =
     w\<lparr>files := (files w)(norm_path a := None, norm_path b := files w (norm_path a)),
       trace := trace w @ [Rename a b]\<rparr>"
| "apply_event (Mkdir p) w =
     w\<lparr>dirs := insert (norm_path p) (dirs w), trace := trace w @ [Mkdir p]\<rparr>"
| "apply_event (CacheStore k d) w =
     w\<lparr>cache := (cache w)(k \<mapsto> d), trace := trace w @ [CacheStore k d]\<rparr>"

section \<open>Primitive effects\<close>

definition emit :: "event \<Rightarrow> unit act" where
  "emit e w = (Inr (), apply_event e w)"

text \<open>\<open>open(p, 'w')\<close>: fails on a directory or in a missing directory, else truncates.\<close>

definition open_write :: "string \<Rightarrow> unit act" where
  "open_write p w =
     (if norm_path p \<in> dirs w \<or> \<not> dir_ok w (parent (norm_path p)) then (Inl (IOError p), w)
      else emit (Truncate p) w)"

text \<open>\<open>fh.write(s)\<close> on a file opened for writing.\<close>

definition write_str :: "string \<Rightarrow> string \<Rightarrow> unit act" where
  "write_str p s = emit (Append p s)"

text \<open>\<open>open(p, 'w')\<close> followed by one \<open>fh.write(s)\<close>.\<close>

definition write_file :: "string \<Rightarrow> string \<Rightarrow> unit act" where
  "write_file p s = io_seq (open_write p) (write_str p s)"

text \<open>\<open>open(p, 'r').read()\<close> (and \<open>readlines\<close>, whose pieces concatenate to the same text).\<close>

definition read_file :: "string \<Rightarrow> string act" where
  "read_file p w = (case files w (norm_path p) of None \<Rightarrow> (Inl (IOError p), w) | Some c \<Rightarrow> (Inr c, w))"

definition os_rename :: "string \<Rightarrow> string \<Rightarrow> unit act" where
  "os_rename a b w =
     (if files w (norm_path a) = None \<or> norm_path b \<in> dirs w then (Inl (OSError a), w)
      else emit (Rename a b) w)"

definition os_mkdir :: "string \<Rightarrow> unit act" where
  "os_mkdir p w =
     (if path_exists w p \<or> \<not> dir_ok w (parent (norm_path p)) then (Inl (OSError p), w)
      else emit (Mkdir p) w)"

definition exists :: "string \<Rightarrow> bool act" where
  "exists p w = (Inr (path_exists w p), w)"

text \<open>\<open>requests.get(url, headers=hs)\<close>: the request is made (and recorded) whatever the outcome.\<close>

definition http_get :: "env \<Rightarrow> string \<Rightarrow> headers \<Rightarrow> response act" where
  "http_get E url hs w =
     (let w' = apply_event (Get url hs) w in
      case http E url hs of None \<Rightarrow> (Inl ConnectionError, w') | Some r \<Rightarrow> (Inr r, w'))"

text \<open>\<open>r.raise_for_status()\<close>: 4xx and 5xx raise.\<close>

definition raise_for_status :: "response \<Rightarrow> py_error + unit" where
  "raise_for_status r =
     (if 400 \<le> status_code r \<and> status_code r < 600 then Inl (HTTPError (status_code r)) else Inr ())"

definition resp_json :: "env \<Rightarrow> response \<Rightarrow> py_error + json" where
  "resp_json E r = (case parse_json E (content r) of None \<Rightarrow> Inl ValueError | Some j \<Rightarrow> Inr j)"

text \<open>\<open>r.headers[k]\<close>: the header dict of \<^verbatim>\<open>requests\<close> ignores case.\<close>

definition header_get :: "response \<Rightarrow> string \<Rightarrow> py_error + string" where
  "header_get r k =
     (case map_of (map (\<lambda>(n, v). (map py_lower n, v)) (resp_headers r)) (map py_lower k) of
        None \<Rightarrow> Inl (KeyError k) | Some v \<Rightarrow> Inr v)"

definition cache_load :: "string \<Rightarrow> json option act" where
  "cache_load pkg w = (Inr (cache w pkg), w)"

definition cache_store :: "string \<Rightarrow> json \<Rightarrow> unit act" where
  "cache_store pkg d = emit (CacheStore pkg d)"

text \<open>An environment for examples: the given servers and JSON decoder, fixed time and templates.\<close>

definition ex_env :: "(string \<Rightarrow> headers \<Rightarrow> response option) \<Rightarrow> (string \<Rightarrow> json option) \<Rightarrow> env" where
  "ex_env h j = \<lparr>http = h, parse_json = j, parse_xml = (\<lambda>_. None),
     utcnow = ''Mon Jan 01 00:00:00 UTC 2024'', render_spec = (\<lambda>_. ''spec''),
     render_service = (\<lambda>_. ''service'')\<rparr>"

text \<open>A computation whose final state is its initial state with recorded events applied.\<close>

definition logged :: "'a act \<Rightarrow> bool" where
  "logged m \<longleftrightarrow> (\<forall>w. \<exists>evs. snd (m w) = fold apply_event evs w)"

text \<open>A computation that leaves one part of the world (files, directories, cache) as it was.\<close>

definition keeps :: "(world \<Rightarrow> 'b) \<Rightarrow> 'a act \<Rightarrow> bool" where
  "keeps f m \<longleftrightarrow> (\<forall>w. f (snd (m w)) = f w)"

text \<open>A computation that changes files at the paths of \<open>S\<close> only.\<close>

definition keeps_outside :: "string set \<Rightarrow> 'a act \<Rightarrow> bool" where
  "keeps_outside S m \<longleftrightarrow> (\<forall>w q. q \<notin> S \<longrightarrow> files (snd (m w)) q = files w q)"

text \<open>Events that never touch a path.\<close>

fun touches :: "event \<Rightarrow> string \<Rightarrow> bool" where
  "touches (Truncate p) q = (norm_path p = q)"
| "touches (Append p s) q = (norm_path p = q)"
| "touches (Rename a b) q = (norm_path a = q \<or> norm_path b = q)"
| "touches _ q = False"

section \<open>Lemmas\<close>

named_theorems logged_intros "closure rules of logged"
named_theorems outside_intros "closure rules of keeps_outside"

lemmas act_defs = emit_def open_write_def write_str_def write_file_def read_file_def
  os_rename_def os_mkdir_def exists_def http_get_def cache_load_def cache_store_def

lemma trace_apply_event [simp]: "trace (apply_event e w) = trace w @ [e]"
  by (cases e) simp_all

lemma trace_fold_apply_event: "trace (fold apply_event evs w) = trace w @ evs"
  by (induction evs arbitrary: w) simp_all

lemma logged_trace:
  assumes "logged m" and "m w = (r, w')"
  shows "w' = fold apply_event (drop (length (trace w)) (trace w')) w"
proof -
  from assms obtain evs where w': "w' = fold apply_event evs w"
    unfolding logged_def by (metis snd_conv)
  then have "drop (length (trace w)) (trace w') = evs"
    by (simp add: trace_fold_apply_event)
  with w' show ?thesis by simp
qed

lemma logged_return [logged_intros]: "logged (io_return a)"
  by (auto simp: logged_def io_return_def intro: exI [of _ "[]"])

lemma logged_raise [logged_intros]: "logged (io_raise e)"
  by (auto simp: logged_def io_raise_def intro: exI [of _ "[]"])

lemma logged_lift [logged_intros]: "logged (io_lift r)"
  by (auto simp: logged_def io_lift_def intro: exI [of _ "[]"])

lemma logged_emit [logged_intros]: "logged (emit e)"
  by (auto simp: logged_def emit_def intro: exI [of _ "[e]"])

lemma logged_bind [logged_intros]:
  assumes "logged m" and "\<And>a. logged (f a)"
  shows "logged (io_bind m f)"
  unfolding logged_def
proof
  fix w
  obtain r w1 where m: "m w = (r, w1)" by fastforce
  from assms(1) obtain evs1 where w1: "w1 = fold apply_event evs1 w"
    unfolding logged_def by (metis m snd_conv)
  show "\<exists>evs. snd (io_bind m f w) = fold apply_event evs w"
  proof (cases r)
    case (Inl e)
    with m w1 show ?thesis by (auto simp: io_bind_def)
  next
    case (Inr a)
    from assms(2) obtain evs2 where "snd (f a w1) = fold apply_event evs2 w1"
      unfolding logged_def by blast
    with m w1 Inr show ?thesis by (auto simp: io_bind_def intro: exI [of _ "evs1 @ evs2"])
  qed
qed

lemma logged_seq [logged_intros]: "logged m \<Longrightarrow> logged n \<Longrightarrow> logged (io_seq m n)"
  unfolding io_seq_def by (rule logged_bind)

lemma logged_if [logged_intros]: "logged m \<Longrightarrow> logged n \<Longrightarrow> logged (if b then m else n)"
  by simp

lemma logged_case_prod [logged_intros]: "(\<And>a b. logged (f a b)) \<Longrightarrow> logged (case x of (a, b) \<Rightarrow> f a b)"
  by (cases x) simp

lemma logged_case_option [logged_intros]:
  "logged m \<Longrightarrow> (\<And>a. logged (f a)) \<Longrightarrow> logged (case x of None \<Rightarrow> m | Some a \<Rightarrow> f a)"
  by (cases x) simp_all

text \<open>A primitive that either leaves the world alone or performs one event is logged.\<close>

lemma logged_one:
  assumes "\<And>w. snd (m w) = w \<or> snd (m w) = apply_event e w"
  shows "logged m"
  unfolding logged_def
proof
  fix w
  from assms [of w] show "\<exists>evs. snd (m w) = fold apply_event evs w"
  proof
    assume "snd (m w) = w"
    then show ?thesis by (intro exI [of _ "[]"]) simp
  next
    assume "snd (m w) = apply_event e w"
    then show ?thesis by (intro exI [of _ "[e]"]) simp
  qed
qed

lemma logged_open_write [logged_intros]: "logged (open_write p)"
  by (rule logged_one [where e = "Truncate p"]) (simp add: open_write_def emit_def)

lemma logged_write_str [logged_intros]: "logged (write_str p s)"
  by (simp add: write_str_def logged_emit)

lemma logged_write_file [logged_intros]: "logged (write_file p s)"
  by (simp add: write_file_def logged_seq logged_open_write logged_write_str)

lemma logged_read_file [logged_intros]: "logged (read_file p)"
  by (rule logged_one [where e = "Get [] []"]) (simp add: read_file_def split: option.splits)

lemma logged_os_rename [logged_intros]: "logged (os_rename a b)"
  by (rule logged_one [where e = "Rename a b"]) (simp add: os_rename_def emit_def)

lemma logged_os_mkdir [logged_intros]: "logged (os_mkdir p)"
  by (rule logged_one [where e = "Mkdir p"]) (simp add: os_mkdir_def emit_def)

lemma logged_exists [logged_intros]: "logged (exists p)"
  by (rule logged_one [where e = "Get [] []"]) (simp add: exists_def)

lemma logged_http_get [logged_intros]: "logged (http_get E url hs)"
  by (rule logged_one [where e = "Get url hs"]) (simp add: http_get_def Let_def split: option.splits)

lemma logged_cache_load [logged_intros]: "logged (cache_load pkg)"
  by (rule logged_one [where e = "Get [] []"]) (simp add: cache_load_def)

lemma logged_cache_store [logged_intros]: "logged (cache_store pkg d)"
  by (simp add: cache_store_def logged_emit)

named_theorems keeps_intros "closure rules of keeps"

lemma keeps_return [keeps_intros]: "keeps f (io_return a)"
  by (simp add: keeps_def)

lemma keeps_raise [keeps_intros]: "keeps f (io_raise e)"
  by (simp add: keeps_def)

lemma keeps_lift [keeps_intros]: "keeps f (io_lift r)"
  by (simp add: keeps_def io_lift_def)

lemma keeps_bind [keeps_intros]:
  assumes "keeps f m" and "\<And>a. keeps f (g a)"
  shows "keeps f (io_bind m g)"
  unfolding keeps_def
proof
  fix w
  obtain r w1 where m: "m w = (r, w1)" by fastforce
  with assms(1) have "f w1 = f w" by (metis keeps_def snd_conv)
  with m assms(2) show "f (snd (io_bind m g w)) = f w"
    by (cases r) (auto simp: io_bind_def keeps_def)
qed

lemma keeps_seq [keeps_intros]: "keeps f m \<Longrightarrow> keeps f n \<Longrightarrow> keeps f (io_seq m n)"
  unfolding io_seq_def by (rule keeps_bind)

lemma keeps_if [keeps_intros]: "keeps f m \<Longrightarrow> keeps f n \<Longrightarrow> keeps f (if b then m else n)"
  by simp

lemma keeps_case_option [keeps_intros]:
  "keeps f m \<Longrightarrow> (\<And>a. keeps f (g a)) \<Longrightarrow> keeps f (case x of None \<Rightarrow> m | Some a \<Rightarrow> g a)"
  by (cases x) simp_all

lemma keeps_case_prod [keeps_intros]: "(\<And>a b. keeps f (g a b)) \<Longrightarrow> keeps f (case x of (a, b) \<Rightarrow> g a b)"
  by (cases x) simp

lemma keeps_cache_primitives [keeps_intros]:
  "keeps cache (open_write p)" "keeps cache (write_str p s)" "keeps cache (write_file p s)"
  "keeps cache (read_file p)" "keeps cache (os_rename a b)" "keeps cache (os_mkdir p)"
  "keeps cache (exists p)" "keeps cache (http_get E url hs)"
  by (simp_all add: keeps_def act_defs io_seq_def io_bind_def Let_def split: prod.split sum.split option.split)

lemma keeps_files_primitives [keeps_intros]:
  "keeps files (read_file p)" "keeps files (os_mkdir p)" "keeps files (exists p)"
  "keeps files (http_get E url hs)" "keeps files (cache_load pkg)" "keeps files (cache_store pkg d)"
  by (simp_all add: keeps_def act_defs Let_def split: option.split)

lemma keeps_dirs_primitives [keeps_intros]:
  "keeps dirs (open_write p)" "keeps dirs (write_str p s)" "keeps dirs (write_file p s)"
  "keeps dirs (read_file p)" "keeps dirs (os_rename a b)" "keeps dirs (exists p)"
  "keeps dirs (http_get E url hs)" "keeps dirs (cache_load pkg)" "keeps dirs (cache_store pkg d)"
  by (simp_all add: keeps_def act_defs io_seq_def io_bind_def Let_def split: prod.split sum.split option.split)

text \<open>Closure of \<open>keeps_outside\<close>: a computation that keeps the files keeps them outside any set.\<close>

lemma outside_keeps: "keeps files m \<Longrightarrow> keeps_outside S m"
  by (simp add: keeps_def keeps_outside_def)

lemma outside_bind [outside_intros]:
  assumes "keeps_outside S m" and "\<And>a. keeps_outside S (g a)"
  shows "keeps_outside S (io_bind m g)"
  unfolding keeps_outside_def
proof (intro allI impI)
  fix w q
  assume q: "q \<notin> S"
  obtain r w1 where m: "m w = (r, w1)" by fastforce
  with assms(1) q have "files w1 q = files w q" by (metis keeps_outside_def snd_conv)
  with m assms(2) q show "files (snd (io_bind m g w)) q = files w q"
    by (cases r) (auto simp: io_bind_def keeps_outside_def)
qed

lemma outside_seq [outside_intros]:
  "keeps_outside S m \<Longrightarrow> keeps_outside S n \<Longrightarrow> keeps_outside S (io_seq m n)"
  unfolding io_seq_def by (rule outside_bind)

lemma outside_if [outside_intros]:
  "keeps_outside S m \<Longrightarrow> keeps_outside S n \<Longrightarrow> keeps_outside S (if b then m else n)"
  by simp

lemma outside_primitives [outside_intros]:
  "keeps_outside S (io_return a)" "keeps_outside S (io_raise e)" "keeps_outside S (exists p)"
  "keeps_outside S (read_file p)" "keeps_outside S (os_mkdir p)"
  by (rule outside_keeps, intro keeps_intros)+

lemma outside_write_file [outside_intros]: "norm_path p \<in> S \<Longrightarrow> keeps_outside S (write_file p s)"
  by (auto simp: keeps_outside_def write_file_def io_seq_def io_bind_def open_write_def write_str_def emit_def)

lemma keeps_outsideD: "keeps_outside S m \<Longrightarrow> m w = (r, w') \<Longrightarrow> q \<notin> S \<Longrightarrow> files w' q = files w q"
  by (metis keeps_outside_def snd_conv)

lemma keepsD: "keeps f m \<Longrightarrow> m w = (r, w') \<Longrightarrow> f w' = f w"
  by (metis keeps_def snd_conv)

lemma write_file_ok:
  assumes "write_file p s w = (Inr (), w')"
  shows "files w' = (files w)(norm_path p \<mapsto> s)"
  using assms by (auto simp: write_file_def io_seq_def io_bind_def open_write_def write_str_def emit_def
      file_content_def split: if_splits)

lemma write_file_run:
  "norm_path p \<notin> dirs w \<Longrightarrow> dir_ok w (parent (norm_path p)) \<Longrightarrow>
   write_file p s w = (Inr (), apply_event (Append p s) (apply_event (Truncate p) w))"
  by (simp add: write_file_def io_seq_def io_bind_def open_write_def write_str_def emit_def)

text \<open>An event that does not touch a path leaves that path's file as it was.\<close>

lemma files_apply_event_other:
  "\<not> touches e q \<Longrightarrow> files (apply_event e w) q = files w q"
  by (cases e) auto

lemma files_fold_other:
  "\<forall>e \<in> set evs. \<not> touches e q \<Longrightarrow> files (fold apply_event evs w) q = files w q"
  by (induction evs arbitrary: w) (simp_all add: files_apply_event_other)

text \<open>Appending a suffix that starts with neither \<open>/\<close> nor \<open>./\<close> commutes with normalisation.\<close>

lemma norm_path_plain: "\<not> startswith q ''./'' \<Longrightarrow> norm_path q = q"
  by (cases q rule: norm_path.cases) auto

lemma norm_path_append:
  "\<not> startswith q ''/'' \<Longrightarrow> \<not> startswith q ''./'' \<Longrightarrow> norm_path (p @ q) = norm_path p @ q"
  by (induction p rule: norm_path.induct) (auto simp: norm_path_plain)

lemma norm_path_new [simp]: "norm_path (fn @ ''.new'') = norm_path fn @ ''.new''"
  by (rule norm_path_append) simp_all

lemma norm_path_new_neq: "norm_path (fn @ ''.new'') \<noteq> norm_path fn"
  by (simp add: norm_path_new)

lemma last_norm_path: "last p \<noteq> CHR ''/'' \<Longrightarrow> p \<noteq> [] \<Longrightarrow> norm_path p \<noteq> [] \<and> last (norm_path p) = last p"
  by (induction p rule: norm_path.induct) auto

text \<open>Two paths with different endings differ.\<close>

lemma norm_path_suffix: "CHR ''/'' \<notin> set s \<Longrightarrow> norm_path (x @ s) = norm_path x @ s"
  by (rule norm_path_append) (auto simp: startswith_iff)

lemma suffix_neq:
  assumes "take (min (length s1) (length s2)) (rev s1) \<noteq> take (min (length s1) (length s2)) (rev s2)"
  shows "y1 @ s1 \<noteq> y2 @ s2"
proof
  assume "y1 @ s1 = y2 @ s2"
  then have "take (min (length s1) (length s2)) (rev s1 @ rev y1) =
      take (min (length s1) (length s2)) (rev s2 @ rev y2)"
    by (metis rev_append)
  with assms show False by simp
qed

end
