(* ===== verification/Registry.thy ===== *)
theory Registry
  imports World
begin

text \<open>
  The conditional-fetch cache, \<^verbatim>\<open>fetch_registry\<close> of \<^verbatim>\<open>src/npmspec.py\<close>
  (lines 217--246). The cached document of a package (with the entity tag of the
  response it came from under the key \<open>_etag\<close>) is loaded, its tag is sent as
  \<open>if-none-match\<close>, and a 304 answer reuses the cached document; any other answer is
  checked by \<open>raise_for_status\<close>, decoded, tagged with the response's \<open>etag\<close>
  header and stored. In both cases the entry of the version named by
  \<open>dist-tags.latest\<close> is returned. The lemmas give the result and the cache on the
  304 path and on the fresh path, show that every cache entry keeps a string tag
  (\<open>cache_ok\<close>, an invariant of every run, failing ones included), and that two
  fetches against a server that honours \<open>if-none-match\<close> return the same entry and
  leave the cache as the first one left it.
\<close>

section \<open>Definitions\<close>

definition registry_url :: "string \<Rightarrow> string" where
  "registry_url pkg = ''https://registry.npmjs.org/'' @ pkg"

definition base_headers :: headers where
  "base_headers = [(''accept-encoding'', ''gzip''), (''accept'', ''application/json'')]"

text \<open>\<open>headers['etag'] = headers['if-none-match'] = data['_etag']\<close> when a document is cached.\<close>

definition request_headers :: "json option \<Rightarrow> py_error + headers" where
  "request_headers cached =
     (case cached of
        None \<Rightarrow> Inr base_headers
      | Some d \<Rightarrow> sum_bind (getitem d ''_etag'') (\<lambda>t.
          Inr (base_headers @ [(''etag'', py_str t), (''if-none-match'', py_str t)])))"

text \<open>
  The fresh-content branch: \<open>raise_for_status\<close>, \<open>data = r.json()\<close>,
  \<open>data['_etag'] = r.headers['etag']\<close> (right side first), then the cache file is written.
\<close>

definition store_fresh :: "env \<Rightarrow> string \<Rightarrow> response \<Rightarrow> json act" where
  "store_fresh E pkg r =
     io_bind (io_lift (raise_for_status r)) (\<lambda>_.
     io_bind (io_lift (resp_json E r)) (\<lambda>body.
     io_bind (io_lift (header_get r ''etag'')) (\<lambda>etag.
     io_bind (io_lift (setitem body ''_etag'' (JStr etag))) (\<lambda>data.
     io_seq (cache_store pkg data) (io_return data)))))"

text \<open>\<open>version = data['dist-tags']['latest']; return data['versions'][version]\<close>\<close>

definition latest_entry :: "json \<Rightarrow> py_error + json" where
  "latest_entry data =
     sum_bind (getitem data ''dist-tags'') (\<lambda>tags.
     sum_bind (getitem tags ''latest'') (\<lambda>version.
     sum_bind (getitem data ''versions'') (\<lambda>versions. getitem_key versions version)))"

definition fetch_registry :: "env \<Rightarrow> string \<Rightarrow> json act" where
  "fetch_registry E pkg =
     io_bind (cache_load pkg) (\<lambda>cached.
     io_bind (io_lift (request_headers cached)) (\<lambda>hs.
     io_bind (http_get E (registry_url pkg) hs) (\<lambda>r.
     io_bind (case cached of
                None \<Rightarrow> store_fresh E pkg r
              | Some d \<Rightarrow> if status_code r \<noteq> 304 then store_fresh E pkg r else io_return d) (\<lambda>data.
     io_lift (latest_entry data)))))"

text \<open>Every cached document carries the entity tag of its response as a string.\<close>

definition cache_ok :: "world \<Rightarrow> bool" where
  "cache_ok w \<longleftrightarrow> (\<forall>pkg d. cache w pkg = Some d \<longrightarrow> (\<exists>t. getitem d ''_etag'' = Inr (JStr t)))"

text \<open>
  A registry that honours conditional requests for one package: 304 when the
  \<open>if-none-match\<close> header carries the current tag, otherwise 200 with the current
  body and tag.
\<close>

definition conditional_server :: "env \<Rightarrow> string \<Rightarrow> string \<Rightarrow> string \<Rightarrow> bool" where
  "conditional_server E pkg body tag \<longleftrightarrow>
     (\<forall>hs. http E (registry_url pkg) hs =
        Some (if map_of hs ''if-none-match'' = Some tag
              then \<lparr>status_code = 304, resp_headers = [], content = []\<rparr>
              else \<lparr>status_code = 200, resp_headers = [(''ETag'', tag)], content = body\<rparr>))"

text \<open>A cached registry document, a world holding it and a registry that answers 304.\<close>

definition ex_doc :: json where
  "ex_doc = JObj [(''_etag'', JStr ''abc''), (''dist-tags'', JObj [(''latest'', JStr ''1.0.0'')]),
     (''versions'', JObj [(''1.0.0'', JObj [(''version'', JStr ''1.0.0'')])])]"

definition ex_world :: world where
  "ex_world = \<lparr>files = Map.empty, dirs = {}, cache = [''foo'' \<mapsto> ex_doc], trace = []\<rparr>"

definition ex_registry_env :: "(string \<Rightarrow> headers \<Rightarrow> response option) \<Rightarrow> env" where
  "ex_registry_env h = ex_env h (\<lambda>_. Some ex_doc)"

section \<open>Running the fetch\<close>

lemmas fetch_defs = fetch_registry_def store_fresh_def io_bind_def io_seq_def io_lift_def
  io_return_def cache_load_def cache_store_def emit_def http_get_def

lemma logged_store_fresh [logged_intros]: "logged (store_fresh E pkg r)"
  unfolding store_fresh_def by (intro logged_intros)

lemma logged_fetch_registry [logged_intros]: "logged (fetch_registry E pkg)"
  unfolding fetch_registry_def by (intro logged_intros; simp split: option.splits add: logged_intros)

lemma keeps_fetch_registry [keeps_intros]:
  "keeps files (fetch_registry E pkg)" "keeps dirs (fetch_registry E pkg)"
  unfolding fetch_registry_def store_fresh_def by (intro keeps_intros)+

text \<open>The fresh branch, when the answer is a 2xx/3xx with a dict body and an etag header.\<close>

lemma store_fresh_ok:
  assumes "raise_for_status r = Inr ()" and "resp_json E r = Inr body"
    and "header_get r ''etag'' = Inr t" and "setitem body ''_etag'' (JStr t) = Inr data"
  shows "store_fresh E pkg r w = (Inr data, apply_event (CacheStore pkg data) w)"
  using assms by (simp add: store_fresh_def io_bind_def io_seq_def io_lift_def io_return_def
      cache_store_def emit_def)

text \<open>The fresh branch either stores the tagged document or fails without touching the world.\<close>

definition fresh_document :: "env \<Rightarrow> response \<Rightarrow> py_error + json" where
  "fresh_document E r =
     sum_bind (raise_for_status r) (\<lambda>_. sum_bind (resp_json E r) (\<lambda>body.
     sum_bind (header_get r ''etag'') (\<lambda>t. setitem body ''_etag'' (JStr t))))"

lemma store_fresh_eq:
  "store_fresh E pkg r w =
     (case fresh_document E r of
        Inl e \<Rightarrow> (Inl e, w)
      | Inr data \<Rightarrow> (Inr data, apply_event (CacheStore pkg data) w))"
  by (cases "raise_for_status r"; cases "resp_json E r"; cases "header_get r ''etag''")
    (simp_all add: fresh_document_def store_fresh_def io_bind_def io_seq_def io_lift_def
      io_return_def io_raise_def cache_store_def emit_def split: sum.split)

lemma fresh_document_tag:
  "fresh_document E r = Inr data \<Longrightarrow> \<exists>t. getitem data ''_etag'' = Inr (JStr t)"
  by (auto simp: fresh_document_def sum_bind_eq_Inr dest: getitem_setitem_same)

lemma cache_ok_store:
  "cache_ok w \<Longrightarrow> fresh_document E r = Inr data \<Longrightarrow>
   cache_ok (apply_event (CacheStore pkg data) w)"
  by (auto simp: cache_ok_def dest: fresh_document_tag)

lemma cache_ok_get [simp]: "cache_ok (apply_event (Get u h) w) = cache_ok w"
  by (simp add: cache_ok_def)

lemma store_fresh_cache_ok:
  assumes "cache_ok w" and "store_fresh E pkg r w = (res, w')"
  shows "cache_ok w'"
proof (cases "fresh_document E r")
  case (Inl e)
  with assms show ?thesis by (simp add: store_fresh_eq)
next
  case (Inr data)
  with assms cache_ok_store [OF assms(1) Inr, of pkg] show ?thesis by (simp add: store_fresh_eq)
qed

text \<open>One equation for the whole fetch, by the branches of the code.\<close>

lemma fetch_registry_eq:
  "fetch_registry E pkg w =
     (case request_headers (cache w pkg) of
        Inl e \<Rightarrow> (Inl e, w)
      | Inr hs \<Rightarrow>
          (case http E (registry_url pkg) hs of
             None \<Rightarrow> (Inl ConnectionError, apply_event (Get (registry_url pkg) hs) w)
           | Some r \<Rightarrow>
               (if cache w pkg \<noteq> None \<and> status_code r = 304
                then (latest_entry (the (cache w pkg)), apply_event (Get (registry_url pkg) hs) w)
                else (case fresh_document E r of
                        Inl e \<Rightarrow> (Inl e, apply_event (Get (registry_url pkg) hs) w)
                      | Inr data \<Rightarrow> (latest_entry data,
                          apply_event (CacheStore pkg data) (apply_event (Get (registry_url pkg) hs) w))))))"
  by (cases "request_headers (cache w pkg)"; cases "cache w pkg")
    (auto simp: fetch_registry_def io_bind_def io_lift_def io_return_def cache_load_def
      http_get_def store_fresh_eq split: option.split sum.split)

lemma fetch_registry_cases:
  assumes "fetch_registry E pkg w = (res, w')"
  shows "cache w' = cache w \<or> (\<exists>r data. fresh_document E r = Inr data \<and> cache w' = (cache w)(pkg \<mapsto> data))"
  using assms by (auto simp: fetch_registry_eq split: sum.splits option.splits if_splits) blast+

lemma header_get_etag: "header_get \<lparr>status_code = n, resp_headers = [(''ETag'', t)], content = c\<rparr> ''etag'' = Inr t"
  by (simp add: header_get_def case_defs)

text \<open>Against a conditional server, the fresh answer is the body tagged with the current tag.\<close>

lemma conditional_fresh_document:
  assumes "parse_json E body = Some (JObj kvs)"
  shows "fresh_document E \<lparr>status_code = 200, resp_headers = [(''ETag'', tag)], content = body\<rparr>
           = Inr (JObj (AList.update ''_etag'' (JStr tag) kvs))"
  using assms by (simp add: fresh_document_def raise_for_status_def resp_json_def header_get_etag)

text \<open>Once the cached document carries the server's current tag, a fetch answers from the cache.\<close>

lemma fetch_steady:
  assumes srv: "conditional_server E pkg body tag"
    and d: "cache w pkg = Some d" and t: "getitem d ''_etag'' = Inr (JStr tag)"
  shows "fetch_registry E pkg w =
           (latest_entry d,
            apply_event (Get (registry_url pkg) (base_headers @ [(''etag'', tag), (''if-none-match'', tag)])) w)"
proof -
  have "request_headers (cache w pkg) = Inr (base_headers @ [(''etag'', tag), (''if-none-match'', tag)])"
    using d t by (simp add: request_headers_def)
  then show ?thesis
    using srv d by (simp add: fetch_registry_eq conditional_server_def base_headers_def)
qed

text \<open>After one fetch against a conditional server the cache holds a document with its tag.\<close>

lemma fetch_settles:
  assumes srv: "conditional_server E pkg body tag" and js: "parse_json E body = Some (JObj kvs)"
    and ok: "cache_ok w" and f: "fetch_registry E pkg w = (r1, w1)"
  shows "\<exists>d. cache w1 pkg = Some d \<and> getitem d ''_etag'' = Inr (JStr tag) \<and> r1 = latest_entry d"
proof -
  let ?data = "JObj (AList.update ''_etag'' (JStr tag) kvs)"
  have fresh: "fresh_document E \<lparr>status_code = 200, resp_headers = [(''ETag'', tag)], content = body\<rparr> = Inr ?data"
    using js by (rule conditional_fresh_document)
  have tagged: "getitem ?data ''_etag'' = Inr (JStr tag)"
    by (simp add: update_conv')
  show ?thesis
  proof (cases "cache w pkg")
    case None
    then have "request_headers (cache w pkg) = Inr base_headers"
      by (simp add: request_headers_def)
    with None srv fresh f tagged show ?thesis
      by (auto simp: fetch_registry_eq conditional_server_def base_headers_def)
  next
    case (Some d)
    with ok obtain t where t: "getitem d ''_etag'' = Inr (JStr t)"
      by (auto simp: cache_ok_def)
    show ?thesis
    proof (cases "t = tag")
      case True
      with Some t srv f show ?thesis by (auto simp: fetch_steady)
    next
      case False
      have "request_headers (cache w pkg) = Inr (base_headers @ [(''etag'', t), (''if-none-match'', t)])"
        using Some t by (simp add: request_headers_def)
      with Some False srv fresh f tagged show ?thesis
        by (auto simp: fetch_registry_eq conditional_server_def base_headers_def)
    qed
  qed
qed

section \<open>Properties of the registry cache\<close>

text \<open>
  C13: a 304 answer to the conditional request reuses the cached document: the entry of
  its \<open>latest\<close> version is returned and the cache is left as it was.
\<close>

theorem fetch_not_modified:
  assumes "cache w pkg = Some d" and "request_headers (Some d) = Inr hs"
    and "http E (registry_url pkg) hs = Some r" and "status_code r = 304"
  shows "fetch_registry E pkg w = (latest_entry d, apply_event (Get (registry_url pkg) hs) w)"
  using assms by (simp add: fetch_registry_eq)

theorem fetch_not_modified_witness:
  "fetch_registry (ex_registry_env (\<lambda>u hs. Some \<lparr>status_code = 304, resp_headers = [], content = []\<rparr>)) ''foo'' ex_world
   = (Inr (JObj [(''version'', JStr ''1.0.0'')]),
      ex_world\<lparr>trace := [Get (registry_url ''foo'') (base_headers @ [(''etag'', ''abc''), (''if-none-match'', ''abc'')])]\<rparr>)"
proof -
  have h1: "cache ex_world ''foo'' = Some ex_doc" by (simp add: ex_world_def)
  have h2: "request_headers (Some ex_doc) = Inr (base_headers @ [(''etag'', ''abc''), (''if-none-match'', ''abc'')])"
    by (simp add: request_headers_def ex_doc_def)
  have h3: "http (ex_registry_env (\<lambda>u hs. Some \<lparr>status_code = 304, resp_headers = [], content = []\<rparr>)) (registry_url ''foo'')
      (base_headers @ [(''etag'', ''abc''), (''if-none-match'', ''abc'')])
      = Some \<lparr>status_code = 304, resp_headers = [], content = []\<rparr>"
    by (simp add: ex_registry_env_def ex_env_def)
  show ?thesis
    using fetch_not_modified [OF h1 h2 h3] by (simp add: latest_entry_def ex_doc_def ex_world_def)
qed

text \<open>
  C14: any other answer (or no cached document) goes through the fresh branch: the
  decoded body, tagged with the response's entity tag, is stored for the package and
  its \<open>latest\<close> entry returned.
\<close>

theorem fetch_fresh_content:
  assumes "request_headers (cache w pkg) = Inr hs" and "http E (registry_url pkg) hs = Some r"
    and "cache w pkg = None \<or> status_code r \<noteq> 304" and "fresh_document E r = Inr data"
  shows "fetch_registry E pkg w =
           (latest_entry data, apply_event (CacheStore pkg data) (apply_event (Get (registry_url pkg) hs) w))"
  using assms by (auto simp: fetch_registry_eq)

theorem fetch_fresh_content_witness:
  "cache (snd (fetch_registry (ex_registry_env (\<lambda>u hs. Some \<lparr>status_code = 200, resp_headers = [(''ETag'', ''xyz'')], content = ''body''\<rparr>))
      ''foo'' (ex_world\<lparr>cache := Map.empty\<rparr>))) ''foo''
   = Some (JObj [(''_etag'', JStr ''xyz''), (''dist-tags'', JObj [(''latest'', JStr ''1.0.0'')]),
       (''versions'', JObj [(''1.0.0'', JObj [(''version'', JStr ''1.0.0'')])])])"
proof -
  define E where "E = ex_registry_env (\<lambda>u hs. Some \<lparr>status_code = 200, resp_headers = [(''ETag'', ''xyz'')], content = ''body''\<rparr>)"
  have h1: "request_headers (cache (ex_world\<lparr>cache := Map.empty\<rparr>) ''foo'') = Inr base_headers"
    by (simp add: request_headers_def)
  have h2: "http E (registry_url ''foo'') base_headers
      = Some \<lparr>status_code = 200, resp_headers = [(''ETag'', ''xyz'')], content = ''body''\<rparr>"
    by (simp add: E_def ex_registry_env_def ex_env_def)
  have h3: "cache (ex_world\<lparr>cache := Map.empty\<rparr>) ''foo'' = None \<or>
      status_code \<lparr>status_code = 200, resp_headers = [(''ETag'', ''xyz'')], content = ''body''\<rparr> \<noteq> 304"
    by simp
  have h4: "fresh_document E \<lparr>status_code = 200, resp_headers = [(''ETag'', ''xyz'')], content = ''body''\<rparr>
      = Inr (JObj [(''_etag'', JStr ''xyz''), (''dist-tags'', JObj [(''latest'', JStr ''1.0.0'')]),
          (''versions'', JObj [(''1.0.0'', JObj [(''version'', JStr ''1.0.0'')])])])"
    by (simp add: fresh_document_def raise_for_status_def resp_json_def header_get_etag E_def ex_registry_env_def ex_env_def ex_doc_def)
  show ?thesis
    using fetch_fresh_content [OF h1 h2 h3 h4] by (simp add: E_def)
qed

text \<open>
  C15: every run of the fetch, successful or not, keeps every cached document tagged
  with a string entity tag; so the next conditional request can always be built.
\<close>

theorem fetch_keeps_cache_tagged:
  assumes "cache_ok w" and "fetch_registry E pkg w = (res, w')"
  shows "cache_ok w'"
  using fetch_registry_cases [OF assms(2)] assms(1)
  by (auto simp: cache_ok_def dest: fresh_document_tag split: if_splits)

theorem fetch_keeps_cache_tagged_witness:
  "cache_ok (snd (fetch_registry (ex_registry_env (\<lambda>u hs. Some \<lparr>status_code = 500, resp_headers = [], content = []\<rparr>)) ''foo'' ex_world))"
proof -
  have h: "cache_ok ex_world" by (simp add: cache_ok_def ex_world_def ex_doc_def)
  show ?thesis
    using fetch_keeps_cache_tagged [OF h, of _ "''foo''"] by (metis prod.collapse)
qed

text \<open>
  C16: against a registry that honours \<open>if-none-match\<close>, a second fetch of an
  unchanged package returns the same entry as the first and leaves the cache exactly
  as the first fetch left it (the cached body is not discarded).
\<close>

theorem fetch_twice_same:
  assumes "conditional_server E pkg body tag" and "parse_json E body = Some (JObj kvs)"
    and "cache_ok w"
    and "fetch_registry E pkg w = (r1, w1)" and "fetch_registry E pkg w1 = (r2, w2)"
  shows "r2 = r1 \<and> cache w2 = cache w1"
proof -
  obtain d where d: "cache w1 pkg = Some d" and t: "getitem d ''_etag'' = Inr (JStr tag)"
    and r1: "r1 = latest_entry d"
    using fetch_settles [OF assms(1-4)] by blast
  from fetch_steady [OF assms(1) d t] assms(5) r1 show ?thesis by simp
qed

theorem fetch_twice_same_witness:
  "fst (fetch_registry (ex_registry_env (\<lambda>u hs. Some (if map_of hs ''if-none-match'' = Some ''xyz''
          then \<lparr>status_code = 304, resp_headers = [], content = []\<rparr>
          else \<lparr>status_code = 200, resp_headers = [(''ETag'', ''xyz'')], content = ''body''\<rparr>))) ''foo''
      (snd (fetch_registry (ex_registry_env (\<lambda>u hs. Some (if map_of hs ''if-none-match'' = Some ''xyz''
          then \<lparr>status_code = 304, resp_headers = [], content = []\<rparr>
          else \<lparr>status_code = 200, resp_headers = [(''ETag'', ''xyz'')], content = ''body''\<rparr>))) ''foo'' ex_world)))
   = fst (fetch_registry (ex_registry_env (\<lambda>u hs. Some (if map_of hs ''if-none-match'' = Some ''xyz''
          then \<lparr>status_code = 304, resp_headers = [], content = []\<rparr>
          else \<lparr>status_code = 200, resp_headers = [(''ETag'', ''xyz'')], content = ''body''\<rparr>))) ''foo'' ex_world)"
proof -
  define E where "E = ex_registry_env (\<lambda>u hs. Some (if map_of hs ''if-none-match'' = Some ''xyz''
          then \<lparr>status_code = 304, resp_headers = [], content = []\<rparr>
          else \<lparr>status_code = 200, resp_headers = [(''ETag'', ''xyz'')], content = ''body''\<rparr>))"
  have srv: "conditional_server E ''foo'' ''body'' ''xyz''"
    by (simp add: conditional_server_def E_def ex_registry_env_def ex_env_def)
  have js: "parse_json E ''body'' = Some (JObj [(''_etag'', JStr ''abc''), (''dist-tags'', JObj [(''latest'', JStr ''1.0.0'')]),
      (''versions'', JObj [(''1.0.0'', JObj [(''version'', JStr ''1.0.0'')])])])"
    by (simp add: E_def ex_registry_env_def ex_env_def ex_doc_def)
  have ok: "cache_ok ex_world" by (simp add: cache_ok_def ex_world_def ex_doc_def)
  obtain r1 w1 where f1: "fetch_registry E ''foo'' ex_world = (r1, w1)" by fastforce
  obtain r2 w2 where f2: "fetch_registry E ''foo'' w1 = (r2, w2)" by fastforce
  from fetch_twice_same [OF srv js ok f1 f2] f1 f2 show ?thesis by (simp add: E_def [symmetric])
qed

end
