(* ===== verification/Changes.thy ===== *)
theory Changes
  imports World
begin

text \<open>
  The change log, \<^verbatim>\<open>write_changes_file\<close> of \<^verbatim>\<open>src/npmspec.py\<close> (lines 168--184):
  the old log (if any) is read, a new entry (a rule of 67 dashes, the UTC time and the
  author, a blank line, \<open>- Update to version V:\<close>, a blank line) followed by the old
  text is written to \<open>fn.new\<close>, and \<open>fn.new\<close> is renamed over \<open>fn\<close>. The lemmas give
  the run as the list of events it performs (\<open>changes_events\<close>), the resulting log
  (newest entry first, the old text kept as a suffix), and the crash behaviour: whatever
  prefix of those events has been performed, the log file holds either its old text or
  its complete new text, because the only event that touches it is the final rename.
  A failed run (no version in the entry, an unwritable directory) leaves the log as it
  was but may leave \<open>fn.new\<close> behind.
\<close>

section \<open>Definitions\<close>

definition author :: string where
  "author = ''lnussel@suse.de''"

definition changes_path :: "string \<Rightarrow> string \<Rightarrow> string" where
  "changes_path dst pkg = path_join dst (pkg @ ''.changes'')"

definition write_changes_file :: "env \<Rightarrow> string \<Rightarrow> string \<Rightarrow> json \<Rightarrow> unit act" where
  "write_changes_file E dst pkg data =
     (let fn = changes_path dst pkg; tmp = fn @ ''.new'' in
      io_bind (exists fn) (\<lambda>ex.
      io_bind (if ex then io_bind (read_file fn) (\<lambda>text. io_return (py_readlines text))
               else io_return []) (\<lambda>lines.
      io_seq (open_write tmp) (
      io_seq (write_str tmp (replicate 67 (CHR ''-'') @ [LF])) (
      io_seq (write_str tmp (utcnow E @ '' - '' @ author @ [LF])) (
      io_seq (write_str tmp [LF]) (
      io_bind (io_lift (getitem data ''version'')) (\<lambda>v.
      io_seq (write_str tmp (''- Update to version '' @ py_str v @ '':'' @ [LF])) (
      io_seq (write_str tmp [LF]) (
      io_seq (write_str tmp (concat lines)) (
      os_rename tmp fn)))))))))))"

text \<open>The entry put in front of the old log.\<close>

definition changes_entry :: "env \<Rightarrow> json \<Rightarrow> string" where
  "changes_entry E v =
     replicate 67 (CHR ''-'') @ [LF] @ utcnow E @ '' - '' @ author @ [LF] @ [LF]
     @ ''- Update to version '' @ py_str v @ '':'' @ [LF] @ [LF]"

text \<open>The events of a complete run, in order.\<close>

definition changes_events :: "env \<Rightarrow> string \<Rightarrow> string \<Rightarrow> json \<Rightarrow> event list" where
  "changes_events E fn old v =
     (let tmp = fn @ ''.new'' in
      [Truncate tmp, Append tmp (replicate 67 (CHR ''-'') @ [LF]),
       Append tmp (utcnow E @ '' - '' @ author @ [LF]), Append tmp [LF],
       Append tmp (''- Update to version '' @ py_str v @ '':'' @ [LF]), Append tmp [LF],
       Append tmp old, Rename tmp fn])"

text \<open>A working directory holding an old change log.\<close>

definition ex_fs :: world where
  "ex_fs = \<lparr>files = [''nodejs-foo.changes'' \<mapsto> ''old''], dirs = {}, cache = Map.empty, trace = []\<rparr>"

section \<open>The run as a list of events\<close>

lemma logged_write_changes_file [logged_intros]: "logged (write_changes_file E dst pkg data)"
  unfolding write_changes_file_def Let_def
  by (intro logged_intros; simp add: logged_intros)

text \<open>
  Every run performs a prefix of \<open>changes_events\<close> on the old text of the log; a
  successful run performs all eight events.
\<close>

lemma write_changes_file_run:
  "\<exists>j v. snd (write_changes_file E dst pkg data w) =
       fold apply_event (take j (changes_events E (changes_path dst pkg)
         (file_content w (norm_path (changes_path dst pkg))) v)) w
     \<and> (fst (write_changes_file E dst pkg data w) = Inr () \<longrightarrow> j = 8 \<and> getitem data ''version'' = Inr v)"
proof -
  define fn where "fn = changes_path dst pkg"
  define tmp where "tmp = fn @ ''.new''"
  show ?thesis
  proof (cases "path_exists w fn \<and> files w (norm_path fn) = None")
    case True
    then show ?thesis
      by (intro exI [of _ 0] exI [of _ JNull])
        (simp add: write_changes_file_def fn_def [symmetric] Let_def io_bind_def exists_def read_file_def)
  next
    case False
    then have old: "(if path_exists w fn then io_bind (read_file fn) (\<lambda>text. io_return (py_readlines text))
               else io_return []) w = (Inr (py_readlines (file_content w (norm_path fn))), w)"
      by (auto simp: io_bind_def read_file_def file_content_def path_exists_def py_readlines_def)
    show ?thesis
    proof (cases "norm_path tmp \<in> dirs w \<or> \<not> dir_ok w (parent (norm_path tmp))")
      case True
      then show ?thesis
        by (intro exI [of _ 0] exI [of _ JNull])
          (simp add: write_changes_file_def fn_def [symmetric] tmp_def [symmetric] Let_def io_bind_def exists_def old
            io_seq_def open_write_def)
    next
      case False
      note open_ok = this
      have run: "write_changes_file E dst pkg data w =
        io_seq (open_write tmp) (
        io_seq (write_str tmp (replicate 67 (CHR ''-'') @ [LF])) (
        io_seq (write_str tmp (utcnow E @ '' - '' @ author @ [LF])) (
        io_seq (write_str tmp [LF]) (
        io_bind (io_lift (getitem data ''version'')) (\<lambda>v.
        io_seq (write_str tmp (''- Update to version '' @ py_str v @ '':'' @ [LF])) (
        io_seq (write_str tmp [LF]) (
        io_seq (write_str tmp (file_content w (norm_path fn))) (
        os_rename tmp fn)))))))) w"
        using old by (simp add: write_changes_file_def fn_def [symmetric] tmp_def [symmetric] Let_def
          io_bind_def exists_def split: prod.split sum.split)
      show ?thesis
      proof (cases "getitem data ''version''")
        case (Inl e)
        with open_ok show ?thesis
          by (intro exI [of _ 4] exI [of _ JNull])
            (simp add: run fn_def [symmetric] tmp_def [symmetric] io_seq_def io_bind_def
              open_write_def emit_def write_str_def changes_events_def)
      next
        case (Inr v)
        show ?thesis
        proof (cases "norm_path fn \<in> dirs w")
          case True
          with open_ok Inr show ?thesis
            by (intro exI [of _ 7] exI [of _ v])
              (simp add: run fn_def [symmetric] tmp_def [symmetric] io_seq_def io_bind_def
                open_write_def emit_def write_str_def os_rename_def changes_events_def)
        next
          case False
          with open_ok Inr show ?thesis
            by (intro exI [of _ 8] exI [of _ v])
              (simp add: run fn_def [symmetric] tmp_def [symmetric] io_seq_def io_bind_def
                open_write_def emit_def write_str_def os_rename_def changes_events_def)
        qed
      qed
    qed
  qed
qed

lemma changes_prefix_untouched:
  "i \<le> 7 \<Longrightarrow> files (fold apply_event (take i (changes_events E fn old v)) w) (norm_path fn) = files w (norm_path fn)"
proof (rule files_fold_other)
  assume "i \<le> 7"
  then have "set (take i (changes_events E fn old v)) \<subseteq> set (take 7 (changes_events E fn old v))"
    by (rule set_take_subset_set_take)
  moreover have "\<forall>e \<in> set (take 7 (changes_events E fn old v)). \<not> touches e (norm_path fn)"
    by (simp add: changes_events_def norm_path_new_neq Let_def)
  ultimately show "\<forall>e \<in> set (take i (changes_events E fn old v)). \<not> touches e (norm_path fn)"
    by blast
qed

lemma changes_complete:
  "files (fold apply_event (changes_events E fn old v) w) (norm_path fn) = Some (changes_entry E v @ old)"
  "files (fold apply_event (changes_events E fn old v) w) (norm_path fn @ ''.new'') = None"
  by (simp_all add: changes_events_def changes_entry_def file_content_def norm_path_new Let_def)

text \<open>A run of the rewrite touches the log and its temporary file only.\<close>

lemma write_changes_file_other:
  assumes "write_changes_file E dst pkg data w = (r, w')"
    and "q \<noteq> norm_path (changes_path dst pkg)" and "q \<noteq> norm_path (changes_path dst pkg) @ ''.new''"
  shows "files w' q = files w q"
proof -
  obtain j v where w': "w' = fold apply_event (take j (changes_events E (changes_path dst pkg)
         (file_content w (norm_path (changes_path dst pkg))) v)) w"
    using write_changes_file_run [of E dst pkg data w] assms(1) by auto
  have "\<forall>e \<in> set (changes_events E (changes_path dst pkg) (file_content w (norm_path (changes_path dst pkg))) v).
      \<not> touches e q"
    using assms(2,3) by (auto simp: changes_events_def Let_def)
  then show ?thesis unfolding w' by (meson files_fold_other in_set_takeD)
qed

text \<open>With the log path free of directories, the rewrite reads the old log and then writes.\<close>

lemma write_changes_file_unfold:
  assumes "\<not> (path_exists w (changes_path dst pkg) \<and> files w (norm_path (changes_path dst pkg)) = None)"
  shows "write_changes_file E dst pkg data w =
    (let fn = changes_path dst pkg; tmp = changes_path dst pkg @ ''.new'' in
     io_seq (open_write tmp) (
     io_seq (write_str tmp (replicate 67 (CHR ''-'') @ [LF])) (
     io_seq (write_str tmp (utcnow E @ '' - '' @ author @ [LF])) (
     io_seq (write_str tmp [LF]) (
     io_bind (io_lift (getitem data ''version'')) (\<lambda>v.
     io_seq (write_str tmp (''- Update to version '' @ py_str v @ '':'' @ [LF])) (
     io_seq (write_str tmp [LF]) (
     io_seq (write_str tmp (file_content w (norm_path fn))) (
     os_rename tmp fn))))))))) w"
proof -
  have old: "(if path_exists w (changes_path dst pkg)
               then io_bind (read_file (changes_path dst pkg)) (\<lambda>text. io_return (py_readlines text))
               else io_return []) w = (Inr (py_readlines (file_content w (norm_path (changes_path dst pkg)))), w)"
    using assms by (auto simp: io_bind_def read_file_def file_content_def path_exists_def py_readlines_def)
  then show ?thesis
    by (simp add: write_changes_file_def Let_def io_bind_def exists_def split: prod.split sum.split)
qed

text \<open>The rewrite runs to its end when no directory is in its way and the version is known.\<close>

lemma write_changes_file_ok_run:
  assumes "norm_path (changes_path dst pkg) \<notin> dirs w"
    and "norm_path (changes_path dst pkg) @ ''.new'' \<notin> dirs w"
    and "dir_ok w (parent (norm_path (changes_path dst pkg) @ ''.new''))"
    and "getitem data ''version'' = Inr v"
  shows "write_changes_file E dst pkg data w =
           (Inr (), fold apply_event (changes_events E (changes_path dst pkg)
              (file_content w (norm_path (changes_path dst pkg))) v) w)"
proof -
  have "\<not> (path_exists w (changes_path dst pkg) \<and> files w (norm_path (changes_path dst pkg)) = None)"
    using assms(1) by (auto simp: path_exists_def)
  then show ?thesis
    using assms by (simp add: write_changes_file_unfold Let_def io_seq_def io_bind_def io_lift_def
        open_write_def emit_def write_str_def os_rename_def changes_events_def)
qed

text \<open>A successful rewrite performed all its events.\<close>

lemma write_changes_file_success:
  assumes "write_changes_file E dst pkg data w = (Inr (), w')"
  shows "\<exists>v. getitem data ''version'' = Inr v \<and>
           w' = fold apply_event (changes_events E (changes_path dst pkg)
                  (file_content w (norm_path (changes_path dst pkg))) v) w"
proof -
  obtain j v where w': "snd (write_changes_file E dst pkg data w) =
       fold apply_event (take j (changes_events E (changes_path dst pkg)
         (file_content w (norm_path (changes_path dst pkg))) v)) w"
    and ok: "fst (write_changes_file E dst pkg data w) = Inr () \<longrightarrow> j = 8 \<and> getitem data ''version'' = Inr v"
    using write_changes_file_run by blast
  from ok assms have j: "j = 8" and v: "getitem data ''version'' = Inr v" by simp_all
  have "take j (changes_events E (changes_path dst pkg) (file_content w (norm_path (changes_path dst pkg))) v)
      = changes_events E (changes_path dst pkg) (file_content w (norm_path (changes_path dst pkg))) v"
    by (simp add: j changes_events_def Let_def)
  with w' assms v show ?thesis by auto
qed

lemma keeps_dirs_write_changes_file [keeps_intros]: "keeps dirs (write_changes_file E dst pkg data)"
  unfolding write_changes_file_def Let_def by (intro keeps_intros)+

section \<open>Properties of the change log\<close>

text \<open>
  C17: a successful run puts the new entry (rule, time and author, blank line,
  \<open>- Update to version V:\<close>, blank line) in front of the old log, whose text is kept
  unchanged after it, and leaves no temporary file.
\<close>

theorem changes_log_prepends:
  assumes "write_changes_file E dst pkg data w = (Inr (), w')"
  shows "\<exists>v. getitem data ''version'' = Inr v
     \<and> files w' (norm_path (changes_path dst pkg))
         = Some (changes_entry E v @ file_content w (norm_path (changes_path dst pkg)))
     \<and> files w' (norm_path (changes_path dst pkg @ ''.new'')) = None"
proof -
  obtain j v where w': "snd (write_changes_file E dst pkg data w) =
       fold apply_event (take j (changes_events E (changes_path dst pkg)
         (file_content w (norm_path (changes_path dst pkg))) v)) w"
    and ok: "fst (write_changes_file E dst pkg data w) = Inr () \<longrightarrow> j = 8 \<and> getitem data ''version'' = Inr v"
    using write_changes_file_run by blast
  from ok assms have j: "j = 8" and v: "getitem data ''version'' = Inr v" by simp_all
  have "take j (changes_events E (changes_path dst pkg) (file_content w (norm_path (changes_path dst pkg))) v)
      = changes_events E (changes_path dst pkg) (file_content w (norm_path (changes_path dst pkg))) v"
    by (simp add: j changes_events_def Let_def)
  with w' assms v show ?thesis by (simp add: changes_complete)
qed

text \<open>
  C18: the log is replaced atomically. Whatever prefix of its events a run (successful
  or not) has performed when it is cut off, the log file holds either its text before
  the run or its text after the run, never a partial text.
\<close>

theorem changes_log_atomic:
  assumes "write_changes_file E dst pkg data w = (res, w')"
  shows "files (fold apply_event (take k (drop (length (trace w)) (trace w'))) w)
           (norm_path (changes_path dst pkg))
         \<in> {files w (norm_path (changes_path dst pkg)), files w' (norm_path (changes_path dst pkg))}"
proof -
  define L where "L = changes_events E (changes_path dst pkg) (file_content w (norm_path (changes_path dst pkg)))"
  obtain j v where w': "w' = fold apply_event (take j (L v)) w"
    using write_changes_file_run [of E dst pkg data w] assms by (auto simp: L_def)
  then have evs: "drop (length (trace w)) (trace w') = take j (L v)"
    by (simp add: trace_fold_apply_event)
  have len: "length (L v) = 8" by (simp add: L_def changes_events_def Let_def)
  show ?thesis
  proof (cases "min k j \<le> 7")
    case True
    then have "files (fold apply_event (take (min k j) (L v)) w) (norm_path (changes_path dst pkg))
        = files w (norm_path (changes_path dst pkg))"
      unfolding L_def by (rule changes_prefix_untouched)
    then show ?thesis by (simp add: evs min.commute)
  next
    case False
    then have "8 \<le> min k j" by (auto simp: min_def)
    then have "take (min k j) (L v) = L v" and "take j (L v) = L v"
      using len by simp_all
    then have "take (min k j) (L v) = take j (L v)" by simp
    then have "fold apply_event (take k (drop (length (trace w)) (trace w'))) w = w'"
      by (simp only: evs take_take) (simp add: w')
    then show ?thesis by simp
  qed
qed

text \<open>
  C19: when the registry entry has no version, the run raises after the first three
  writes to the temporary file: the log is untouched, but \<open>fn.new\<close> is left behind
  holding the rule and the time line of an unfinished entry (no clean-up on the error
  path).
\<close>

theorem changes_failure_leaves_temp:
  assumes "norm_path (changes_path dst pkg) \<notin> dirs w"
    and "norm_path (changes_path dst pkg @ ''.new'') \<notin> dirs w"
    and "dir_ok w (parent (norm_path (changes_path dst pkg @ ''.new'')))"
    and "getitem data ''version'' = Inl e"
  shows "fst (write_changes_file E dst pkg data w) = Inl e
     \<and> files (snd (write_changes_file E dst pkg data w)) (norm_path (changes_path dst pkg))
         = files w (norm_path (changes_path dst pkg))
     \<and> files (snd (write_changes_file E dst pkg data w)) (norm_path (changes_path dst pkg @ ''.new''))
         = Some (replicate 67 (CHR ''-'') @ [LF] @ utcnow E @ '' - '' @ author @ [LF] @ [LF])"
  using assms
  by (simp add: write_changes_file_def Let_def io_bind_def io_seq_def exists_def read_file_def
      path_exists_def open_write_def emit_def write_str_def file_content_def norm_path_new_neq
      split: option.split)

text \<open>
  C32: the rewrite of the log completes when neither the log nor its temporary file is
  a directory, the temporary file's directory exists and the document has a version:
  it returns normally with the entry in front of the old text and no temporary file.
\<close>

theorem changes_rewrite_completes:
  assumes "norm_path (changes_path dst pkg) \<notin> dirs w"
    and "norm_path (changes_path dst pkg) @ ''.new'' \<notin> dirs w"
    and "dir_ok w (parent (norm_path (changes_path dst pkg) @ ''.new''))"
    and "getitem data ''version'' = Inr v"
  shows "fst (write_changes_file E dst pkg data w) = Inr () \<and>
         files (snd (write_changes_file E dst pkg data w)) (norm_path (changes_path dst pkg)) =
           Some (changes_entry E v @ file_content w (norm_path (changes_path dst pkg))) \<and>
         files (snd (write_changes_file E dst pkg data w)) (norm_path (changes_path dst pkg) @ ''.new'') = None"
  using write_changes_file_ok_run [OF assms, of E] changes_complete by simp

theorem changes_log_prepends_witness:
  "files (snd (write_changes_file (ex_env (\<lambda>u hs. None) (\<lambda>_. None)) ''.'' ''nodejs-foo''
      (JObj [(''version'', JStr ''1.1.0'')]) ex_fs)) ''nodejs-foo.changes''
   = Some (changes_entry (ex_env (\<lambda>u hs. None) (\<lambda>_. None)) (JStr ''1.1.0'') @ ''old'')"
proof -
  define E where "E = ex_env (\<lambda>u hs. None) (\<lambda>_. None)"
  define data where "data = JObj [(''version'', JStr ''1.1.0'')]"
  have path: "norm_path (changes_path ''.'' ''nodejs-foo'') = ''nodejs-foo.changes''"
    by (simp add: changes_path_def path_join_def)
  have ok: "fst (write_changes_file E ''.'' ''nodejs-foo'' data ex_fs) = Inr ()"
    by (simp add: write_changes_file_def changes_path_def path_join_def Let_def io_bind_def io_seq_def
        exists_def read_file_def path_exists_def open_write_def emit_def write_str_def os_rename_def
        parent_def dir_ok_def data_def ex_fs_def)
  obtain w' where run: "write_changes_file E ''.'' ''nodejs-foo'' data ex_fs = (Inr (), w')"
    using ok by (metis prod.collapse)
  from changes_log_prepends [OF run] run path show ?thesis
    by (auto simp: E_def data_def ex_fs_def file_content_def)
qed

theorem changes_log_atomic_witness:
  "\<forall>k. files (fold apply_event (take k (drop (length (trace ex_fs))
           (trace (snd (write_changes_file (ex_env (\<lambda>u hs. None) (\<lambda>_. None)) ''.'' ''nodejs-foo''
              (JObj [(''version'', JStr ''1.1.0'')]) ex_fs))))) ex_fs)
         (norm_path (changes_path ''.'' ''nodejs-foo''))
       \<in> {files ex_fs (norm_path (changes_path ''.'' ''nodejs-foo'')),
          files (snd (write_changes_file (ex_env (\<lambda>u hs. None) (\<lambda>_. None)) ''.'' ''nodejs-foo''
              (JObj [(''version'', JStr ''1.1.0'')]) ex_fs)) (norm_path (changes_path ''.'' ''nodejs-foo''))}"
  using changes_log_atomic [of "ex_env (\<lambda>u hs. None) (\<lambda>_. None)" "''.''" "''nodejs-foo''"
      "JObj [(''version'', JStr ''1.1.0'')]" ex_fs]
  by (metis prod.collapse)

theorem changes_failure_leaves_temp_witness:
  "fst (write_changes_file (ex_env (\<lambda>u hs. None) (\<lambda>_. None)) ''.'' ''nodejs-foo'' (JObj []) ex_fs)
     = Inl (KeyError ''version'')"
proof -
  have h1: "norm_path (changes_path ''.'' ''nodejs-foo'') \<notin> dirs ex_fs"
    and h2: "norm_path (changes_path ''.'' ''nodejs-foo'' @ ''.new'') \<notin> dirs ex_fs"
    and h3: "dir_ok ex_fs (parent (norm_path (changes_path ''.'' ''nodejs-foo'' @ ''.new'')))"
    by (simp_all add: ex_fs_def changes_path_def path_join_def dir_ok_def parent_def)
  have h4: "getitem (JObj []) ''version'' = Inl (KeyError ''version'')" by simp
  from changes_failure_leaves_temp [OF h1 h2 h3 h4] show ?thesis by simp
qed

theorem changes_rewrite_completes_witness:
  "fst (write_changes_file (ex_env (\<lambda>u hs. None) (\<lambda>_. None)) ''.'' ''nodejs-foo''
      (JObj [(''version'', JStr ''1.1.0'')]) ex_fs) = Inr () \<and>
   files (snd (write_changes_file (ex_env (\<lambda>u hs. None) (\<lambda>_. None)) ''.'' ''nodejs-foo''
      (JObj [(''version'', JStr ''1.1.0'')]) ex_fs)) ''nodejs-foo.changes''
   = Some (changes_entry (ex_env (\<lambda>u hs. None) (\<lambda>_. None)) (JStr ''1.1.0'') @ ''old'')"
proof -
  have h: "norm_path (changes_path ''.'' ''nodejs-foo'') \<notin> dirs ex_fs"
    "norm_path (changes_path ''.'' ''nodejs-foo'') @ ''.new'' \<notin> dirs ex_fs"
    "dir_ok ex_fs (parent (norm_path (changes_path ''.'' ''nodejs-foo'') @ ''.new''))"
    "getitem (JObj [(''version'', JStr ''1.1.0'')]) ''version'' = Inr (JStr ''1.1.0'')"
    by (simp_all add: ex_fs_def changes_path_def path_join_def dir_ok_def parent_def)
  from changes_rewrite_completes [OF h, of "ex_env (\<lambda>u hs. None) (\<lambda>_. None)"] show ?thesis
    by (simp add: changes_path_def path_join_def ex_fs_def file_content_def)
qed

end
