(* ===== verification/Obs.thy ===== *)
theory Obs
  imports World
begin

text \<open>
  \<^verbatim>\<open>check_dln_exists\<close> (\<^verbatim>\<open>src/npmspec.py\<close>, lines 186--203): whether a package is
  already tracked in the build service's \<^verbatim>\<open>devel:languages:nodejs\<close> project. A first
  request probes the package's source directory; only when it answers 200 does a second
  request fetch the binary file info, whose XML root is searched for a direct
  \<open>version\<close> child. The Python result is \<^verbatim>\<open>None\<close> (not tracked) or a string, modelled as
  \<open>string option\<close>. The theorems give the result on every branch and show that an
  empty \<open><version/>\<close> element yields \<^verbatim>\<open>None\<close>, the same value as an untracked package.
\<close>

definition obs_api :: string where
  "obs_api = ''https://build.opensuse.org''"

definition source_url :: "string \<Rightarrow> string" where
  "source_url name = obs_api @ ''/source/devel:languages:nodejs/'' @ name"

definition fileinfo_url :: "string \<Rightarrow> string" where
  "fileinfo_url name =
     obs_api @ ''/build/devel:languages:nodejs/Tumbleweed/x86_64/_repository/'' @ name @ ''?view=fileinfo''"

text \<open>\<open>e.find(tag)\<close>: the first direct child with that tag.\<close>

definition xml_find :: "xml \<Rightarrow> string \<Rightarrow> xml option" where
  "xml_find x t = find (\<lambda>c. xml_tag c = t) (xml_children x)"

text \<open>\<open>ET.parse(r.raw).getroot()\<close>, \<open>find('version')\<close>, \<open>v.text\<close>.\<close>

definition fileinfo_version :: "env \<Rightarrow> response \<Rightarrow> py_error + string option" where
  "fileinfo_version E r =
     (case parse_xml E (content r) of
        None \<Rightarrow> Inl ParseError
      | Some x \<Rightarrow> (case xml_find x ''version'' of Some v \<Rightarrow> Inr (xml_text v) | None \<Rightarrow> Inr (Some [])))"

definition check_dln_exists :: "env \<Rightarrow> string \<Rightarrow> string option act" where
  "check_dln_exists E name =
     io_bind (http_get E (source_url name) []) (\<lambda>r.
       if status_code r = 200 then
         io_bind (http_get E (fileinfo_url name) []) (\<lambda>r.
           if status_code r = 200 then io_lift (fileinfo_version E r) else io_return (Some []))
       else io_return None)"

text \<open>A build service that tracks \<open>nodejs-foo\<close> and reports an empty version element.\<close>

definition ex_obs_env :: env where
  "ex_obs_env = \<lparr>http = (\<lambda>u hs. Some \<lparr>status_code = 200, resp_headers = [], content = []\<rparr>),
     parse_json = (\<lambda>_. None), parse_xml = (\<lambda>_. Some (XElem ''fileinfo'' None [XElem ''version'' None []])),
     utcnow = [], render_spec = (\<lambda>_. []), render_service = (\<lambda>_. [])\<rparr>"

section \<open>Lemmas\<close>

lemma keeps_check_dln_exists [keeps_intros]:
  "keeps files (check_dln_exists E name)" "keeps dirs (check_dln_exists E name)"
  "keeps cache (check_dln_exists E name)"
  unfolding check_dln_exists_def by (intro keeps_intros)+


lemma logged_check_dln_exists [logged_intros]: "logged (check_dln_exists E name)"
  unfolding check_dln_exists_def by (intro logged_intros)

lemma source_url_neq_fileinfo_url: "source_url a \<noteq> fileinfo_url b"
  by (simp add: source_url_def fileinfo_url_def obs_api_def)

text \<open>The whole check, by the answers of the two requests.\<close>

lemma check_dln_exists_eq:
  "check_dln_exists E name w =
     (let w1 = apply_event (Get (source_url name) []) w in
      case http E (source_url name) [] of
        None \<Rightarrow> (Inl ConnectionError, w1)
      | Some r \<Rightarrow>
          if status_code r \<noteq> 200 then (Inr None, w1)
          else
            let w2 = apply_event (Get (fileinfo_url name) []) w1 in
            (case http E (fileinfo_url name) [] of
              None \<Rightarrow> (Inl ConnectionError, w2)
            | Some r' \<Rightarrow> if status_code r' \<noteq> 200 then (Inr (Some []), w2)
                        else (fileinfo_version E r', w2)))"
  by (simp add: check_dln_exists_def http_get_def io_bind_def io_lift_def Let_def
      split: option.split prod.split sum.split)

section \<open>Properties\<close>

text \<open>
  C20: the check answers \<^verbatim>\<open>None\<close> ("not tracked") exactly when the probe is answered
  with a status other than 200, or when both requests succeed and the file info's first
  \<open>version\<close> element has no text. An empty \<open><version/>\<close> element therefore reads as
  "not tracked", although the package is tracked.
\<close>

theorem check_dln_exists_none_iff:
  "fst (check_dln_exists E name w) = Inr None \<longleftrightarrow>
     (\<exists>r. http E (source_url name) [] = Some r \<and>
        (status_code r \<noteq> 200 \<or>
         (\<exists>r' x v. status_code r = 200 \<and> http E (fileinfo_url name) [] = Some r' \<and>
            status_code r' = 200 \<and> parse_xml E (content r') = Some x \<and>
            xml_find x ''version'' = Some v \<and> xml_text v = None)))"
  by (auto simp: check_dln_exists_eq Let_def fileinfo_version_def
      split: option.splits prod.splits if_splits)

text \<open>
  C21: the check only reads, and it asks for the file info exactly when the probe of the
  source directory is answered with status 200: its events are the probe followed, in
  that case only, by the file-info request, whatever it answers or raises; files,
  directories and the registry cache are untouched.
\<close>

theorem check_dln_exists_read_only:
  "files (snd (check_dln_exists E name w)) = files w \<and>
   dirs (snd (check_dln_exists E name w)) = dirs w \<and>
   cache (snd (check_dln_exists E name w)) = cache w \<and>
   trace (snd (check_dln_exists E name w)) =
     trace w @ Get (source_url name) [] #
       (if \<exists>r. http E (source_url name) [] = Some r \<and> status_code r = 200
        then [Get (fileinfo_url name) []] else [])"
  by (auto simp: check_dln_exists_eq Let_def split: option.split)

section \<open>Witnesses\<close>

theorem check_dln_exists_none_iff_witness:
  "fst (check_dln_exists ex_obs_env ''nodejs-foo'' \<lparr>files = Map.empty, dirs = {}, cache = Map.empty, trace = []\<rparr>) = Inr None"
  using check_dln_exists_none_iff [of ex_obs_env "''nodejs-foo''" "\<lparr>files = Map.empty, dirs = {}, cache = Map.empty, trace = []\<rparr>"]
  by (simp add: ex_obs_env_def xml_find_def)

theorem check_dln_exists_read_only_witness:
  "trace (snd (check_dln_exists ex_obs_env ''nodejs-foo'' \<lparr>files = Map.empty, dirs = {}, cache = Map.empty, trace = []\<rparr>)) =
     [Get (source_url ''nodejs-foo'') [], Get (fileinfo_url ''nodejs-foo'') []]"
  using check_dln_exists_read_only [of ex_obs_env "''nodejs-foo''" "\<lparr>files = Map.empty, dirs = {}, cache = Map.empty, trace = []\<rparr>"]
  by (simp add: ex_obs_env_def)

end
