(* ===== verification/Download.thy ===== *)
theory Download
  imports World
begin

text \<open>
  \<^verbatim>\<open>download\<close> (\<^verbatim>\<open>src/npmspec.py\<close>, lines 205--215): the source archive is saved under
  its URL's base name in the destination directory. An existing file of that name makes
  the call return without a request; otherwise the archive is requested, a 4xx or 5xx
  answer raises, and the body is written in the pieces \<open>r.iter_content(4096)\<close> yields,
  one \<open>fh.write\<close> each. The theorems show that the pieces concatenate to the body, that
  a completed download stores the body, that the call is idempotent, and that a run
  cut off while writing leaves a prefix of the body that the next run takes for the
  complete archive.
\<close>

text \<open>\<open>r.iter_content(n)\<close>: consecutive pieces of at most \<open>n\<close> characters.\<close>

function chunks :: "nat \<Rightarrow> string \<Rightarrow> string list" where
  "chunks n s = (if s = [] \<or> n = 0 then [] else take n s # chunks n (drop n s))"
  by auto
termination
  by (relation "measure (\<lambda>(n, s). length s)") auto

text \<open>\<open>for chunk in ...: fh.write(chunk)\<close>.\<close>

fun write_chunks :: "string \<Rightarrow> string list \<Rightarrow> unit act" where
  "write_chunks fn [] = io_return ()"
| "write_chunks fn (c # cs) = io_seq (write_str fn c) (write_chunks fn cs)"

definition archive_path :: "string \<Rightarrow> string \<Rightarrow> string" where
  "archive_path url dst = path_join dst (basename url)"

definition download :: "env \<Rightarrow> string \<Rightarrow> string \<Rightarrow> unit act" where
  "download E url dst =
     (let fn = archive_path url dst in
      io_bind (exists fn) (\<lambda>e.
        if e then io_return ()
        else io_bind (http_get E url []) (\<lambda>r.
          io_seq (io_lift (raise_for_status r))
            (io_seq (open_write fn) (write_chunks fn (chunks 4096 (content r)))))))"

text \<open>The events of a download that gets the answer \<open>r\<close>.\<close>

definition download_events :: "string \<Rightarrow> string \<Rightarrow> response \<Rightarrow> event list" where
  "download_events url fn r =
     Get url [] # Truncate fn # map (Append fn) (chunks 4096 (content r))"

text \<open>An example: the archive of \<open>foo 1.2.0\<close>, served with status 200.\<close>

definition ex_url :: string where
  "ex_url = ''https://registry.npmjs.org/foo/-/foo-1.2.0.tgz''"

definition ex_archive :: response where
  "ex_archive = \<lparr>status_code = 200, resp_headers = [], content = ''tarball''\<rparr>"

definition ex_dl_world :: world where
  "ex_dl_world = \<lparr>files = Map.empty, dirs = {''nodejs-foo''}, cache = Map.empty, trace = []\<rparr>"

section \<open>Lemmas\<close>

declare chunks.simps [simp del]

lemma chunks_Nil [simp]: "chunks n [] = []"
  by (simp add: chunks.simps)

lemma concat_chunks [simp]: "0 < n \<Longrightarrow> concat (chunks n s) = s"
  by (induction n s rule: chunks.induct) (subst chunks.simps, simp)

lemma logged_write_chunks [logged_intros]: "logged (write_chunks fn cs)"
  by (induction cs) (simp only: write_chunks.simps; intro logged_intros)+

lemma logged_download [logged_intros]: "logged (download E url dst)"
  unfolding download_def Let_def by (intro logged_intros)

text \<open>Writing the pieces appends them one event each; nothing can fail.\<close>

lemma write_chunks_run:
  "write_chunks fn cs w = (Inr (), fold apply_event (map (Append fn) cs) w)"
  by (induction cs arbitrary: w) (simp_all add: io_seq_run io_bind_def write_str_def emit_def)

lemma files_fold_append:
  "files w (norm_path fn) = Some c \<Longrightarrow>
   files (fold apply_event (map (Append fn) cs) w) (norm_path fn) = Some (c @ concat cs)"
  by (induction cs arbitrary: w c) (simp_all add: file_content_def)

lemma files_fold_append_other:
  "q \<noteq> norm_path fn \<Longrightarrow> files (fold apply_event (map (Append fn) cs) w) q = files w q"
  by (induction cs arbitrary: w) simp_all

text \<open>The whole download, by whether the file exists and how the server answers.\<close>

lemma download_eq:
  "download E url dst w =
     (let fn = archive_path url dst in
      if path_exists w fn then (Inr (), w)
      else let w1 = apply_event (Get url []) w in
        case http E url [] of
          None \<Rightarrow> (Inl ConnectionError, w1)
        | Some r \<Rightarrow>
            (case raise_for_status r of
               Inl e \<Rightarrow> (Inl e, w1)
             | Inr u \<Rightarrow>
                 if norm_path fn \<in> dirs w1 \<or> \<not> dir_ok w1 (parent (norm_path fn))
                 then (Inl (IOError fn), w1)
                 else (Inr (), fold apply_event (Truncate fn # map (Append fn) (chunks 4096 (content r))) w1)))"
  by (simp add: download_def exists_def http_get_def io_bind_def io_seq_def io_lift_def
      open_write_def emit_def write_chunks_run Let_def split: option.split sum.split)

lemma download_exists: "path_exists w (archive_path url dst) \<Longrightarrow> download E url dst w = (Inr (), w)"
  by (simp add: download_eq)

lemma path_exists_file: "files w (norm_path p) = Some c \<Longrightarrow> path_exists w p"
  by (simp add: path_exists_def)

lemma take_download_events:
  "2 \<le> k \<Longrightarrow> take k (download_events url fn r) =
     Get url [] # Truncate fn # map (Append fn) (take (k - 2) (chunks 4096 (content r)))"
  by (cases k; cases "k - 1") (simp_all add: download_events_def take_map)

lemma startswith_concat_take: "startswith (concat cs) (concat (take m cs))"
  by (metis append_take_drop_id concat_append startswith_append)

text \<open>A download leaves the world alone, performs only the request, or performs all its events.\<close>

lemma download_cases:
  assumes "download E url dst w = (res, w')"
  shows "(path_exists w (archive_path url dst) \<and> res = Inr () \<and> w' = w) \<or>
         (\<not> path_exists w (archive_path url dst) \<and> res \<noteq> Inr () \<and> w' = apply_event (Get url []) w) \<or>
         (\<not> path_exists w (archive_path url dst) \<and> res = Inr () \<and>
            (\<exists>r. http E url [] = Some r \<and> w' = fold apply_event (download_events url (archive_path url dst) r) w))"
proof (cases "path_exists w (archive_path url dst)")
  case True
  with assms show ?thesis by (simp add: download_exists)
next
  case False
  show ?thesis
  proof (cases "http E url []")
    case None
    with False assms show ?thesis by (auto simp: download_eq Let_def)
  next
    case (Some r)
    with False assms show ?thesis
      by (cases "raise_for_status r") (auto simp: download_eq Let_def download_events_def split: if_splits)
  qed
qed

lemma files_download_events:
  "files (fold apply_event (download_events url fn r) w) (norm_path fn) = Some (content r)"
  "q \<noteq> norm_path fn \<Longrightarrow> files (fold apply_event (download_events url fn r) w) q = files w q"
proof -
  have "files (apply_event (Truncate fn) (apply_event (Get url []) w)) (norm_path fn) = Some []" by simp
  from files_fold_append [OF this, of "chunks 4096 (content r)"]
  show "files (fold apply_event (download_events url fn r) w) (norm_path fn) = Some (content r)"
    by (simp add: download_events_def)
  show "q \<noteq> norm_path fn \<Longrightarrow> files (fold apply_event (download_events url fn r) w) q = files w q"
    by (simp add: download_events_def files_fold_append_other)
qed

lemma download_success_exists:
  assumes "download E url dst w = (Inr (), w')"
  shows "path_exists w' (archive_path url dst)"
  using download_cases [OF assms] files_download_events(1) path_exists_file by metis

lemma download_keeps_existing:
  assumes "download E url dst w = (r, w')" and "files w q = Some c"
  shows "files w' q = Some c"
proof -
  have "\<not> path_exists w (archive_path url dst) \<Longrightarrow> q \<noteq> norm_path (archive_path url dst)"
    using assms(2) by (auto simp: path_exists_def)
  with download_cases [OF assms(1)] assms(2) show ?thesis
    by (auto simp: files_download_events(2))
qed

text \<open>An absent archive with a good answer is downloaded in full.\<close>

lemma download_fresh_run:
  assumes "\<not> path_exists w (archive_path url dst)"
    and "http E url [] = Some r" and "raise_for_status r = Inr ()"
    and "norm_path (archive_path url dst) \<notin> dirs w"
    and "dir_ok w (parent (norm_path (archive_path url dst)))"
  shows "download E url dst w = (Inr (), fold apply_event (download_events url (archive_path url dst) r) w)"
  using assms by (auto simp: download_eq dir_ok_def Let_def download_events_def)

section \<open>Properties\<close>

text \<open>
  C22: when the archive is absent and the server answers without an error status, the
  download performs the request, truncates the file and appends the pieces, and the
  file then holds exactly the response body.
\<close>

theorem download_stores_body:
  assumes "\<not> path_exists w (archive_path url dst)"
    and "http E url [] = Some r" and "raise_for_status r = Inr ()"
    and "norm_path (archive_path url dst) \<notin> dirs w"
    and "dir_ok w (parent (norm_path (archive_path url dst)))"
  shows "fst (download E url dst w) = Inr () \<and>
         files (snd (download E url dst w)) (norm_path (archive_path url dst)) = Some (content r) \<and>
         trace (snd (download E url dst w)) = trace w @ download_events url (archive_path url dst) r"
  using download_fresh_run [OF assms] files_download_events(1) [of url "archive_path url dst" r]
  by (simp add: trace_fold_apply_event)

text \<open>
  C23: the download is idempotent: after a successful call, a second call with the same
  URL and destination makes no request and changes nothing.
\<close>

theorem download_idempotent:
  assumes "download E url dst w = (Inr (), w')"
  shows "download E' url dst w' = (Inr (), w')"
  using download_success_exists [OF assms] by (rule download_exists)

text \<open>
  C24: a download cut off after the truncation, with only the first \<open>k - 2\<close> pieces
  written, leaves a prefix of the body under the archive's name; the next run finds the
  file, makes no request, and keeps the truncated archive.
\<close>

theorem download_interrupted_kept:
  assumes "\<not> path_exists w (archive_path url dst)"
    and "http E url [] = Some r" and "raise_for_status r = Inr ()"
    and "norm_path (archive_path url dst) \<notin> dirs w"
    and "dir_ok w (parent (norm_path (archive_path url dst)))"
    and "2 \<le> k"
    and "w' = fold apply_event (take k (download_events url (archive_path url dst) r)) w"
  shows "files w' (norm_path (archive_path url dst)) =
           Some (concat (take (k - 2) (chunks 4096 (content r)))) \<and>
         startswith (content r) (concat (take (k - 2) (chunks 4096 (content r)))) \<and>
         download E' url dst w' = (Inr (), w')"
proof -
  let ?fn = "archive_path url dst" and ?cs = "take (k - 2) (chunks 4096 (content r))"
  have "files (apply_event (Truncate ?fn) (apply_event (Get url []) w)) (norm_path ?fn) = Some []"
    by simp
  from files_fold_append [OF this, of ?cs]
  have f: "files w' (norm_path ?fn) = Some (concat ?cs)"
    using assms(6,7) by (simp add: take_download_events)
  moreover have "startswith (content r) (concat ?cs)"
    using startswith_concat_take [of "chunks 4096 (content r)" "k - 2"] by simp
  moreover have "download E' url dst w' = (Inr (), w')"
    using f by (intro download_exists path_exists_file)
  ultimately show ?thesis by blast
qed

section \<open>Witnesses\<close>

lemma ex_archive_path: "archive_path ex_url ''nodejs-foo'' = ''nodejs-foo/foo-1.2.0.tgz''"
  by (simp add: archive_path_def ex_url_def basename_def path_join_def)

lemma ex_download_hyps:
  "\<not> path_exists ex_dl_world (archive_path ex_url ''nodejs-foo'') \<and>
   raise_for_status ex_archive = Inr () \<and>
   norm_path (archive_path ex_url ''nodejs-foo'') \<notin> dirs ex_dl_world \<and>
   dir_ok ex_dl_world (parent (norm_path (archive_path ex_url ''nodejs-foo'')))"
  by (simp add: ex_archive_path ex_dl_world_def path_exists_def raise_for_status_def ex_archive_def
      dir_ok_def parent_def)

theorem download_stores_body_witness:
  "files (snd (download (ex_env (\<lambda>u hs. Some ex_archive) (\<lambda>_. None)) ex_url ''nodejs-foo'' ex_dl_world))
     ''nodejs-foo/foo-1.2.0.tgz'' = Some ''tarball''"
  using download_stores_body [of ex_dl_world ex_url "''nodejs-foo''"
      "ex_env (\<lambda>u hs. Some ex_archive) (\<lambda>_. None)" ex_archive] ex_download_hyps
  by (simp add: ex_env_def ex_archive_path ex_archive_def)

theorem download_idempotent_witness:
  "download (ex_env (\<lambda>u hs. None) (\<lambda>_. None)) ex_url ''nodejs-foo''
     (snd (download (ex_env (\<lambda>u hs. Some ex_archive) (\<lambda>_. None)) ex_url ''nodejs-foo'' ex_dl_world))
   = (Inr (), snd (download (ex_env (\<lambda>u hs. Some ex_archive) (\<lambda>_. None)) ex_url ''nodejs-foo'' ex_dl_world))"
proof -
  let ?E = "ex_env (\<lambda>u hs. Some ex_archive) (\<lambda>_. None)"
  have "fst (download ?E ex_url ''nodejs-foo'' ex_dl_world) = Inr ()"
    using ex_download_hyps by (simp add: download_eq Let_def ex_env_def dir_ok_def)
  then have "download ?E ex_url ''nodejs-foo'' ex_dl_world =
      (Inr (), snd (download ?E ex_url ''nodejs-foo'' ex_dl_world))"
    by (metis prod.collapse)
  from download_idempotent [OF this] show ?thesis .
qed

theorem download_interrupted_kept_witness:
  "files (fold apply_event (take 2 (download_events ex_url (archive_path ex_url ''nodejs-foo'') ex_archive))
      ex_dl_world) ''nodejs-foo/foo-1.2.0.tgz'' = Some [] \<and>
   download (ex_env (\<lambda>u hs. Some ex_archive) (\<lambda>_. None)) ex_url ''nodejs-foo''
     (fold apply_event (take 2 (download_events ex_url (archive_path ex_url ''nodejs-foo'') ex_archive))
        ex_dl_world)
   = (Inr (), fold apply_event (take 2 (download_events ex_url (archive_path ex_url ''nodejs-foo'') ex_archive))
        ex_dl_world)"
  using download_interrupted_kept [of ex_dl_world ex_url "''nodejs-foo''"
      "ex_env (\<lambda>u hs. Some ex_archive) (\<lambda>_. None)" ex_archive 2
      "fold apply_event (take 2 (download_events ex_url (archive_path ex_url ''nodejs-foo'') ex_archive)) ex_dl_world"
      "ex_env (\<lambda>u hs. Some ex_archive) (\<lambda>_. None)"] ex_download_hyps
  by (simp add: ex_env_def ex_archive_path)

end
