(* ===== verification/GenPkg.thy ===== *)
theory GenPkg
  imports SpecFile Registry Changes Obs Download
begin

text \<open>
  The two subcommands of \<^verbatim>\<open>src/npmspec.py\<close>: \<^verbatim>\<open>do_genspec\<close> (lines 94--101) prints
  the descriptor rendered for a package, and \<^verbatim>\<open>do_genpkg\<close> (lines 107--166) creates
  or updates the package directory. The orchestrator is split along the code's own
  blocks: \<open>resolve\<close> finds the descriptor (lines 114--122), \<open>obs_notice\<close> is the
  tracked-elsewhere check (lines 126--131), \<open>prepare_dst\<close> creates the directory
  (lines 133--137), through \<open>create_package_dir\<close>, a model of osc's
  \<open>createPackageDir\<close>, in an osc project, \<open>update_branch\<close> and \<open>create_branch\<close> are the two arms of the final
  \<open>if exists\<close> (lines 139--166). The Python function returns \<^verbatim>\<open>None\<close> on every path,
  so the model returns \<open>()\<close>; its effect is the world it leaves. Log messages and
  \<^verbatim>\<open>print\<close> have no effect on the state and are left out; the expressions they
  evaluate are kept when their evaluation can raise.
\<close>

section \<open>Templates\<close>

text \<open>\<^verbatim>\<open>genspec\<close> and \<^verbatim>\<open>genservice\<close>: the jinja2 templates are the environment's renderers.\<close>

definition genspec :: "env \<Rightarrow> template_context \<Rightarrow> string" where
  "genspec E ctx = render_spec E ctx"

definition genservice :: "env \<Rightarrow> template_context \<Rightarrow> string" where
  "genservice E ctx = render_service E ctx"

section \<open>The subcommand \<open>genspec\<close>\<close>

text \<open>\<open>print self.genspec(self.get_templatedata(self.fetch_registry(pkg)))\<close>: the printed text.\<close>

definition do_genspec :: "env \<Rightarrow> string \<Rightarrow> string act" where
  "do_genspec E pkg =
     io_bind (fetch_registry E pkg) (\<lambda>data.
     io_bind (io_lift (get_templatedata data)) (\<lambda>ctx. io_return (genspec E ctx)))"

section \<open>The subcommand \<open>genpkg\<close>\<close>

text \<open>
  The descriptor \<open>nodejs-N.spec\<close> in the working directory makes it the destination;
  otherwise the destination is the directory \<open>nodejs-N\<close>, where the descriptor may be.
\<close>

definition resolve :: "string \<Rightarrow> (string \<times> bool) act" where
  "resolve pkg =
     io_bind (exists (pkg @ ''.spec'')) (\<lambda>e.
       if e then io_return (''.'', True)
       else io_bind (exists (path_join pkg (pkg @ ''.spec''))) (\<lambda>e'. io_return (pkg, e')))"

text \<open>
  Lines 126--131: when the build service tracks the package, two warnings are logged
  (the second formats \<open>data['version']\<close>) and the command returns.
\<close>

definition obs_notice :: "env \<Rightarrow> string \<Rightarrow> json \<Rightarrow> bool act" where
  "obs_notice E name data =
     io_bind (check_dln_exists E (''nodejs-'' @ name)) (\<lambda>v.
       case v of
         None \<Rightarrow> io_return False
       | Some v \<Rightarrow> io_bind (io_lift (getitem data ''version'')) (\<lambda>_. io_return True))"

text \<open>
  \<open>osc.core.createPackageDir(dst)\<close>, a function of the osc library (not part of this
  repository), modelled from its documented behaviour. The working directory must be a
  project working copy (its \<open>.osc\<close> store holds \<open>_project\<close> and no \<open>_package\<close>),
  else \<open>oscerr.NoWorkingCopy\<close> is raised; a package directory that already holds a
  store raises \<open>oscerr.OscIOError\<close>. The project's store is read
  (\<open>Project(prj_dir)\<close>), \<open>Package.init_package\<close> creates the directory and its
  \<open>.osc\<close> store and writes the store files, and the project's package list
  \<open>.osc/_packages\<close> is written back with the new package. The two osc exceptions are
  \<open>Exception\<close> values named after their classes; the package list is rewritten by
  appending one entry, where osc re-serialises its XML.
\<close>

definition osc_store_names :: "string list" where
  "osc_store_names = [''_project'', ''_package'', ''_apiurl'', ''_files'', ''_osclib_version'']"

definition osc_store_files :: "string \<Rightarrow> string \<Rightarrow> string \<Rightarrow> (string \<times> string) list" where
  "osc_store_files apiurl prj pac =
     zip osc_store_names [prj, pac @ [LF], apiurl, ''<directory />'' @ [LF], ''1.0'' @ [LF]]"

fun write_store :: "string \<Rightarrow> (string \<times> string) list \<Rightarrow> unit act" where
  "write_store p [] = io_return ()"
| "write_store p ((f, c) # fs) = io_seq (write_file (p @ ''/.osc/'' @ f) c) (write_store p fs)"

definition osc_add_package :: "string \<Rightarrow> string \<Rightarrow> string" where
  "osc_add_package pkgs pac = pkgs @ ''<package name=\"'' @ pac @ ''\" state=\" \" />'' @ [LF]"

definition create_package_dir :: "string \<Rightarrow> unit act" where
  "create_package_dir p =
     io_bind (exists ''.osc/_project'') (\<lambda>prj_ok. io_bind (exists ''.osc/_package'') (\<lambda>in_pac.
       if \<not> prj_ok \<or> in_pac then io_raise (Exception ''NoWorkingCopy'')
       else io_bind (exists (p @ ''/.osc'')) (\<lambda>st.
         if st then io_raise (Exception ''OscIOError'')
         else io_bind (read_file ''.osc/_project'') (\<lambda>prj.
           io_bind (read_file ''.osc/_apiurl'') (\<lambda>api.
           io_bind (read_file ''.osc/_packages'') (\<lambda>pkgs.
             io_seq (io_bind (exists p) (\<lambda>e. if e then io_return () else os_mkdir p))
               (io_seq (os_mkdir (p @ ''/.osc''))
                 (io_seq (write_store p (osc_store_files api prj (basename p)))
                   (write_file ''.osc/_packages'' (osc_add_package pkgs (basename p)))))))))))"

text \<open>The files \<open>create_package_dir p\<close> may write.\<close>

definition osc_written :: "string \<Rightarrow> string list" where
  "osc_written p = ''.osc/_packages'' # map (\<lambda>f. norm_path (p @ ''/.osc/'' @ f)) osc_store_names"

definition prepare_dst :: "bool \<Rightarrow> string \<Rightarrow> unit act" where
  "prepare_dst ex dst =
     (if \<not> ex \<and> dst \<noteq> ''.'' then
        io_bind (exists dst) (\<lambda>e.
          if e then io_return ()
          else io_bind (exists ''.osc'') (\<lambda>osc. if osc then create_package_dir dst else os_mkdir dst))
      else io_return ())"

text \<open>\<open>oldver == data['version']\<close>: a Python 2 \<open>str\<close> equals a decoded value only if that is the same string.\<close>

definition py_eq_str :: "string \<Rightarrow> json \<Rightarrow> bool" where
  "py_eq_str s v \<longleftrightarrow> v = JStr s"

text \<open>\<open>data['dist']['tarball']\<close> used as a URL: \<open>os.path.basename\<close> needs a string.\<close>

definition tarball_url :: "json \<Rightarrow> py_error + string" where
  "tarball_url data =
     sum_bind (getitem data ''dist'') (\<lambda>d. sum_bind (getitem d ''tarball'') (\<lambda>u.
       case u of JStr s \<Rightarrow> Inr s | _ \<Rightarrow> Inl AttributeError))"

text \<open>
  Lines 153--154 and 165--166, the same in both arms: the change-log entry, then the
  source archive.
\<close>

definition record_release :: "env \<Rightarrow> string \<Rightarrow> string \<Rightarrow> json \<Rightarrow> unit act" where
  "record_release E dst pkg data =
     io_seq (write_changes_file E dst pkg data)
       (io_bind (io_lift (tarball_url data)) (\<lambda>url. download E url dst))"

text \<open>Lines 139--155: the descriptor exists.\<close>

definition update_branch :: "env \<Rightarrow> bool \<Rightarrow> string \<Rightarrow> string \<Rightarrow> string \<Rightarrow> json \<Rightarrow> unit act" where
  "update_branch E upd dst pkg specfn data =
     io_bind (read_file specfn) (\<lambda>text.
       let spec = spec_of_text text in
       case gettag spec ''Version'' of
         None \<Rightarrow> io_raise (Exception ''old version not defined?'')
       | Some oldver \<Rightarrow>
           io_bind (io_lift (getitem data ''version'')) (\<lambda>v.
             if py_eq_str oldver v then io_return ()
             else io_bind (io_lift (py_in ''dependencies'' data)) (\<lambda>_.
               if upd then
                 io_seq (write_file specfn (spec_str (settag spec ''Version'' (py_str v))))
                   (record_release E dst pkg data)
               else io_return ())))"

text \<open>Lines 156--166: no descriptor yet.\<close>

definition create_branch :: "env \<Rightarrow> string \<Rightarrow> string \<Rightarrow> string \<Rightarrow> json \<Rightarrow> unit act" where
  "create_branch E dst pkg specfn data =
     io_bind (io_lift (get_templatedata data)) (\<lambda>ctx.
     io_seq (write_file specfn (genspec E ctx))
     (io_seq (write_file (dst @ ''/_service'') (genservice E ctx))
       (record_release E dst pkg data)))"

definition do_genpkg :: "env \<Rightarrow> bool \<Rightarrow> string \<Rightarrow> unit act" where
  "do_genpkg E upd name =
     (let pkg = ''nodejs-'' @ name in
      io_bind (resolve pkg) (\<lambda>(dst, ex).
        let specfn = path_join dst (pkg @ ''.spec'') in
        io_bind (fetch_registry E name) (\<lambda>data.
        io_bind (if ex then io_return False else obs_notice E name data) (\<lambda>tracked.
          if tracked then io_return ()
          else io_seq (prepare_dst ex dst)
                 (if ex then update_branch E upd dst pkg specfn data
                  else create_branch E dst pkg specfn data)))))"

section \<open>Examples\<close>

text \<open>
  A registry whose latest \<open>foo\<close> has the given version and dependencies, served with
  entity tag \<open>t1\<close>; a build service that tracks \<open>nodejs-foo\<close> or answers 404; an
  archive server; a descriptor template that prints the version and one
  \<open>Requires:\<close> line per translated dependency.
\<close>

definition ex_entry :: "string \<Rightarrow> json \<Rightarrow> json" where
  "ex_entry ver deps = JObj [(''name'', JStr ''foo''), (''version'', JStr ver),
     (''dist'', JObj [(''tarball'', JStr (''https://registry.npmjs.org/foo/-/foo-'' @ ver @ ''.tgz''))]),
     (''description'', JStr ''The foo library''), (''homepage'', JStr ''https://foo.example.org''),
     (''dependencies'', deps)]"

definition ex_registry_doc :: "string \<Rightarrow> json \<Rightarrow> json" where
  "ex_registry_doc ver deps = JObj [(''dist-tags'', JObj [(''latest'', JStr ver)]),
     (''versions'', JObj [(ver, ex_entry ver deps)])]"

definition ex_sync_env :: "string \<Rightarrow> json \<Rightarrow> bool \<Rightarrow> env" where
  "ex_sync_env ver deps tracked =
     \<lparr>http = (\<lambda>u hs.
        if u = registry_url ''foo'' then Some \<lparr>status_code = 200, resp_headers = [(''ETag'', ''t1'')], content = ''doc''\<rparr>
        else if u = source_url ''nodejs-foo'' \<and> \<not> tracked then Some \<lparr>status_code = 404, resp_headers = [], content = []\<rparr>
        else Some \<lparr>status_code = 200, resp_headers = [], content = ''data''\<rparr>),
      parse_json = (\<lambda>_. Some (ex_registry_doc ver deps)),
      parse_xml = (\<lambda>_. Some (XElem ''fileinfo'' None [XElem ''version'' (Some ''1.0.0'') []])),
      utcnow = ''Mon Jan 01 00:00:00 UTC 2024'',
      render_spec = (\<lambda>ctx. ''Version: '' @ py_str (ctx_version ctx) @
                        concat (map (\<lambda>r. [LF] @ ''Requires: '' @ r) (ctx_requires ctx))),
      render_service = (\<lambda>ctx. ''<services/>'')\<rparr>"

definition ex_empty_world :: world where
  "ex_empty_world = \<lparr>files = Map.empty, dirs = {}, cache = Map.empty, trace = []\<rparr>"

text \<open>An osc project working copy: its store names the project and the build service.\<close>

definition ex_osc_world :: world where
  "ex_osc_world = \<lparr>files = [''.osc/_project'' \<mapsto> ''devel:languages:nodejs'',
       ''.osc/_apiurl'' \<mapsto> ''https://api.opensuse.org'', ''.osc/_packages'' \<mapsto> ''<project/>''],
     dirs = {''.osc''}, cache = Map.empty, trace = []\<rparr>"

text \<open>A working directory holding the descriptor \<open>nodejs-foo.spec\<close> and a change log.\<close>

definition ex_spec_text :: "string \<Rightarrow> string" where
  "ex_spec_text v = ''Name:           nodejs-foo'' @ [LF] @ ''Version:        '' @ v @ [LF] @
     ''%description'' @ [LF] @ ''Version: 0'' @ [LF]"

definition ex_spec_world :: "string \<Rightarrow> world" where
  "ex_spec_world text = \<lparr>files = [''nodejs-foo.spec'' \<mapsto> text, ''nodejs-foo.changes'' \<mapsto> ''old log''],
     dirs = {}, cache = Map.empty, trace = []\<rparr>"

section \<open>Lemmas\<close>

lemma resolve_run:
  "resolve pkg w =
     (Inr (if path_exists w (pkg @ ''.spec'') then (''.'', True)
           else (pkg, path_exists w (path_join pkg (pkg @ ''.spec'')))), w)"
  by (simp add: resolve_def exists_def io_bind_def)

lemma logged_write_store [logged_intros]: "logged (write_store p fs)"
  by (induction fs rule: write_store.induct) (simp only: write_store.simps; intro logged_intros)+

lemma logged_genpkg_parts [logged_intros]:
  "logged (resolve pkg)" "logged (obs_notice E name data)" "logged (create_package_dir p)" "logged (record_release E dst pkg data)"
  "logged (prepare_dst ex dst)" "logged (update_branch E upd dst pkg specfn data)"
  "logged (create_branch E dst pkg specfn data)"
  unfolding resolve_def obs_notice_def create_package_dir_def prepare_dst_def record_release_def
    update_branch_def create_branch_def Let_def
  by (intro logged_intros)+

lemma logged_do_genpkg [logged_intros]: "logged (do_genpkg E upd name)"
  unfolding do_genpkg_def Let_def by (intro logged_intros)

lemma keeps_obs_notice [keeps_intros]:
  "keeps files (obs_notice E name data)" "keeps dirs (obs_notice E name data)"
  unfolding obs_notice_def by (intro keeps_intros)+

text \<open>The run once the descriptor is found, or once it is known to be absent.\<close>

lemma do_genpkg_found:
  assumes "resolve (''nodejs-'' @ name) w = (Inr (dst, True), w0)"
    and "fetch_registry E name w0 = (Inr data, w1)"
  shows "do_genpkg E upd name w =
           update_branch E upd dst (''nodejs-'' @ name) (path_join dst (''nodejs-'' @ name @ ''.spec'')) data w1"
  using assms by (simp add: do_genpkg_def io_bind_Inr prepare_dst_def io_seq_run Let_def)

lemma do_genpkg_new:
  assumes "resolve (''nodejs-'' @ name) w = (Inr (dst, False), w0)"
    and "fetch_registry E name w0 = (Inr data, w1)"
    and "obs_notice E name data w1 = (Inr tracked, w2)"
  shows "do_genpkg E upd name w =
           (if tracked then (Inr (), w2)
            else io_seq (prepare_dst False dst)
              (create_branch E dst (''nodejs-'' @ name) (path_join dst (''nodejs-'' @ name @ ''.spec'')) data) w2)"
  using assms by (simp add: do_genpkg_def io_bind_Inr Let_def)

text \<open>The update arm on its early returns.\<close>

lemma update_branch_same:
  assumes "files w (norm_path specfn) = Some text"
    and "gettag (spec_of_text text) ''Version'' = Some v" and "getitem data ''version'' = Inr (JStr v)"
  shows "update_branch E upd dst pkg specfn data w = (Inr (), w)"
  using assms by (simp add: update_branch_def read_file_def io_bind_Inr py_eq_str_def)

lemma update_branch_preview:
  assumes "files w (norm_path specfn) = Some text"
    and "gettag (spec_of_text text) ''Version'' = Some v" and "getitem data ''version'' = Inr x"
    and "x \<noteq> JStr v"
  shows "update_branch E False dst pkg specfn data w = (Inr (), w)"
proof -
  from assms(3) obtain kvs where "data = JObj kvs" by (auto simp: getitem_Inr)
  with assms show ?thesis by (simp add: update_branch_def read_file_def io_bind_Inr py_eq_str_def)
qed

lemma update_branch_no_version:
  assumes "files w (norm_path specfn) = Some text" and "gettag (spec_of_text text) ''Version'' = None"
  shows "update_branch E upd dst pkg specfn data w = (Inl (Exception ''old version not defined?''), w)"
  using assms by (simp add: update_branch_def read_file_def io_bind_Inr)

text \<open>Preparing the directory writes no file but the osc store files of the new package.\<close>

lemma outside_write_store:
  "set (map (\<lambda>(f, c). norm_path (p @ ''/.osc/'' @ f)) fs) \<subseteq> S \<Longrightarrow> keeps_outside S (write_store p fs)"
  by (induction fs rule: write_store.induct) (auto intro!: outside_intros)

lemma outside_create_package_dir: "keeps_outside (set (osc_written p)) (create_package_dir p)"
  unfolding create_package_dir_def
  by (intro outside_intros outside_write_store)
    (simp_all add: osc_written_def osc_store_files_def osc_store_names_def)

lemma outside_prepare_dst: "keeps_outside (set (osc_written dst)) (prepare_dst ex dst)"
  unfolding prepare_dst_def by (intro outside_intros outside_create_package_dir)

lemma update_branch_apply:
  assumes "files w (norm_path specfn) = Some text"
    and "gettag (spec_of_text text) ''Version'' = Some oldv" and "getitem data ''version'' = Inr x"
    and "x \<noteq> JStr oldv"
  shows "update_branch E True dst pkg specfn data w =
           io_seq (write_file specfn (spec_str (settag (spec_of_text text) ''Version'' (py_str x))))
             (record_release E dst pkg data) w"
proof -
  from assms(3) obtain kvs where "data = JObj kvs" by (auto simp: getitem_Inr)
  with assms show ?thesis by (simp add: update_branch_def read_file_def io_bind_Inr py_eq_str_def)
qed

text \<open>A successful change-log entry and download, and what they leave alone.\<close>

lemma record_release_ok:
  assumes "record_release E dst pkg data w = (Inr (), w')"
  shows "\<exists>v url. getitem data ''version'' = Inr v \<and> tarball_url data = Inr url \<and>
           files w' (norm_path (changes_path dst pkg)) =
             Some (changes_entry E v @ file_content w (norm_path (changes_path dst pkg))) \<and>
           path_exists w' (archive_path url dst)"
proof -
  obtain w1 where c: "write_changes_file E dst pkg data w = (Inr (), w1)"
    and d0: "io_bind (io_lift (tarball_url data)) (\<lambda>url. download E url dst) w1 = (Inr (), w')"
    using io_bind_Inr_cases [of "write_changes_file E dst pkg data" "\<lambda>_. io_bind (io_lift (tarball_url data)) (\<lambda>url. download E url dst)" w "()" w'] assms
    by (auto simp: record_release_def io_seq_run)
  obtain url where u: "tarball_url data = Inr url" and d: "download E url dst w1 = (Inr (), w')"
    using io_bind_Inr_cases [OF d0] by (auto simp: io_lift_def)
  obtain v where v: "getitem data ''version'' = Inr v" and w1: "w1 = fold apply_event (changes_events E (changes_path dst pkg)
                  (file_content w (norm_path (changes_path dst pkg))) v) w"
    using write_changes_file_success [OF c] by blast
  have "files w1 (norm_path (changes_path dst pkg)) =
      Some (changes_entry E v @ file_content w (norm_path (changes_path dst pkg)))"
    unfolding w1 by (rule changes_complete(1))
  with d have "files w' (norm_path (changes_path dst pkg)) =
      Some (changes_entry E v @ file_content w (norm_path (changes_path dst pkg)))"
    by (rule download_keeps_existing)
  with u v download_success_exists [OF d] show ?thesis by blast
qed

lemma record_release_frame:
  assumes "record_release E dst pkg data w = (r, w')"
    and "q \<noteq> norm_path (changes_path dst pkg)" and "q \<noteq> norm_path (changes_path dst pkg) @ ''.new''"
    and "files w q = Some c"
  shows "files w' q = Some c"
proof (cases "write_changes_file E dst pkg data w")
  case (Pair r1 w1)
  have f1: "files w1 q = Some c"
    using write_changes_file_other [OF Pair assms(2,3)] assms(4) by simp
  show ?thesis
  proof (cases r1)
    case (Inl e)
    with Pair assms(1) f1 show ?thesis by (simp add: record_release_def io_seq_run io_bind_def)
  next
    case (Inr u)
    show ?thesis
    proof (cases "tarball_url data")
      case (Inl e)
      with Pair Inr assms(1) f1 show ?thesis by (simp add: record_release_def io_seq_run io_bind_def io_lift_def)
    next
      case (Inr url)
      with Pair \<open>r1 = Inr u\<close> assms(1) have "download E url dst w1 = (r, w')"
        by (simp add: record_release_def io_seq_run io_bind_def io_lift_def)
      from download_keeps_existing [OF this f1] show ?thesis .
    qed
  qed
qed

text \<open>The descriptor, the service file, the log and its temporary file are four different files.\<close>

lemma genpkg_paths_distinct:
  "norm_path (path_join dst (pkg @ ''.spec'')) \<noteq> norm_path (changes_path dst pkg)"
  "norm_path (path_join dst (pkg @ ''.spec'')) \<noteq> norm_path (changes_path dst pkg) @ ''.new''"
  "norm_path (dst @ ''/_service'') \<noteq> norm_path (changes_path dst pkg)"
  "norm_path (dst @ ''/_service'') \<noteq> norm_path (changes_path dst pkg) @ ''.new''"
  "norm_path (dst @ ''/_service'') \<noteq> norm_path (path_join dst (pkg @ ''.spec''))"
proof -
  have s: "norm_path (path_join dst (pkg @ ''.spec'')) \<noteq> [] \<and> last (norm_path (path_join dst (pkg @ ''.spec''))) = CHR ''c''"
    using last_norm_path [of "path_join dst (pkg @ ''.spec'')"] last_path_join [of "pkg @ ''.spec''" dst] by simp
  have c: "norm_path (changes_path dst pkg) \<noteq> [] \<and> last (norm_path (changes_path dst pkg)) = CHR ''s''"
    using last_norm_path [of "changes_path dst pkg"] last_path_join [of "pkg @ ''.changes''" dst]
    by (simp add: changes_path_def)
  have v: "norm_path (dst @ ''/_service'') \<noteq> [] \<and> last (norm_path (dst @ ''/_service'')) = CHR ''e''"
    using last_norm_path [of "dst @ ''/_service''"] by simp
  have n: "last (norm_path (changes_path dst pkg) @ ''.new'') = CHR ''w''" by simp
  show "norm_path (path_join dst (pkg @ ''.spec'')) \<noteq> norm_path (changes_path dst pkg)"
    using s c by auto
  show "norm_path (path_join dst (pkg @ ''.spec'')) \<noteq> norm_path (changes_path dst pkg) @ ''.new''"
    using s n by auto
  show "norm_path (dst @ ''/_service'') \<noteq> norm_path (changes_path dst pkg)"
    using v c by auto
  show "norm_path (dst @ ''/_service'') \<noteq> norm_path (changes_path dst pkg) @ ''.new''"
    using v n by auto
  show "norm_path (dst @ ''/_service'') \<noteq> norm_path (path_join dst (pkg @ ''.spec''))"
    using v s by auto
qed

text \<open>The change log is none of the files osc writes.\<close>

lemma changes_not_osc_written: "norm_path (changes_path dst pkg) \<notin> set (osc_written p)"
proof -
  obtain y where "changes_path dst pkg = y @ pkg @ ''.changes''"
    using path_join_suffix [of dst "pkg @ ''.changes''"] by (auto simp: changes_path_def)
  then have y: "norm_path (changes_path dst pkg) = norm_path (y @ pkg) @ ''.changes''"
    using norm_path_suffix [of "''.changes''" "y @ pkg"] by simp
  have m: "norm_path (p @ ''/.osc/'' @ f) \<noteq> norm_path (changes_path dst pkg)"
    if "f \<in> set osc_store_names" for f
  proof -
    have f: "CHR ''/'' \<notin> set f"
      "take (min (length f) (length ''.changes'')) (rev f) \<noteq>
       take (min (length f) (length ''.changes'')) (rev ''.changes'')"
      using that by (auto simp: osc_store_names_def)
    have "norm_path (p @ ''/.osc/'' @ f) = norm_path (p @ ''/.osc/'') @ f"
      using norm_path_suffix [OF f(1), of "p @ ''/.osc/''"] by simp
    then show ?thesis unfolding y by (simp only:) (rule suffix_neq [OF f(2)])
  qed
  have pk: "''.osc/_packages'' \<noteq> norm_path (changes_path dst pkg)"
    unfolding y using suffix_neq [of "''.osc/_packages''" "''.changes''" "[]"] by simp
  show ?thesis
  proof
    assume "norm_path (changes_path dst pkg) \<in> set (osc_written p)"
    then obtain f where f: "f \<in> set osc_store_names"
      and e: "norm_path (changes_path dst pkg) = norm_path (p @ ''/.osc/'' @ f)"
      using pk by (auto simp: osc_written_def)
    from m [OF f] e show False by simp
  qed
qed

lemma create_branch_ok:
  assumes "create_branch E dst pkg specfn data w = (Inr (), w')"
  shows "\<exists>ctx w1. get_templatedata data = Inr ctx \<and>
           write_file specfn (genspec E ctx) w = (Inr (), w1) \<and>
           io_seq (write_file (dst @ ''/_service'') (genservice E ctx)) (record_release E dst pkg data) w1 = (Inr (), w')"
  using assms io_bind_Inr_cases [of "write_file specfn _"]
  by (cases "get_templatedata data") (fastforce simp: create_branch_def io_seq_run io_lift_def io_bind_def)+

section \<open>Properties of the orchestrator\<close>

text \<open>
  C25: the NoOp transition. When the descriptor exists and declares the version the
  registry reports as latest, the whole command is the registry fetch: it returns
  normally, and no file or directory is written and nothing is downloaded.
\<close>

theorem genpkg_noop:
  assumes "resolve (''nodejs-'' @ name) w = (Inr (dst, True), w)"
    and "fetch_registry E name w = (Inr data, w1)"
    and "files w (norm_path (path_join dst (''nodejs-'' @ name @ ''.spec''))) = Some text"
    and "gettag (spec_of_text text) ''Version'' = Some v" and "getitem data ''version'' = Inr (JStr v)"
  shows "do_genpkg E upd name w = (Inr (), w1) \<and> files w1 = files w \<and> dirs w1 = dirs w"
proof -
  have f: "files w1 = files w" and d: "dirs w1 = dirs w"
    using keepsD [OF keeps_fetch_registry(1) assms(2)] keepsD [OF keeps_fetch_registry(2) assms(2)] .
  have "update_branch E upd dst (''nodejs-'' @ name) (path_join dst (''nodejs-'' @ name @ ''.spec'')) data w1
      = (Inr (), w1)"
    using assms(3-5) f by (intro update_branch_same) simp_all
  with do_genpkg_found [OF assms(1,2)] f d show ?thesis by simp
qed

text \<open>
  C26: detection is decoupled from application: without the update flag, a found
  descriptor is never rewritten, whatever the versions; the command is the registry
  fetch and writes no file or directory.
\<close>

theorem genpkg_preview:
  assumes "resolve (''nodejs-'' @ name) w = (Inr (dst, True), w)"
    and "fetch_registry E name w = (Inr data, w1)"
    and "files w (norm_path (path_join dst (''nodejs-'' @ name @ ''.spec''))) = Some text"
    and "gettag (spec_of_text text) ''Version'' = Some v" and "getitem data ''version'' = Inr x"
  shows "do_genpkg E False name w = (Inr (), w1) \<and> files w1 = files w \<and> dirs w1 = dirs w"
proof -
  have f: "files w1 = files w" and d: "dirs w1 = dirs w"
    using keepsD [OF keeps_fetch_registry(1) assms(2)] keepsD [OF keeps_fetch_registry(2) assms(2)] .
  have "update_branch E False dst (''nodejs-'' @ name) (path_join dst (''nodejs-'' @ name @ ''.spec'')) data w1
      = (Inr (), w1)"
  proof (cases "x = JStr v")
    case True
    with assms(3-5) f show ?thesis by (intro update_branch_same) simp_all
  next
    case False
    with assms(3-5) f show ?thesis by (intro update_branch_preview) simp_all
  qed
  with do_genpkg_found [OF assms(1,2)] f d show ?thesis by simp
qed

text \<open>
  C27: the tracked-elsewhere transition. When no descriptor exists and the build
  service reports a version, the command writes no file or directory and returns, or
  raises \<open>KeyError\<close> when the registry entry has no version (the warning formats it).
  The registry has been fetched (and its cache written) before the check.
\<close>

theorem genpkg_tracked:
  assumes "resolve (''nodejs-'' @ name) w = (Inr (dst, False), w)"
    and "fetch_registry E name w = (Inr data, w1)"
    and "check_dln_exists E (''nodejs-'' @ name) w1 = (Inr (Some tv), w2)"
  shows "do_genpkg E upd name w = (case getitem data ''version'' of Inl e \<Rightarrow> Inl e | Inr x \<Rightarrow> Inr (), w2) \<and>
         files w2 = files w \<and> dirs w2 = dirs w"
proof -
  have f: "files w1 = files w" "dirs w1 = dirs w"
    using keepsD [OF keeps_fetch_registry(1) assms(2)] keepsD [OF keeps_fetch_registry(2) assms(2)] .
  have g: "files w2 = files w1" "dirs w2 = dirs w1"
    using keepsD [OF keeps_check_dln_exists(1) assms(3)] keepsD [OF keeps_check_dln_exists(2) assms(3)] .
  show ?thesis
  proof (cases "getitem data ''version''")
    case (Inl e)
    then have "obs_notice E name data w1 = (Inl e, w2)"
      using assms(3) by (simp add: obs_notice_def io_bind_Inr)
    then have "do_genpkg E upd name w = (Inl e, w2)"
      using assms(1,2) by (simp add: do_genpkg_def io_bind_Inr io_bind_Inl Let_def)
    with Inl f g show ?thesis by simp
  next
    case (Inr x)
    then have "obs_notice E name data w1 = (Inr True, w2)"
      using assms(3) by (simp add: obs_notice_def io_bind_Inr)
    from do_genpkg_new [OF assms(1,2) this] Inr f g show ?thesis by simp
  qed
qed

text \<open>
  C28: the Update transition. With the update flag, when the registry version differs
  from the descriptor's, a successful run leaves the descriptor with its \<open>Version\<close>
  field rewritten in place (the rest as \<open>settag\<close> leaves it), the change log with the
  new entry in front of the old text, and the archive present.
\<close>

theorem genpkg_update_applied:
  assumes "resolve (''nodejs-'' @ name) w = (Inr (dst, True), w)"
    and "fetch_registry E name w = (Inr data, w1)"
    and "files w (norm_path (path_join dst (''nodejs-'' @ name @ ''.spec''))) = Some text"
    and "gettag (spec_of_text text) ''Version'' = Some oldv"
    and "getitem data ''version'' = Inr (JStr v)" and "v \<noteq> oldv"
    and "do_genpkg E True name w = (Inr (), w')"
  shows "files w' (norm_path (path_join dst (''nodejs-'' @ name @ ''.spec''))) =
           Some (spec_str (settag (spec_of_text text) ''Version'' v)) \<and>
         files w' (norm_path (changes_path dst (''nodejs-'' @ name))) =
           Some (changes_entry E (JStr v) @ file_content w (norm_path (changes_path dst (''nodejs-'' @ name)))) \<and>
         (\<exists>url. tarball_url data = Inr url \<and> path_exists w' (archive_path url dst))"
proof -
  let ?pkg = "''nodejs-'' @ name"
  let ?specfn = "path_join dst (?pkg @ ''.spec'')"
  let ?new = "spec_str (settag (spec_of_text text) ''Version'' v)"
  have f1: "files w1 = files w"
    using keepsD [OF keeps_fetch_registry(1) assms(2)] .
  have "update_branch E True dst ?pkg ?specfn data w1 = (Inr (), w')"
    using do_genpkg_found [OF assms(1,2), of True] assms(7) by simp
  then have "io_seq (write_file ?specfn ?new) (record_release E dst ?pkg data) w1 = (Inr (), w')"
    using update_branch_apply [of w1 ?specfn "text" oldv data "JStr v" E dst ?pkg] assms(3-6) f1 by simp
  then obtain w2 where wf: "write_file ?specfn ?new w1 = (Inr (), w2)"
    and rr: "record_release E dst ?pkg data w2 = (Inr (), w')"
    using io_bind_Inr_cases by (fastforce simp: io_seq_run)
  have f2: "files w2 = (files w)(norm_path ?specfn \<mapsto> ?new)"
    using write_file_ok [OF wf] f1 by simp
  have spec: "files w' (norm_path ?specfn) = Some ?new"
    by (rule record_release_frame [OF rr genpkg_paths_distinct(1,2)]) (simp add: f2)
  have old: "file_content w2 (norm_path (changes_path dst ?pkg)) = file_content w (norm_path (changes_path dst ?pkg))"
    using genpkg_paths_distinct(1) [of dst ?pkg] by (simp add: f2 file_content_def)
  from record_release_ok [OF rr] assms(5) old spec show ?thesis by auto
qed

text \<open>
  C29: the Create transition. When no descriptor exists and the package is not tracked,
  a successful run leaves the rendered descriptor, the rendered service file, the log
  with an entry for the registry version, and the archive.
\<close>

theorem genpkg_create:
  assumes "resolve (''nodejs-'' @ name) w = (Inr (dst, False), w)"
    and "fetch_registry E name w = (Inr data, w1)"
    and "check_dln_exists E (''nodejs-'' @ name) w1 = (Inr None, w2)"
    and "get_templatedata data = Inr ctx"
    and "do_genpkg E upd name w = (Inr (), w')"
  shows "files w' (norm_path (path_join dst (''nodejs-'' @ name @ ''.spec''))) = Some (genspec E ctx) \<and>
         files w' (norm_path (dst @ ''/_service'')) = Some (genservice E ctx) \<and>
         files w' (norm_path (changes_path dst (''nodejs-'' @ name))) =
           Some (changes_entry E (ctx_version ctx) @ file_content w (norm_path (changes_path dst (''nodejs-'' @ name)))) \<and>
         (\<exists>url. tarball_url data = Inr url \<and> path_exists w' (archive_path url dst))"
proof -
  let ?pkg = "''nodejs-'' @ name"
  let ?specfn = "path_join dst (?pkg @ ''.spec'')"
  have "obs_notice E name data w1 = (Inr False, w2)"
    using assms(3) by (simp add: obs_notice_def io_bind_Inr)
  from do_genpkg_new [OF assms(1,2) this] assms(5)
  obtain w3 where p: "prepare_dst False dst w2 = (Inr (), w3)"
    and c: "create_branch E dst ?pkg ?specfn data w3 = (Inr (), w')"
    using io_bind_Inr_cases by (fastforce simp: io_seq_run)
  have f3: "files w3 (norm_path (changes_path dst ?pkg)) = files w (norm_path (changes_path dst ?pkg))"
    using keepsD [OF keeps_fetch_registry(1) assms(2)] keepsD [OF keeps_check_dln_exists(1) assms(3)]
      keeps_outsideD [OF outside_prepare_dst p changes_not_osc_written] by simp
  obtain w4 w5 where ws: "write_file ?specfn (genspec E ctx) w3 = (Inr (), w4)"
    and wv: "write_file (dst @ ''/_service'') (genservice E ctx) w4 = (Inr (), w5)"
    and rr: "record_release E dst ?pkg data w5 = (Inr (), w')"
    using create_branch_ok [OF c] assms(4) io_bind_Inr_cases by (fastforce simp: io_seq_run)
  have f5: "files w5 = (files w3)(norm_path ?specfn \<mapsto> genspec E ctx, norm_path (dst @ ''/_service'') \<mapsto> genservice E ctx)"
    using write_file_ok [OF ws] write_file_ok [OF wv] by simp
  have ne: "norm_path ?specfn \<noteq> norm_path (dst @ ''/_service'')"
    by (rule not_sym) (rule genpkg_paths_distinct(5))
  have "files w5 (norm_path ?specfn) = Some (genspec E ctx)"
    using ne by (simp add: f5)
  from record_release_frame [OF rr genpkg_paths_distinct(1,2) this]
  have spec: "files w' (norm_path ?specfn) = Some (genspec E ctx)" .
  have service: "files w' (norm_path (dst @ ''/_service'')) = Some (genservice E ctx)"
    by (rule record_release_frame [OF rr genpkg_paths_distinct(3,4)]) (simp add: f5)
  have old: "file_content w5 (norm_path (changes_path dst ?pkg)) = file_content w (norm_path (changes_path dst ?pkg))"
    using genpkg_paths_distinct(1,3) [of dst ?pkg] f3 by (simp add: f5 file_content_def)
  have v: "getitem data ''version'' = Inr (ctx_version ctx)"
    using get_templatedata_Inr [THEN iffD1, OF assms(4)] by auto
  obtain v' url where "getitem data ''version'' = Inr v'" and u: "tarball_url data = Inr url"
    and ch: "files w' (norm_path (changes_path dst ?pkg)) =
               Some (changes_entry E v' @ file_content w5 (norm_path (changes_path dst ?pkg)))"
    and a: "path_exists w' (archive_path url dst)"
    using record_release_ok [OF rr] by blast
  with v have "v' = ctx_version ctx" by simp
  with ch old u a spec service show ?thesis by auto
qed

text \<open>
  C30: a found descriptor without a \<open>Version\<close> field in its preamble aborts the command
  with \<open>Exception('old version not defined?')\<close> before anything is written.
\<close>

theorem genpkg_missing_version:
  assumes "resolve (''nodejs-'' @ name) w = (Inr (dst, True), w)"
    and "fetch_registry E name w = (Inr data, w1)"
    and "files w (norm_path (path_join dst (''nodejs-'' @ name @ ''.spec''))) = Some text"
    and "gettag (spec_of_text text) ''Version'' = None"
  shows "do_genpkg E upd name w = (Inl (Exception ''old version not defined?''), w1) \<and>
         files w1 = files w \<and> dirs w1 = dirs w"
proof -
  have f: "files w1 = files w" and d: "dirs w1 = dirs w"
    using keepsD [OF keeps_fetch_registry(1) assms(2)] keepsD [OF keeps_fetch_registry(2) assms(2)] .
  have "update_branch E upd dst (''nodejs-'' @ name) (path_join dst (''nodejs-'' @ name @ ''.spec'')) data w1
      = (Inl (Exception ''old version not defined?''), w1)"
    using assms(3,4) f by (intro update_branch_no_version) simp_all
  with do_genpkg_found [OF assms(1,2)] f d show ?thesis by simp
qed

text \<open>
  C31: a dependency range the translator rejects aborts the Create transition with the
  translator's error before the descriptor, the service file or the log is written: the
  package directory has been created by then, and the only files written are the osc
  store files of the new package (when the working directory is an osc project).
\<close>

theorem genpkg_unsupported_range:
  assumes "resolve (''nodejs-'' @ name) w = (Inr (dst, False), w)"
    and "fetch_registry E name w = (Inr data, w1)"
    and "check_dln_exists E (''nodejs-'' @ name) w1 = (Inr None, w2)"
    and "get_templatedata data = Inl e"
    and "prepare_dst False dst w2 = (Inr (), w3)"
  shows "do_genpkg E upd name w = (Inl e, w3) \<and>
         (\<forall>q. q \<notin> set (osc_written dst) \<longrightarrow> files w3 q = files w q)"
proof -
  have "obs_notice E name data w1 = (Inr False, w2)"
    using assms(3) by (simp add: obs_notice_def io_bind_Inr)
  from do_genpkg_new [OF assms(1,2) this] assms(4,5)
  have "do_genpkg E upd name w = (Inl e, w3)"
    by (simp add: io_seq_run io_bind_Inr create_branch_def)
  moreover have "files w3 q = files w q" if "q \<notin> set (osc_written dst)" for q
    using keepsD [OF keeps_fetch_registry(1) assms(2)] keepsD [OF keeps_check_dln_exists(1) assms(3)]
      keeps_outsideD [OF outside_prepare_dst assms(5) that] by simp
  ultimately show ?thesis by blast
qed

text \<open>
  C34: the change log is written before the archive is fetched: when the download
  fails, the command raises the download's error with the new log entry already in
  place (and, in both arms, the descriptor already written).
\<close>

theorem release_download_failure_keeps_log:
  assumes "write_changes_file E dst pkg data w = (Inr (), w1)"
    and "tarball_url data = Inr url" and "download E url dst w1 = (Inl e, w2)"
  shows "\<exists>v. getitem data ''version'' = Inr v \<and> record_release E dst pkg data w = (Inl e, w2) \<and>
           files w2 (norm_path (changes_path dst pkg)) =
             Some (changes_entry E v @ file_content w (norm_path (changes_path dst pkg)))"
proof -
  obtain v where v: "getitem data ''version'' = Inr v"
    and w1: "w1 = fold apply_event (changes_events E (changes_path dst pkg)
                  (file_content w (norm_path (changes_path dst pkg))) v) w"
    using write_changes_file_success [OF assms(1)] by blast
  have "files w1 (norm_path (changes_path dst pkg)) =
      Some (changes_entry E v @ file_content w (norm_path (changes_path dst pkg)))"
    unfolding w1 by (rule changes_complete(1))
  from download_keeps_existing [OF assms(3) this] v assms show ?thesis
    by (simp add: record_release_def io_seq_run io_bind_Inr)
qed

section \<open>Witnesses\<close>

text \<open>In an osc project the package directory gets its own store and joins the package list.\<close>

lemma ex_create_package_dir:
  "fst (create_package_dir ''nodejs-foo'' ex_osc_world) = Inr () \<and>
   files (snd (create_package_dir ''nodejs-foo'' ex_osc_world)) ''nodejs-foo/.osc/_package'' =
     Some (''nodejs-foo'' @ [LF]) \<and>
   ''nodejs-foo/.osc'' \<in> dirs (snd (create_package_dir ''nodejs-foo'' ex_osc_world)) \<and>
   files (snd (create_package_dir ''nodejs-foo'' ex_osc_world)) ''.osc/_packages'' =
     Some (osc_add_package ''<project/>'' ''nodejs-foo'')"
  by (simp add: create_package_dir_def ex_osc_world_def exists_def path_exists_def io_bind_def io_seq_def
      read_file_def os_mkdir_def emit_def dir_ok_def parent_def osc_store_files_def osc_store_names_def
      write_file_def open_write_def write_str_def basename_def file_content_def)

text \<open>The steps of the example runs.\<close>

lemma ex_sync_fetch:
  assumes "cache w ''foo'' = None"
  shows "fetch_registry (ex_sync_env ver deps tr) ''foo'' w =
    (Inr (ex_entry ver deps),
     apply_event (CacheStore ''foo'' (JObj [(''dist-tags'', JObj [(''latest'', JStr ver)]),
        (''versions'', JObj [(ver, ex_entry ver deps)]), (''_etag'', JStr ''t1'')]))
       (apply_event (Get (registry_url ''foo'') base_headers) w))"
proof -
  have "fresh_document (ex_sync_env ver deps tr) \<lparr>status_code = 200, resp_headers = [(''ETag'', ''t1'')], content = ''doc''\<rparr>
     = Inr (JObj [(''dist-tags'', JObj [(''latest'', JStr ver)]),
        (''versions'', JObj [(ver, ex_entry ver deps)]), (''_etag'', JStr ''t1'')])"
    by (simp add: fresh_document_def raise_for_status_def resp_json_def header_get_etag ex_sync_env_def
        ex_registry_doc_def)
  with assms show ?thesis
    by (simp add: fetch_registry_eq request_headers_def ex_sync_env_def latest_entry_def)
qed

lemma ex_sync_check:
  "check_dln_exists (ex_sync_env ver deps tr) ''nodejs-foo'' w =
     (if tr then (Inr (Some ''1.0.0''), apply_event (Get (fileinfo_url ''nodejs-foo'') [])
                    (apply_event (Get (source_url ''nodejs-foo'') []) w))
      else (Inr None, apply_event (Get (source_url ''nodejs-foo'') []) w))"
  by (simp add: check_dln_exists_eq ex_sync_env_def source_url_def fileinfo_url_def registry_url_def
      obs_api_def fileinfo_version_def xml_find_def Let_def)

lemma ex_sync_templatedata:
  "get_templatedata (ex_entry ''1.2.0'' (JObj [(''bar'', JStr ''^1.0.0'')])) = Inr \<lparr>ctx_name = JStr ''foo'', ctx_version = JStr ''1.2.0'',
    ctx_source = JStr ''https://registry.npmjs.org/foo/-/foo-1.2.0.tgz'', ctx_description = JStr ''The foo library'',
    ctx_license = JStr ''FIXME'', ctx_url = JStr ''https://foo.example.org'', ctx_summary = ''The foo library'',
    ctx_requires = [''bar >= 1.0.0'']\<rparr>"
  by (simp add: get_templatedata_def license_of_def requires_of_def translate_range_def first_line_def
      ex_entry_def LF_def)

lemma ex_create_branch_ok:
  assumes fW: "files W = Map.empty" and dW: "dirs W = {''nodejs-foo''}"
  shows "fst (create_branch (ex_sync_env ''1.2.0'' (JObj [(''bar'', JStr ''^1.0.0'')]) False) ''nodejs-foo'' ''nodejs-foo''
     ''nodejs-foo/nodejs-foo.spec'' (ex_entry ''1.2.0'' (JObj [(''bar'', JStr ''^1.0.0'')])) W) = Inr ()"
proof -
  define E where "E = ex_sync_env ''1.2.0'' (JObj [(''bar'', JStr ''^1.0.0'')]) False"
  define D where "D = ex_entry ''1.2.0'' (JObj [(''bar'', JStr ''^1.0.0'')])"
  obtain ctx where ctx: "get_templatedata D = Inr ctx"
    using ex_sync_templatedata by (simp add: D_def)
  define W4 where "W4 = apply_event (Append ''nodejs-foo/nodejs-foo.spec'' (genspec E ctx)) (apply_event (Truncate ''nodejs-foo/nodejs-foo.spec'') W)"
  define W5 where "W5 = apply_event (Append ''nodejs-foo/_service'' (genservice E ctx)) (apply_event (Truncate ''nodejs-foo/_service'') W4)"
  have s1: "write_file ''nodejs-foo/nodejs-foo.spec'' (genspec E ctx) W = (Inr (), W4)"
    unfolding W4_def using dW by (intro write_file_run) (simp_all add: dir_ok_def parent_def)
  have s2: "write_file ''nodejs-foo/_service'' (genservice E ctx) W4 = (Inr (), W5)"
    unfolding W5_def using dW by (intro write_file_run) (simp_all add: W4_def dir_ok_def parent_def)
  have d5: "dirs W5 = {''nodejs-foo''}" by (simp add: W5_def W4_def dW)
  have f5: "files W5 ''nodejs-foo/foo-1.2.0.tgz'' = None" by (simp add: W5_def W4_def fW)
  have cp: "norm_path (changes_path ''nodejs-foo'' ''nodejs-foo'') = ''nodejs-foo/nodejs-foo.changes''"
    by (simp add: changes_path_def path_join_def)
  obtain W6 where s3: "write_changes_file E ''nodejs-foo'' ''nodejs-foo'' D W5 = (Inr (), W6)"
    using write_changes_file_ok_run [of "''nodejs-foo''" "''nodejs-foo''" W5 D "JStr ''1.2.0''" E] cp d5
    by (simp add: dir_ok_def parent_def D_def ex_entry_def)
  have d6: "dirs W6 = {''nodejs-foo''}"
    using keepsD [OF keeps_dirs_write_changes_file s3] d5 by simp
  have f6: "files W6 ''nodejs-foo/foo-1.2.0.tgz'' = None"
    using write_changes_file_other [OF s3, of "''nodejs-foo/foo-1.2.0.tgz''"] f5 cp by simp
  have u: "tarball_url D = Inr ''https://registry.npmjs.org/foo/-/foo-1.2.0.tgz''"
    by (simp add: tarball_url_def D_def ex_entry_def)
  have ap: "archive_path ''https://registry.npmjs.org/foo/-/foo-1.2.0.tgz'' ''nodejs-foo'' = ''nodejs-foo/foo-1.2.0.tgz''"
    by (simp add: archive_path_def basename_def path_join_def)
  obtain W7 where s4: "download E ''https://registry.npmjs.org/foo/-/foo-1.2.0.tgz'' ''nodejs-foo'' W6 = (Inr (), W7)"
    using download_fresh_run [of W6 "''https://registry.npmjs.org/foo/-/foo-1.2.0.tgz''" "''nodejs-foo''" E]
      f6 d6 ap
    by (simp add: path_exists_def E_def ex_sync_env_def raise_for_status_def registry_url_def source_url_def
        obs_api_def dir_ok_def parent_def)
  have "create_branch E ''nodejs-foo'' ''nodejs-foo'' ''nodejs-foo/nodejs-foo.spec'' D W = (Inr (), W7)"
    using ctx s1 s2 s3 u s4
    by (simp add: create_branch_def record_release_def io_seq_run io_bind_Inr)
  then show ?thesis by (simp add: E_def D_def)
qed

lemma ex_spec_resolve:
  "resolve (''nodejs-'' @ ''foo'') (ex_spec_world text) = (Inr (''.'', True), ex_spec_world text)"
  by (simp add: resolve_run path_exists_def ex_spec_world_def)

lemma ex_spec_gettag:
  "gettag (spec_of_text (ex_spec_text ''1.1.0'')) ''Version'' = Some ''1.1.0''"
  "gettag (spec_of_text (ex_spec_text ''1.2.0'')) ''Version'' = Some ''1.2.0''"
  by (simp add: ex_spec_text_def spec_of_text_def spec_read_def py_readlines_def gettag_def LF_def
      is_boundary_def case_defs lstrip_def is_space_def)+

lemma ex_spec_fetch:
  "\<exists>W1. fetch_registry (ex_sync_env ver deps tr) ''foo'' (ex_spec_world text) = (Inr (ex_entry ver deps), W1) \<and>
        files W1 = files (ex_spec_world text) \<and> dirs W1 = {}"
  using ex_sync_fetch [of "ex_spec_world text" ver deps tr] by (simp add: ex_spec_world_def)

text \<open>The spec scenarios Create, NoOp, Update applied and Unsupported range, and the other paths.\<close>

theorem genpkg_noop_witness:
  "do_genpkg (ex_sync_env ''1.2.0'' (JObj []) False) True ''foo'' (ex_spec_world (ex_spec_text ''1.2.0''))
   = (Inr (), snd (fetch_registry (ex_sync_env ''1.2.0'' (JObj []) False) ''foo'' (ex_spec_world (ex_spec_text ''1.2.0''))))"
proof -
  obtain W1 where f: "fetch_registry (ex_sync_env ''1.2.0'' (JObj []) False) ''foo'' (ex_spec_world (ex_spec_text ''1.2.0''))
      = (Inr (ex_entry ''1.2.0'' (JObj [])), W1)"
    using ex_spec_fetch by blast
  have fl: "files (ex_spec_world (ex_spec_text ''1.2.0'')) (norm_path (path_join ''.'' (''nodejs-'' @ ''foo'' @ ''.spec'')))
      = Some (ex_spec_text ''1.2.0'')"
    by (simp add: ex_spec_world_def path_join_def)
  have v: "getitem (ex_entry ''1.2.0'' (JObj [])) ''version'' = Inr (JStr ''1.2.0'')"
    by (simp add: ex_entry_def)
  from genpkg_noop [OF ex_spec_resolve f fl ex_spec_gettag(2) v] f show ?thesis by simp
qed

theorem genpkg_preview_witness:
  "do_genpkg (ex_sync_env ''1.2.0'' (JObj []) False) False ''foo'' (ex_spec_world (ex_spec_text ''1.1.0''))
   = (Inr (), snd (fetch_registry (ex_sync_env ''1.2.0'' (JObj []) False) ''foo'' (ex_spec_world (ex_spec_text ''1.1.0'')))) \<and>
   files (snd (fetch_registry (ex_sync_env ''1.2.0'' (JObj []) False) ''foo'' (ex_spec_world (ex_spec_text ''1.1.0''))))
     = files (ex_spec_world (ex_spec_text ''1.1.0''))"
proof -
  obtain W1 where f: "fetch_registry (ex_sync_env ''1.2.0'' (JObj []) False) ''foo'' (ex_spec_world (ex_spec_text ''1.1.0''))
      = (Inr (ex_entry ''1.2.0'' (JObj [])), W1)"
    using ex_spec_fetch by blast
  have fl: "files (ex_spec_world (ex_spec_text ''1.1.0'')) (norm_path (path_join ''.'' (''nodejs-'' @ ''foo'' @ ''.spec'')))
      = Some (ex_spec_text ''1.1.0'')"
    by (simp add: ex_spec_world_def path_join_def)
  have v: "getitem (ex_entry ''1.2.0'' (JObj [])) ''version'' = Inr (JStr ''1.2.0'')"
    by (simp add: ex_entry_def)
  from genpkg_preview [OF ex_spec_resolve f fl ex_spec_gettag(1) v] f show ?thesis by simp
qed

theorem genpkg_tracked_witness:
  "fst (do_genpkg (ex_sync_env ''1.2.0'' (JObj []) True) False ''foo'' ex_empty_world) = Inr () \<and>
   files (snd (do_genpkg (ex_sync_env ''1.2.0'' (JObj []) True) False ''foo'' ex_empty_world)) = Map.empty \<and>
   dirs (snd (do_genpkg (ex_sync_env ''1.2.0'' (JObj []) True) False ''foo'' ex_empty_world)) = {}"
proof -
  have r: "resolve (''nodejs-'' @ ''foo'') ex_empty_world = (Inr (''nodejs-foo'', False), ex_empty_world)"
    by (simp add: resolve_run path_exists_def path_join_def ex_empty_world_def)
  obtain W1 where f: "fetch_registry (ex_sync_env ''1.2.0'' (JObj []) True) ''foo'' ex_empty_world
      = (Inr (ex_entry ''1.2.0'' (JObj [])), W1)"
    using ex_sync_fetch [of ex_empty_world] by (simp add: ex_empty_world_def)
  obtain W2 where c: "check_dln_exists (ex_sync_env ''1.2.0'' (JObj []) True) (''nodejs-'' @ ''foo'') W1 = (Inr (Some ''1.0.0''), W2)"
    by (simp add: ex_sync_check)
  from genpkg_tracked [OF r f c] show ?thesis
    by (simp add: ex_entry_def ex_empty_world_def)
qed

theorem genpkg_update_applied_witness:
  "files (snd (do_genpkg (ex_sync_env ''1.2.0'' (JObj []) False) True ''foo'' (ex_spec_world (ex_spec_text ''1.1.0''))))
     ''nodejs-foo.spec'' =
   Some (''Name:           nodejs-foo'' @ [LF] @ ''Version:        1.2.0'' @ [LF] @ ''%description'' @ [LF] @ ''Version: 0'')"
proof -
  define E where "E = ex_sync_env ''1.2.0'' (JObj []) False"
  define D where "D = ex_entry ''1.2.0'' (JObj [])"
  define W0 where "W0 = ex_spec_world (ex_spec_text ''1.1.0'')"
  obtain W1 where f: "fetch_registry E ''foo'' W0 = (Inr D, W1)"
    and fW1: "files W1 = files W0" and dW1: "dirs W1 = {}"
    using ex_spec_fetch [of "''1.2.0''" "JObj []" False "ex_spec_text ''1.1.0''"] by (auto simp: E_def D_def W0_def)
  have fl: "files W0 (norm_path (path_join ''.'' (''nodejs-'' @ ''foo'' @ ''.spec''))) = Some (ex_spec_text ''1.1.0'')"
    by (simp add: W0_def ex_spec_world_def path_join_def)
  have v: "getitem D ''version'' = Inr (JStr ''1.2.0'')" by (simp add: D_def ex_entry_def)
  define S where "S = spec_str (settag (spec_of_text (ex_spec_text ''1.1.0'')) ''Version'' (py_str (JStr ''1.2.0'')))"
  have S: "S = ''Name:           nodejs-foo'' @ [LF] @ ''Version:        1.2.0'' @ [LF] @ ''%description'' @ [LF] @ ''Version: 0''"
    by (simp add: S_def ex_spec_text_def spec_of_text_def spec_read_def py_readlines_def settag_def spec_str_def
        LF_def is_boundary_def case_defs replace_field_def leading_space_def is_space_def)
  have ub: "update_branch E True ''.'' ''nodejs-foo'' ''./nodejs-foo.spec'' D W1 =
      io_seq (write_file ''./nodejs-foo.spec'' S) (record_release E ''.'' ''nodejs-foo'' D) W1"
    using update_branch_apply [of W1 "''./nodejs-foo.spec''" "ex_spec_text ''1.1.0''" "''1.1.0''" D "JStr ''1.2.0''"]
      fW1 fl ex_spec_gettag(1) v by (simp add: S_def path_join_def)
  define W2 where "W2 = apply_event (Append ''./nodejs-foo.spec'' S) (apply_event (Truncate ''./nodejs-foo.spec'') W1)"
  have s1: "write_file ''./nodejs-foo.spec'' S W1 = (Inr (), W2)"
    unfolding W2_def using dW1 by (intro write_file_run) (simp_all add: dir_ok_def parent_def)
  have cp: "norm_path (changes_path ''.'' ''nodejs-foo'') = ''nodejs-foo.changes''"
    by (simp add: changes_path_def path_join_def)
  have d2: "dirs W2 = {}" by (simp add: W2_def dW1)
  obtain W3 where s2: "write_changes_file E ''.'' ''nodejs-foo'' D W2 = (Inr (), W3)"
    using write_changes_file_ok_run [of "''.''" "''nodejs-foo''" W2 D "JStr ''1.2.0''" E] cp d2 v
    by (simp add: dir_ok_def parent_def)
  have f2: "files W2 ''foo-1.2.0.tgz'' = None"
    by (simp add: W2_def fW1 W0_def ex_spec_world_def)
  have f3: "files W3 ''foo-1.2.0.tgz'' = None"
    using write_changes_file_other [OF s2, of "''foo-1.2.0.tgz''"] f2 cp by simp
  have d3: "dirs W3 = {}"
    using keepsD [OF keeps_dirs_write_changes_file s2] d2 by simp
  have u: "tarball_url D = Inr ''https://registry.npmjs.org/foo/-/foo-1.2.0.tgz''"
    by (simp add: tarball_url_def D_def ex_entry_def)
  have ap: "archive_path ''https://registry.npmjs.org/foo/-/foo-1.2.0.tgz'' ''.'' = ''./foo-1.2.0.tgz''"
    by (simp add: archive_path_def basename_def path_join_def)
  obtain W4 where s3: "download E ''https://registry.npmjs.org/foo/-/foo-1.2.0.tgz'' ''.'' W3 = (Inr (), W4)"
    using download_fresh_run [of W3 "''https://registry.npmjs.org/foo/-/foo-1.2.0.tgz''" "''.''" E] f3 d3 ap
    by (simp add: path_exists_def E_def ex_sync_env_def raise_for_status_def registry_url_def source_url_def
        obs_api_def dir_ok_def parent_def)
  have r: "record_release E ''.'' ''nodejs-foo'' D W2 = (Inr (), W4)"
    using s2 u s3 by (simp add: record_release_def io_seq_run io_bind_Inr)
  have run: "do_genpkg E True ''foo'' W0 = (Inr (), W4)"
    using do_genpkg_found [OF ex_spec_resolve [of "ex_spec_text ''1.1.0''", folded W0_def] f, of True] ub s1 r
    by (simp add: path_join_def io_seq_run io_bind_Inr)
  from genpkg_update_applied [OF ex_spec_resolve [of "ex_spec_text ''1.1.0''", folded W0_def] f fl ex_spec_gettag(1) v _ run]
  have "files W4 ''nodejs-foo.spec'' = Some S" by (simp add: path_join_def S_def)
  with run S show ?thesis by (simp add: E_def W0_def)
qed

theorem genpkg_create_witness:
  "files (snd (do_genpkg (ex_sync_env ''1.2.0'' (JObj [(''bar'', JStr ''^1.0.0'')]) False) False ''foo'' ex_empty_world))
     ''nodejs-foo/nodejs-foo.spec'' = Some (''Version: 1.2.0'' @ [LF] @ ''Requires: bar >= 1.0.0'')"
proof -
  define E where "E = ex_sync_env ''1.2.0'' (JObj [(''bar'', JStr ''^1.0.0'')]) False"
  define D where "D = ex_entry ''1.2.0'' (JObj [(''bar'', JStr ''^1.0.0'')])"
  obtain W1 where f: "fetch_registry E ''foo'' ex_empty_world = (Inr D, W1)"
    and fW1: "files W1 = Map.empty" and dW1: "dirs W1 = {}"
    using ex_sync_fetch [of ex_empty_world "''1.2.0''" "JObj [(''bar'', JStr ''^1.0.0'')]" False]
    by (simp add: E_def D_def ex_empty_world_def)
  have r: "resolve (''nodejs-'' @ ''foo'') ex_empty_world = (Inr (''nodejs-foo'', False), ex_empty_world)"
    by (simp add: resolve_run path_exists_def path_join_def ex_empty_world_def)
  define W2 where "W2 = apply_event (Get (source_url ''nodejs-foo'') []) W1"
  have c: "check_dln_exists E (''nodejs-'' @ ''foo'') W1 = (Inr None, W2)"
    by (simp add: ex_sync_check E_def W2_def)
  define W3 where "W3 = apply_event (Mkdir ''nodejs-foo'') W2"
  have p: "prepare_dst False ''nodejs-foo'' W2 = (Inr (), W3)"
    using fW1 dW1 by (simp add: prepare_dst_def exists_def io_bind_def os_mkdir_def path_exists_def emit_def
        dir_ok_def parent_def W2_def W3_def)
  obtain W4 where cb: "create_branch E ''nodejs-foo'' ''nodejs-foo'' ''nodejs-foo/nodejs-foo.spec'' D W3 = (Inr (), W4)"
    using ex_create_branch_ok [of W3] fW1 dW1 by (simp add: W3_def W2_def E_def D_def) (metis prod.collapse)
  have "obs_notice E ''foo'' D W1 = (Inr False, W2)"
    using c by (simp add: obs_notice_def io_bind_Inr)
  from do_genpkg_new [OF r f this] p cb
  have run: "do_genpkg E False ''foo'' ex_empty_world = (Inr (), W4)"
    by (simp add: io_seq_run io_bind_Inr path_join_def)
  have t: "get_templatedata D = Inr \<lparr>ctx_name = JStr ''foo'', ctx_version = JStr ''1.2.0'',
    ctx_source = JStr ''https://registry.npmjs.org/foo/-/foo-1.2.0.tgz'', ctx_description = JStr ''The foo library'',
    ctx_license = JStr ''FIXME'', ctx_url = JStr ''https://foo.example.org'', ctx_summary = ''The foo library'',
    ctx_requires = [''bar >= 1.0.0'']\<rparr>"
    by (simp add: D_def ex_sync_templatedata)
  from genpkg_create [OF r f c t run] run show ?thesis
    by (simp add: E_def genspec_def ex_sync_env_def path_join_def)
qed

theorem genpkg_missing_version_witness:
  "fst (do_genpkg (ex_sync_env ''1.2.0'' (JObj []) False) True ''foo'' (ex_spec_world ''Name: nodejs-foo''))
   = Inl (Exception ''old version not defined?'')"
proof -
  obtain W1 where f: "fetch_registry (ex_sync_env ''1.2.0'' (JObj []) False) ''foo'' (ex_spec_world ''Name: nodejs-foo'')
      = (Inr (ex_entry ''1.2.0'' (JObj [])), W1)"
    using ex_spec_fetch by blast
  have fl: "files (ex_spec_world ''Name: nodejs-foo'') (norm_path (path_join ''.'' (''nodejs-'' @ ''foo'' @ ''.spec'')))
      = Some ''Name: nodejs-foo''"
    by (simp add: ex_spec_world_def path_join_def)
  have g: "gettag (spec_of_text ''Name: nodejs-foo'') ''Version'' = None"
    by (simp add: spec_of_text_def spec_read_def py_readlines_def gettag_def is_boundary_def case_defs)
  from genpkg_missing_version [OF ex_spec_resolve f fl g] show ?thesis by simp
qed

theorem genpkg_unsupported_range_witness:
  "fst (do_genpkg (ex_sync_env ''1.2.0'' (JObj [(''bar'', JStr ''>=1.0.0 <2.0.0'')]) False) False ''foo'' ex_empty_world)
     = Inl (Exception ''unsupported version specification >'') \<and>
   files (snd (do_genpkg (ex_sync_env ''1.2.0'' (JObj [(''bar'', JStr ''>=1.0.0 <2.0.0'')]) False) False ''foo'' ex_empty_world))
     = Map.empty \<and>
   ''nodejs-foo'' \<in> dirs (snd (do_genpkg (ex_sync_env ''1.2.0'' (JObj [(''bar'', JStr ''>=1.0.0 <2.0.0'')]) False) False ''foo'' ex_empty_world))"
proof -
  define E where "E = ex_sync_env ''1.2.0'' (JObj [(''bar'', JStr ''>=1.0.0 <2.0.0'')]) False"
  define D where "D = ex_entry ''1.2.0'' (JObj [(''bar'', JStr ''>=1.0.0 <2.0.0'')])"
  have r: "resolve (''nodejs-'' @ ''foo'') ex_empty_world = (Inr (''nodejs-foo'', False), ex_empty_world)"
    by (simp add: resolve_run path_exists_def path_join_def ex_empty_world_def)
  obtain W1 where f: "fetch_registry E ''foo'' ex_empty_world = (Inr D, W1)"
    and fW1: "files W1 = Map.empty" and dW1: "dirs W1 = {}"
    using ex_sync_fetch [of ex_empty_world "''1.2.0''" "JObj [(''bar'', JStr ''>=1.0.0 <2.0.0'')]" False]
    by (simp add: E_def D_def ex_empty_world_def)
  define W2 where "W2 = apply_event (Get (source_url ''nodejs-foo'') []) W1"
  have c: "check_dln_exists E (''nodejs-'' @ ''foo'') W1 = (Inr None, W2)"
    by (simp add: ex_sync_check E_def W2_def)
  have t: "get_templatedata D = Inl (Exception ''unsupported version specification >'')"
    by (simp add: get_templatedata_def license_of_def requires_of_def translate_range_def first_line_def
        D_def ex_entry_def LF_def)
  define W3 where "W3 = apply_event (Mkdir ''nodejs-foo'') W2"
  have p: "prepare_dst False ''nodejs-foo'' W2 = (Inr (), W3)"
    using fW1 dW1 by (simp add: prepare_dst_def exists_def io_bind_def os_mkdir_def path_exists_def emit_def
        dir_ok_def parent_def W2_def W3_def)
  from genpkg_unsupported_range [OF r f c t p] fW1 show ?thesis
    by (simp add: E_def W3_def W2_def)
qed

theorem release_download_failure_keeps_log_witness:
  "fst (record_release (ex_env (\<lambda>u hs. Some \<lparr>status_code = 404, resp_headers = [], content = []\<rparr>) (\<lambda>_. None))
      ''.'' ''nodejs-foo'' (JObj [(''version'', JStr ''1.1.0''), (''dist'', JObj [(''tarball'', JStr ''https://r.org/foo-1.1.0.tgz'')])]) ex_fs)
     = Inl (HTTPError 404) \<and>
   files (snd (record_release (ex_env (\<lambda>u hs. Some \<lparr>status_code = 404, resp_headers = [], content = []\<rparr>) (\<lambda>_. None))
      ''.'' ''nodejs-foo'' (JObj [(''version'', JStr ''1.1.0''), (''dist'', JObj [(''tarball'', JStr ''https://r.org/foo-1.1.0.tgz'')])]) ex_fs))
     ''nodejs-foo.changes''
   = Some (changes_entry (ex_env (\<lambda>u hs. Some \<lparr>status_code = 404, resp_headers = [], content = []\<rparr>) (\<lambda>_. None)) (JStr ''1.1.0'') @ ''old'')"
proof -
  define E where "E = ex_env (\<lambda>u hs. Some \<lparr>status_code = 404, resp_headers = [], content = []\<rparr>) (\<lambda>_. None)"
  define D where "D = JObj [(''version'', JStr ''1.1.0''), (''dist'', JObj [(''tarball'', JStr ''https://r.org/foo-1.1.0.tgz'')])]"
  have cp: "norm_path (changes_path ''.'' ''nodejs-foo'') = ''nodejs-foo.changes''"
    by (simp add: changes_path_def path_join_def)
  obtain w1 where c: "write_changes_file E ''.'' ''nodejs-foo'' D ex_fs = (Inr (), w1)"
    using write_changes_file_ok_run [of "''.''" "''nodejs-foo''" ex_fs D "JStr ''1.1.0''" E] cp
    by (simp add: ex_fs_def dir_ok_def parent_def D_def)
  have u: "tarball_url D = Inr ''https://r.org/foo-1.1.0.tgz''" by (simp add: tarball_url_def D_def)
  have f1: "files w1 ''foo-1.1.0.tgz'' = None"
    using write_changes_file_other [OF c, of "''foo-1.1.0.tgz''"] cp by (simp add: ex_fs_def)
  have "download E ''https://r.org/foo-1.1.0.tgz'' ''.'' w1 = (Inl (HTTPError 404), apply_event (Get ''https://r.org/foo-1.1.0.tgz'' []) w1)"
    using f1 keepsD [OF keeps_dirs_write_changes_file c]
    by (simp add: download_eq archive_path_def basename_def path_join_def path_exists_def E_def ex_env_def
        raise_for_status_def ex_fs_def)
  from release_download_failure_keeps_log [OF c u this] cp show ?thesis
    by (simp add: E_def D_def ex_fs_def file_content_def)
qed

end
