(* ===== verification/Cli.thy ===== *)
theory Cli
  imports GenPkg
begin

text \<open>
  The command line (\<^verbatim>\<open>src/npmspec.py\<close>, class \<^verbatim>\<open>BoilderPlate\<close> and
  \<^verbatim>\<open>__main__\<close>): the global options of \<^verbatim>\<open>get_optparser\<close> (lines 74--79), the
  log level \<^verbatim>\<open>postoptparse\<close> derives from them (lines 81--90), the two subcommands
  with their flags (lines 92--93, 103--106) as a datatype of commands, the dispatch of
  \<^verbatim>\<open>cmdln\<close> to \<^verbatim>\<open>do_genspec\<close> and \<^verbatim>\<open>do_genpkg\<close>, and the exit status of
  \<^verbatim>\<open>sys.exit(app.main())\<close> (lines 292--294): 0 when the handler returns, 1 for an
  uncaught exception. \<open>--dry\<close> and the subcommands' \<open>--force\<close> are parsed but
  never read, and \<open>--debug\<close> and \<open>--verbose\<close> only choose the log level, so
  \<open>main\<close> hands the command to \<open>run_command\<close> without the options.
\<close>

text \<open>\<open>logging.DEBUG\<close> and \<open>logging.INFO\<close>; no level is \<^verbatim>\<open>None\<close>.\<close>

datatype log_level = DEBUG | INFO

text \<open>The options \<open>--dry\<close>, \<open>--debug\<close>, \<open>--verbose\<close>.\<close>

record cli_options =
  opt_dry :: bool
  opt_debug :: bool
  opt_verbose :: bool

definition postoptparse :: "cli_options \<Rightarrow> log_level option" where
  "postoptparse opts =
     (if opt_debug opts then Some DEBUG else if opt_verbose opts then Some INFO else None)"

text \<open>\<open>genspec [-f] PKG\<close> and \<open>genpkg [-u] [-f] NAME\<close>.\<close>

datatype command =
    CmdGenSpec string bool
  | CmdGenPkg string bool bool

text \<open>The handler \<open>do_<subcommand>\<close>; the result is what \<open>genspec\<close> prints.\<close>

definition run_command :: "env \<Rightarrow> command \<Rightarrow> string option act" where
  "run_command E cmd =
     (case cmd of
        CmdGenSpec pkg force \<Rightarrow> io_bind (do_genspec E pkg) (\<lambda>out. io_return (Some out))
      | CmdGenPkg name upd force \<Rightarrow> io_seq (do_genpkg E upd name) (io_return None))"

definition exit_status :: "py_error + 'a \<Rightarrow> nat" where
  "exit_status r = (case r of Inl e \<Rightarrow> 1 | Inr a \<Rightarrow> 0)"

definition main :: "env \<Rightarrow> cli_options \<Rightarrow> command \<Rightarrow> world \<Rightarrow> (nat \<times> string option) \<times> world" where
  "main E opts cmd w =
     (let (r, w') = run_command E cmd w in
      ((exit_status r, case r of Inr out \<Rightarrow> out | Inl e \<Rightarrow> None), w'))"

end
