(* ===== verification/Spec2Isabelle.thy ===== *)
theory Spec2Isabelle
  imports Cli
begin

text \<open>
  \<^bold>\<open>A verification library for \<^verbatim>\<open>src/npmspec.py\<close>.\<close>
  The program keeps an openSUSE package of a node.js module in step with the npm
  registry. Its subcommand \<^verbatim>\<open>genpkg\<close> (\<^verbatim>\<open>do_genpkg\<close>) finds the package
  descriptor \<^verbatim>\<open>nodejs-N.spec\<close>, fetches the registry document through a conditional
  cache (\<^verbatim>\<open>fetch_registry\<close>), and then either creates the package (checking first
  that the build service does not track it, \<^verbatim>\<open>check_dln_exists\<close>; rendering the
  descriptor and service file from \<^verbatim>\<open>get_templatedata\<close>), does nothing, or
  rewrites the descriptor's \<open>Version\<close> field (class \<^verbatim>\<open>Spec\<close>); both writing arms
  prepend an entry to the change log (\<^verbatim>\<open>write_changes_file\<close>) and download the
  source archive (\<^verbatim>\<open>download\<close>). The subcommand \<^verbatim>\<open>genspec\<close> prints the
  rendered descriptor.

  \<^bold>\<open>Theories.\<close>
  \<^item> \<open>Prelude\<close>: the Python exceptions (\<open>py_error\<close>), the state-and-exception monad
    \<open>('s, 'a) io\<close> with \<open>io_return\<close>, \<open>io_raise\<close>, \<open>io_bind\<close>, \<open>io_lift\<close>,
    \<open>io_seq\<close> (a raise keeps the state reached so far), \<open>sum_bind\<close> for pure code,
    and \<open>str.startswith\<close>.
  \<^item> \<open>PyString\<close>: the string library the program calls (\<open>lstrip\<close>, \<open>re.match(r'\s*')\<close>,
    \<open>capitalize\<close>, \<open>join\<close>, \<open>readlines\<close>, \<open>basename\<close>, \<open>os.path.join\<close>).
  \<^item> \<open>SpecFile\<close>: class \<^verbatim>\<open>Spec\<close> (lines 34--63) as the record \<open>spec\<close> with
    \<open>spec_read\<close>, \<open>settag\<close>, \<open>gettag\<close>, \<open>spec_str\<close>; the scans stop at the first
    \<open>%package \<close>/\<open>%description\<close> line (\<open>is_boundary\<close>).
  \<^item> \<open>Json\<close>: decoded JSON values and the dict operations with their exceptions.
  \<^item> \<open>TemplateData\<close>: \<^verbatim>\<open>get_templatedata\<close> (lines 248--277) and its range
    translator (\<open>strip_if\<close>, \<open>range_bound\<close>, \<open>translate_range\<close>, \<open>requires_loop\<close>),
    with the reference \<open>translate_all\<close> and the grammar \<open>range_prefixes\<close>.
  \<^item> \<open>World\<close>: the state (\<open>world\<close>: files, directories, registry cache, trace of
    events), the environment \<open>env\<close> (HTTP servers, JSON and XML decoders, clock,
    templates), the primitive effects (\<open>open_write\<close>, \<open>write_str\<close>, \<open>read_file\<close>,
    \<open>os_rename\<close>, \<open>os_mkdir\<close>, \<open>exists\<close>, \<open>http_get\<close>, \<open>raise_for_status\<close>, ...),
    and two closure properties of computations: \<open>logged\<close> (the final world is the
    initial one with the recorded events applied), \<open>keeps\<close> (a part of the world
    is left unchanged) and \<open>keeps_outside\<close> (files change only at given paths),
    with intro rules in \<open>logged_intros\<close>, \<open>keeps_intros\<close> and \<open>outside_intros\<close>.
  \<^item> \<open>Registry\<close>: \<^verbatim>\<open>fetch_registry\<close> (lines 217--246).
  \<^item> \<open>Changes\<close>: \<^verbatim>\<open>write_changes_file\<close> (lines 168--184) and its eight events.
  \<^item> \<open>Obs\<close>: \<^verbatim>\<open>check_dln_exists\<close> (lines 186--203).
  \<^item> \<open>Download\<close>: \<^verbatim>\<open>download\<close> (lines 205--215) with \<open>iter_content\<close> as \<open>chunks\<close>.
  \<^item> \<open>GenPkg\<close>: \<^verbatim>\<open>do_genspec\<close>, \<^verbatim>\<open>genspec\<close>, \<^verbatim>\<open>genservice\<close> and \<^verbatim>\<open>do_genpkg\<close>
    (lines 94--166, 279--289), split into \<open>resolve\<close>, \<open>obs_notice\<close>,
    \<open>prepare_dst\<close>, \<open>update_branch\<close>, \<open>create_branch\<close> and \<open>record_release\<close>;
    \<open>create_package_dir\<close> models \<open>osc.core.createPackageDir\<close> of the osc library.
  \<^item> \<open>Cli\<close>: the options of \<^verbatim>\<open>get_optparser\<close>, the log level of
    \<^verbatim>\<open>postoptparse\<close>, the subcommands as the datatype \<open>command\<close>, their dispatch
    (\<open>run_command\<close>) and the exit status of \<^verbatim>\<open>__main__\<close> (\<open>main\<close>).

  \<^bold>\<open>Correspondence.\<close> Every Python function that changes the outside world is a
  computation \<open>'a act = world \<Rightarrow> (py_error + 'a) \<times> world\<close>; each \<open>raise\<close> and each
  implicit exception (\<open>KeyError\<close>, \<open>IndexError\<close>, \<open>IOError\<close>, HTTP errors) is an
  \<open>Inl\<close> result, in the order the code evaluates its expressions. \<open>open(p, 'w')\<close>
  is the event \<open>Truncate\<close>, each \<open>fh.write\<close> an \<open>Append\<close>, so partly written files
  are states of the model; a run interrupted after \<open>k\<close> events leaves
  \<open>fold apply_event (take k evs) w\<close>. Paths are compared after removing \<open>./\<close>
  prefixes (\<open>norm_path\<close>). The registry cache files are the map \<open>cache\<close> from
  package name to document, written by the event \<open>CacheStore\<close>.

  \<^bold>\<open>What is proved.\<close>
  \<^item> Descriptor (C1--C6): \<open>settag\<close>/\<open>gettag\<close> agree, edit only matching preamble lines,
    keep the whitespace before the value, stop at the boundary, and the read/print
    round trip loses exactly the last character.
  \<^item> Range translator and template context (C7--C12): the accepted ranges are exactly
    \<open>[=][v](^|~)X\<close>, each gives \<open>k >= X\<close>; every failure raises, and one bad
    dependency aborts the whole context; the loop equals the reference translation.
  \<^item> Registry cache (C13--C16): 304 reuses the cache, other answers store the tagged
    body, the cache stays tagged, and two fetches against an unchanged registry agree.
  \<^item> Change log (C17--C19): prepend, atomic replacement under interruption, and the
    temporary file left behind when the version is missing.
  \<^item> Build-service check and download (C20--C24): outcomes of the check, which only
    reads and asks for the file info exactly when the probe answers 200; the download
    stores the body, is idempotent, and keeps a truncated archive.
  \<^item> Orchestrator (C25--C31, C34): the NoOp, preview, tracked, Update and Create
    transitions and the two error paths; a rejected range aborts with no file written
    but the osc store files of the new package. The witnesses run the spec's scenarios
    (Create with \<open>bar ^1.0.0\<close>, NoOp, Update applied, unsupported range) on concrete
    worlds. C34: the log is written before the download, so a failed download leaves it.
  \<^item> Further (C32, C33): the log rewrite completes when nothing is in its way;
    printing and reading a descriptor shortens its last line.

  \<^bold>\<open>Bounds and loops.\<close> Every loop of the program runs over a finite list (lines,
  dependencies, response pieces), so every definition is total: \<open>chunks\<close> terminates
  by the length of the remaining body, the other loops are structural recursion. No
  fuel is needed. \<open>iter_content(4096)\<close> is idealised as slices of exactly 4096
  characters (the last one shorter); the real sizes depend on the transfer, and the
  theorems use only that the pieces concatenate to the body, except C24, which names
  the prefix the first pieces form.

  \<^bold>\<open>Not modelled.\<close> The jinja2 templates (files outside \<^verbatim>\<open>src/\<close>) are the
  uninterpreted renderers of the environment; the HTTP transport and the JSON and XML
  parsers are functions of the environment; the JSON encoding of the cache file is
  abstracted to storing the document in one event (\<open>store_fresh\<close>; the real write,
  and the \<open>os.makedirs\<close> before it, can be interrupted), and a cache file that does not
  decode, on which \<open>json.load\<close> would raise, is not a state of the model;
  \<open>osc.core.createPackageDir\<close> (osc library) is modelled from its documented
  behaviour: the store files it writes have the project's values, and the package
  list \<open>.osc/_packages\<close>, which osc re-serialises as XML, gets one appended entry;
  a missing template (jinja2's \<open>get_template\<close>) is not an error of the model; the
  iteration order of \<open>dict.items()\<close> is the decoded order of the dict (Python 2 uses
  hash order; the theorems hold for whatever order the list gives); the log output and \<^verbatim>\<open>print\<close>
  of the dependencies, the parsing of the command line and the dispatch by
  \<^verbatim>\<open>cmdln\<close> (modelled as the datatype \<open>command\<close>), and the osc
  configuration and template loader read in \<^verbatim>\<open>__init__\<close> (lines 67--72) have no
  effect on the modelled state; floats, escapes in \<open>repr\<close>, and Python 2 dict ordering beyond insertion
  order are not modelled.
\<close>

end
